theory Spec2Isabelle
  imports Main "HOL-Library.Word"
begin

section \<open>Host types\<close>

text \<open>
  The export-type model of slang reads clang's type graph. The functions of
  \<^verbatim>\<open>slang_rs_export_type.cpp\<close> look at a type after \<^verbatim>\<open>GET_CANONICAL_TYPE\<close> (or after
  one of the macros \<^verbatim>\<open>GET_POINTEE_TYPE\<close>, \<^verbatim>\<open>GET_EXT_VECTOR_ELEMENT_TYPE\<close> and
  \<^verbatim>\<open>GET_CONSTANT_ARRAY_ELEMENT_TYPE\<close>, which give canonical types), so a host type
  \<open>Type\<close> is a type in canonical form and the functions that canonicalise their
  argument first are given it in that form. The one exception is
  \<^verbatim>\<open>RSExportMatrixType::Create\<close>, which tests the class of the type of a field as
  \<^verbatim>\<open>GetTypeOfDecl\<close> returns it, before any canonicalisation. So a field declaration
  holds its type as it is written (\<open>DeclType\<close>): \<open>Plain T\<close> is a type node that has
  the class of its canonical form \<open>T\<close> (such as \<^verbatim>\<open>float m[4]\<close>), and
  \<open>Typedef Name T\<close> is a typedef name, a node of the class \<^verbatim>\<open>Typedef\<close> whose
  canonical form is \<open>T\<close> (such as \<^verbatim>\<open>vec m\<close> after \<^verbatim>\<open>typedef float vec[4]\<close>).
  A NULL type pointer is \<open>None\<close> where the source can meet one
  (\<^verbatim>\<open>GetTypeOfDecl\<close>). Only the type classes that the file distinguishes are
  constructors of their own; \<open>IncompleteArray\<close> stands for the array classes other than
  \<open>ConstantArray\<close> and \<open>EnumType\<close> for a class that reaches the \<^verbatim>\<open>default\<close>
  branches.

  An \<^verbatim>\<open>assert\<close> is recorded as the event \<open>AssertFailed\<close> where the function writes
  to a diagnostic trace, and execution goes on with the statement after it, as it does in
  a release build (the source puts a \<^verbatim>\<open>return NULL\<close> after each \<^verbatim>\<open>assert(false)\<close>).
\<close>

datatype BuiltinKind =
    BT_Void | BT_Bool | BT_Char_U | BT_UChar | BT_Char16 | BT_Char32 | BT_UShort
  | BT_UInt | BT_ULong | BT_ULongLong | BT_Char_S | BT_SChar | BT_WChar | BT_Short
  | BT_Int | BT_Long | BT_LongLong | BT_Float | BT_Double | BT_LongDouble

datatype TagKind = TTK_Struct | TTK_Union | TTK_Class

datatype TypeClass =
    TC_Builtin | TC_Record | TC_Pointer | TC_ExtVector | TC_ConstantArray
  | TC_IncompleteArray | TC_Enum

datatype Type =
    Builtin BuiltinKind
  | Record RecordDecl
  | Pointer Type
  | ExtVector Type "32 word"
  | ConstantArray Type nat
  | IncompleteArray Type
  | EnumType string
and RecordDecl =
    RecordDecl (getTagKind: TagKind) (getName: string)
               (getTypedefForAnonDecl: "string option") (redecls: "string list")
               (getDefinition: "RecordDef option")
and RecordDef =
    RecordDef (getFields: "FieldDecl list") (hasFlexibleArrayMember: bool)
              (hasObjectMember: bool) (hasPackedAttr: bool) (getSizeInBits: nat)
and FieldDecl =
    FieldDecl (getFieldName: string) (getTypeOfDecl: "DeclType option") (isBitField: bool)
              (getFieldOffset: nat)
and DeclType =
    Plain Type
  | Typedef string Type

text \<open>
  \<open>getFieldOffset\<close> is the offset in bits that the record layout holds for the field
  (the source fetches it from the layout by the running index of the field).
\<close>

text \<open>The macro \<^verbatim>\<open>GET_CANONICAL_TYPE\<close> on the type of a declaration.\<close>

fun GET_CANONICAL_TYPE :: "DeclType option \<Rightarrow> Type option" where
  "GET_CANONICAL_TYPE None = None"
| "GET_CANONICAL_TYPE (Some (Plain T)) = Some T"
| "GET_CANONICAL_TYPE (Some (Typedef Name T)) = Some T"

fun getTypeClass :: "Type \<Rightarrow> TypeClass" where
  "getTypeClass (Builtin _) = TC_Builtin"
| "getTypeClass (Record _) = TC_Record"
| "getTypeClass (Pointer _) = TC_Pointer"
| "getTypeClass (ExtVector _ _) = TC_ExtVector"
| "getTypeClass (ConstantArray _ _) = TC_ConstantArray"
| "getTypeClass (IncompleteArray _) = TC_IncompleteArray"
| "getTypeClass (EnumType _) = TC_Enum"

fun getTypeClassName :: "Type \<Rightarrow> string" where
  "getTypeClassName (Builtin _) = ''Builtin''"
| "getTypeClassName (Record _) = ''Record''"
| "getTypeClassName (Pointer _) = ''Pointer''"
| "getTypeClassName (ExtVector _ _) = ''ExtVector''"
| "getTypeClassName (ConstantArray _ _) = ''ConstantArray''"
| "getTypeClassName (IncompleteArray _) = ''IncompleteArray''"
| "getTypeClassName (EnumType _) = ''Enum''"

fun isArrayType :: "Type \<Rightarrow> bool" where
  "isArrayType (ConstantArray _ _) = True"
| "isArrayType (IncompleteArray _) = True"
| "isArrayType _ = False"

fun isUnionType :: "Type \<Rightarrow> bool" where
  "isUnionType (Record RD) = (getTagKind RD = TTK_Union)"
| "isUnionType _ = False"

fun isStructureType :: "Type \<Rightarrow> bool" where
  "isStructureType (Record RD) = (getTagKind RD = TTK_Struct)"
| "isStructureType _ = False"

section \<open>Data types and the tables generated from the include files\<close>

text \<open>
  \<open>DataTypeRSObject\<close> stands for the enumerators that
  \<^verbatim>\<open>ENUM_RS_OBJECT_TYPE\<close> generates, one for each object type, named by the macro's
  first argument.
\<close>

datatype DataType =
    DataTypeUnknown
  | DataTypeFloat32 | DataTypeFloat64
  | DataTypeSigned8 | DataTypeSigned16 | DataTypeSigned32 | DataTypeSigned64
  | DataTypeUnsigned8 | DataTypeUnsigned16 | DataTypeUnsigned32 | DataTypeUnsigned64
  | DataTypeBoolean
  | DataTypeUnsigned565 | DataTypeUnsigned5551 | DataTypeUnsigned4444
  | DataTypeRSMatrix2x2 | DataTypeRSMatrix3x3 | DataTypeRSMatrix4x4
  | DataTypeRSObject string

text \<open>
  The files \<^verbatim>\<open>RSClangBuiltinEnums.inc\<close>, \<^verbatim>\<open>RSMatrixTypeEnums.inc\<close> and
  \<^verbatim>\<open>RSObjectTypeEnums.inc\<close> are not among the sources, so the tables they expand to
  are a parameter of every function that includes them:
  \<open>SupportBuiltinType k = Some (type, cname)\<close> when the first file holds
  \<^verbatim>\<open>ENUM_SUPPORT_BUILTIN_TYPE(k, type, cname)\<close>, and \<open>RSSpecificTypes\<close> lists the pairs
  \<open>(cname, type)\<close> of the other two files in the order of their inclusion.
\<close>

record Tables =
  SupportBuiltinType :: "BuiltinKind \<Rightarrow> (DataType \<times> string) option"
  RSSpecificTypes :: "(string \<times> DataType) list"

section \<open>Diagnostics\<close>

text \<open>A name between single quotes, as the message templates write their arguments.\<close>

definition squote :: "string \<Rightarrow> string" where
  "squote s = CHR 0x27 # s @ [CHR 0x27]"

text \<open>
  A report is the name of the declaration whose source location it carries (if any), the
  message template and the arguments streamed into it (names and unsigned numbers).
\<close>

text \<open>The message templates of the exportability check.\<close>

definition MsgNonPrimitiveVector :: string where
  "MsgNonPrimitiveVector = ''vectors of non-primitive types cannot be exported: '' @ squote ''%0''"

definition MsgWidth3Vector :: string where
  "MsgWidth3Vector = ''arrays of width 3 vector types cannot be exported: '' @ squote ''%0''"

definition MsgUnion :: string where
  "MsgUnion = ''unions cannot be exported: '' @ squote ''%0''"

definition MsgPointerInStruct :: string where
  "MsgPointerInStruct = ''structures containing pointers cannot be exported: '' @ squote ''%0''"

definition MsgBitField :: string where
  "MsgBitField = ''bit fields are not able to be exported: '' @ squote ''%0.%1''"

definition MsgMultidimensional :: string where
  "MsgMultidimensional = ''multidimensional arrays cannot be exported: '' @ squote ''%0''"

definition MsgNotDefined :: string where
  "MsgNotDefined = ''struct is not defined in this module''"

definition MsgAnonymousStruct :: string where
  "MsgAnonymousStruct = ''anonymous structures cannot be exported''"

definition MsgUnknownType :: string where
  "MsgUnknownType = ''Unknown type cannot be exported''"

definition MsgNotValidated :: string where
  "MsgNotValidated = ''Variables should be validated before exporting''"

datatype DiagArg = StrArg string | UIntArg nat

datatype Diag =
    Report "string option" string "DiagArg list"
  | AssertFailed string

definition ReportTypeError ::
  "bool \<Rightarrow> bool \<Rightarrow> string option \<Rightarrow> RecordDecl option \<Rightarrow> string \<Rightarrow> Diag list" where
  "ReportTypeError Diags SM VD TopLevelRecord Message =
     (if \<not> Diags \<or> \<not> SM then []
      else case TopLevelRecord of
             Some RD \<Rightarrow> [Report (Some (getName RD)) Message [StrArg (getName RD)]]
           | None \<Rightarrow>
               (case VD of
                  Some V \<Rightarrow> [Report (Some V) Message [StrArg V]]
                | None \<Rightarrow> [AssertFailed MsgNotValidated]))"

section \<open>Names of record types and the RS specific types\<close>

text \<open>The loop over the redeclarations in \<^verbatim>\<open>RSExportType::GetTypeName\<close>.\<close>

fun RedeclName :: "string list \<Rightarrow> string \<Rightarrow> string" where
  "RedeclName [] Name = Name"
| "RedeclName (RI # RIs) Name = (if RI \<noteq> [] then RI else RedeclName RIs RI)"

text \<open>The case \<^verbatim>\<open>clang::Type::Record\<close> of \<^verbatim>\<open>RSExportType::GetTypeName\<close>.\<close>

definition GetTypeName_Record :: "RecordDecl \<Rightarrow> string" where
  "GetTypeName_Record RD =
     (if getTagKind RD \<noteq> TTK_Struct then []
      else if getName RD \<noteq> [] then getName RD
      else let Name = (case getTypedefForAnonDecl RD of Some TD \<Rightarrow> TD | None \<Rightarrow> getName RD)
           in if Name = [] then RedeclName (redecls RD) Name else Name)"

text \<open>\<^verbatim>\<open>RSExportPrimitiveType::GetRSSpecificType(const llvm::StringRef &)\<close>. The map is
  filled with \<^verbatim>\<open>GetOrCreateValue\<close>, which keeps the first value of a name.\<close>

definition GetRSSpecificType_Name :: "Tables \<Rightarrow> string \<Rightarrow> DataType" where
  "GetRSSpecificType_Name tb TypeName =
     (if TypeName = [] then DataTypeUnknown
      else case map_of (RSSpecificTypes tb) TypeName of
             None \<Rightarrow> DataTypeUnknown
           | Some DT \<Rightarrow> DT)"

text \<open>\<^verbatim>\<open>RSExportPrimitiveType::GetRSSpecificType(const clang::Type *)\<close>. It calls
  \<^verbatim>\<open>GetTypeName\<close> on a record type only, which is the case above.\<close>

definition GetRSSpecificType :: "Tables \<Rightarrow> Type option \<Rightarrow> DataType" where
  "GetRSSpecificType tb T =
     (case T of
        Some (Record RD) \<Rightarrow> GetRSSpecificType_Name tb (GetTypeName_Record RD)
      | _ \<Rightarrow> DataTypeUnknown)"

definition IsPrimitiveType :: "Type option \<Rightarrow> bool" where
  "IsPrimitiveType T = (case T of Some T' \<Rightarrow> getTypeClass T' = TC_Builtin | None \<Rightarrow> False)"

section \<open>The exportability check\<close>

text \<open>
  The set \<open>SPS\<close> is passed by reference in the source: every function returns it next
  to its result, followed by the diagnostics it emitted. \<open>Diags\<close> and \<open>SM\<close> say
  whether the two pointers are non-NULL, \<open>VD\<close> is the name of the variable declaration
  (if one is given). The test for a NULL type at the head of
  \<^verbatim>\<open>TypeExportableHelper\<close> stands where a NULL type can come from: in
  \<open>CheckFields\<close>, the loop over the fields of a record, and in \<open>TypeExportable\<close>.
\<close>

lemma size_getFields:
  "getDefinition RDecl = Some RD \<Longrightarrow> size_list size (getFields RD) < size RDecl"
  by (cases RDecl; cases RD) simp

lemma size_getTypeOfDecl:
  "GET_CANONICAL_TYPE (getTypeOfDecl FD) = Some FT \<Longrightarrow> size FT < size FD"
  by (cases FD; cases "getTypeOfDecl FD" rule: GET_CANONICAL_TYPE.cases) simp_all

type_synonym checked = "Type option \<times> Type set \<times> Diag list"

text \<open>The branch \<^verbatim>\<open>else if (ElementType->isExtVectorType())\<close> of
  \<^verbatim>\<open>ConstantArrayTypeExportableHelper\<close>: the message of the rejection, if any.\<close>

fun ExtVectorElementRejected :: "Type \<Rightarrow> nat \<Rightarrow> string option" where
  "ExtVectorElementRejected (ExtVector BaseElementType numElements) Size =
     (if \<not> IsPrimitiveType (Some BaseElementType)
      then Some MsgNonPrimitiveVector
      else if numElements = 3 \<and> Size \<noteq> 1
      then Some MsgWidth3Vector
      else None)"
| "ExtVectorElementRejected _ Size = None"

text \<open>\<^verbatim>\<open>if (!TopLevelRecord) TopLevelRecord = RD;\<close>\<close>

definition SetTopLevelRecord :: "RecordDecl option \<Rightarrow> RecordDecl \<Rightarrow> RecordDecl option" where
  "SetTopLevelRecord TopLevelRecord RD =
     (case TopLevelRecord of None \<Rightarrow> Some RD | Some TLR \<Rightarrow> Some TLR)"

function (sequential) TypeExportableHelper ::
      "Tables \<Rightarrow> Type \<Rightarrow> Type set \<Rightarrow> bool \<Rightarrow> bool \<Rightarrow> string option \<Rightarrow> RecordDecl option
       \<Rightarrow> checked"
  and CheckFields ::
      "Tables \<Rightarrow> FieldDecl list \<Rightarrow> RecordDecl \<Rightarrow> Type set \<Rightarrow> bool \<Rightarrow> bool \<Rightarrow> string option
       \<Rightarrow> RecordDecl option \<Rightarrow> bool \<times> Type set \<times> Diag list"
  and ConstantArrayTypeExportableHelper ::
      "Tables \<Rightarrow> Type \<Rightarrow> nat \<Rightarrow> Type set \<Rightarrow> bool \<Rightarrow> bool \<Rightarrow> string option
       \<Rightarrow> RecordDecl option \<Rightarrow> checked"
where
  "TypeExportableHelper tb (Builtin BT) SPS Diags SM VD TopLevelRecord =
     (if Builtin BT \<in> SPS then (Some (Builtin BT), SPS, [])
      else case SupportBuiltinType tb BT of
             Some _ \<Rightarrow> (Some (Builtin BT), SPS, [])
           | None \<Rightarrow> (None, SPS, []))"
| "TypeExportableHelper tb (Record RDecl) SPS Diags SM VD TopLevelRecord =
     (if Record RDecl \<in> SPS then (Some (Record RDecl), SPS, [])
      else if GetRSSpecificType tb (Some (Record RDecl)) \<noteq> DataTypeUnknown
      then (Some (Record RDecl), SPS, [])
      else if isUnionType (Record RDecl)
      then (None, SPS,
            ReportTypeError Diags SM None (Some RDecl) MsgUnion)
      else if \<not> isStructureType (Record RDecl)
      then (None, SPS, [AssertFailed MsgUnknownType])
      else case getDefinition RDecl of
             None \<Rightarrow>
               (None, SPS,
                ReportTypeError Diags SM None (Some RDecl)
                  MsgNotDefined)
           | Some RD \<Rightarrow>
               if getName RDecl = []
               then (None, SPS,
                     ReportTypeError Diags SM None (Some RDecl)
                       MsgAnonymousStruct)
               else if hasFlexibleArrayMember RD \<or> hasObjectMember RD
               then (None, SPS, [])
               else (case CheckFields tb (getFields RD) RDecl (insert (Record RDecl) SPS)
                            Diags SM VD
                            (SetTopLevelRecord TopLevelRecord RDecl) of
                       (True, SPS', ds) \<Rightarrow> (Some (Record RDecl), SPS', ds)
                     | (False, SPS', ds) \<Rightarrow> (None, SPS', ds)))"
| "TypeExportableHelper tb (Pointer PointeeType) SPS Diags SM VD TopLevelRecord =
     (if Pointer PointeeType \<in> SPS then (Some (Pointer PointeeType), SPS, [])
      else case TopLevelRecord of
             Some TLR \<Rightarrow>
               (None, SPS,
                ReportTypeError Diags SM None (Some TLR)
                  MsgPointerInStruct)
           | None \<Rightarrow>
               if getTypeClass PointeeType = TC_Pointer
               then (Some (Pointer PointeeType), SPS, [])
               else if isArrayType PointeeType then (None, SPS, [])
               else (case TypeExportableHelper tb PointeeType SPS Diags SM VD None of
                       (None, SPS', ds) \<Rightarrow> (None, SPS', ds)
                     | (Some _, SPS', ds) \<Rightarrow> (Some (Pointer PointeeType), SPS', ds)))"
| "TypeExportableHelper tb (ExtVector ElementType numElements) SPS Diags SM VD TopLevelRecord =
     (if ExtVector ElementType numElements \<in> SPS
      then (Some (ExtVector ElementType numElements), SPS, [])
      else if numElements < 2 \<or> numElements > 4 then (None, SPS, [])
      else if getTypeClass ElementType \<noteq> TC_Builtin then (None, SPS, [])
      else (case TypeExportableHelper tb ElementType SPS Diags SM VD TopLevelRecord of
              (None, SPS', ds) \<Rightarrow> (None, SPS', ds)
            | (Some _, SPS', ds) \<Rightarrow> (Some (ExtVector ElementType numElements), SPS', ds)))"
| "TypeExportableHelper tb (ConstantArray ElementType Size) SPS Diags SM VD TopLevelRecord =
     (if ConstantArray ElementType Size \<in> SPS
      then (Some (ConstantArray ElementType Size), SPS, [])
      else ConstantArrayTypeExportableHelper tb ElementType Size SPS Diags SM VD
             TopLevelRecord)"
| "TypeExportableHelper tb (IncompleteArray ElementType) SPS Diags SM VD TopLevelRecord =
     (if IncompleteArray ElementType \<in> SPS then (Some (IncompleteArray ElementType), SPS, [])
      else (None, SPS, []))"
| "TypeExportableHelper tb (EnumType N) SPS Diags SM VD TopLevelRecord =
     (if EnumType N \<in> SPS then (Some (EnumType N), SPS, []) else (None, SPS, []))"
| "CheckFields tb [] RDecl SPS Diags SM VD TopLevelRecord = (True, SPS, [])"
| "CheckFields tb (FD # FDs) RDecl SPS Diags SM VD TopLevelRecord =
     (case GET_CANONICAL_TYPE (getTypeOfDecl FD) of
        None \<Rightarrow> (False, SPS, [])
      | Some FT \<Rightarrow>
          (case TypeExportableHelper tb FT SPS Diags SM VD TopLevelRecord of
             (None, SPS', ds) \<Rightarrow> (False, SPS', ds)
           | (Some _, SPS', ds) \<Rightarrow>
               if isBitField FD
               then (False, SPS',
                     ds @ (if Diags \<and> SM
                           then [Report (Some (getFieldName FD))
                                   MsgBitField
                                   [StrArg (getName RDecl), StrArg (getFieldName FD)]]
                           else []))
               else (case CheckFields tb FDs RDecl SPS' Diags SM VD TopLevelRecord of
                       (ok, SPS'', ds') \<Rightarrow> (ok, SPS'', ds @ ds'))))"
| "ConstantArrayTypeExportableHelper tb ElementType Size SPS Diags SM VD TopLevelRecord =
     (if isArrayType ElementType
      then (None, SPS,
            ReportTypeError Diags SM VD TopLevelRecord
              MsgMultidimensional)
      else case ExtVectorElementRejected ElementType Size of
             Some Message \<Rightarrow>
               (None, SPS, ReportTypeError Diags SM VD TopLevelRecord Message)
           | None \<Rightarrow>
               (case TypeExportableHelper tb ElementType SPS Diags SM VD TopLevelRecord of
                  (None, SPS', ds) \<Rightarrow> (None, SPS', ds)
                | (Some _, SPS', ds) \<Rightarrow> (Some (ConstantArray ElementType Size), SPS', ds)))"

  by pat_completeness auto

termination
  by (relation "measure (\<lambda>x. case x of
          Inl (tb, T, r) \<Rightarrow> 2 * size T
        | Inr (Inl (tb, FDs, r)) \<Rightarrow> 2 * size_list size FDs
        | Inr (Inr (tb, ElementType, r)) \<Rightarrow> 2 * size ElementType + 1)")
     (auto dest: size_getFields size_getTypeOfDecl)

definition TypeExportable ::
  "Tables \<Rightarrow> Type option \<Rightarrow> bool \<Rightarrow> bool \<Rightarrow> string option \<Rightarrow> Type option \<times> Diag list" where
  "TypeExportable tb T Diags SM VD =
     (case T of
        None \<Rightarrow> (None, [])
      | Some T' \<Rightarrow>
          (case TypeExportableHelper tb T' {} Diags SM VD None of
             (R, SPS, ds) \<Rightarrow> (R, ds)))"

text \<open>
  A pointer inside a structure, as the check meets it: \<open>PointerInside tb T\<close> says that
  \<open>T\<close> is a pointer type, an array of such a type, or a record with such a type among
  the (canonical) types of its fields. The fields of a record that has the name of an RS
  specific type do not count: the check accepts such a record without a look at them.
\<close>

function (sequential) PointerInside :: "Tables \<Rightarrow> Type \<Rightarrow> bool"
  and PointerInFields :: "Tables \<Rightarrow> FieldDecl list \<Rightarrow> bool"
where
  "PointerInside tb (Pointer PointeeType) = True"
| "PointerInside tb (ConstantArray ElementType Size) = PointerInside tb ElementType"
| "PointerInside tb (Record RDecl) =
     (GetRSSpecificType tb (Some (Record RDecl)) = DataTypeUnknown \<and>
      (case getDefinition RDecl of
         None \<Rightarrow> False
       | Some RD \<Rightarrow> PointerInFields tb (getFields RD)))"
| "PointerInside tb T = False"
| "PointerInFields tb [] = False"
| "PointerInFields tb (FD # FDs) =
     ((case GET_CANONICAL_TYPE (getTypeOfDecl FD) of
         None \<Rightarrow> False
       | Some FT \<Rightarrow> PointerInside tb FT) \<or>
      PointerInFields tb FDs)"
  by pat_completeness auto

termination
  by (relation "measure (\<lambda>x. case x of
          Inl (tb, T) \<Rightarrow> size T
        | Inr (tb, FDs) \<Rightarrow> size_list size FDs)")
     (auto dest: size_getFields size_getTypeOfDecl)

section \<open>Canonical names\<close>

text \<open>
  Modelled from the spec: the macros \<^verbatim>\<open>DUMMY_RS_TYPE_NAME_PREFIX\<close>,
  \<^verbatim>\<open>DUMMY_RS_TYPE_NAME_POSTFIX\<close> and
  \<^verbatim>\<open>DUMMY_TYPE_NAME_FOR_RS_CONSTANT_ARRAY_TYPE\<close> are defined in
  \<^verbatim>\<open>slang_rs_export_type.h\<close>, which is not among the sources. The spec calls the
  name of a constant array "a fixed sentinel placeholder name"; the constructor of
  \<^verbatim>\<open>RSExportType\<close> says of the prefix: "Don't cache the type whose name start with
  '<'".
\<close>

definition DUMMY_RS_TYPE_NAME_PREFIX :: string where
  "DUMMY_RS_TYPE_NAME_PREFIX = ''<''"

definition DUMMY_RS_TYPE_NAME_POSTFIX :: string where
  "DUMMY_RS_TYPE_NAME_POSTFIX = ''>''"

definition DUMMY_TYPE_NAME_FOR_RS_CONSTANT_ARRAY_TYPE :: string where
  "DUMMY_TYPE_NAME_FOR_RS_CONSTANT_ARRAY_TYPE =
     DUMMY_RS_TYPE_NAME_PREFIX @ ''ConstantArray'' @ DUMMY_RS_TYPE_NAME_POSTFIX"

text \<open>
  A read of an array outside its bounds has no defined result in C++: it is a fault of
  its own, with the index that was read.
\<close>

datatype fault = OutOfBoundsRead nat

definition NameTableAt :: "string list \<Rightarrow> 32 word \<Rightarrow> fault + string" where
  "NameTableAt Name i =
     (if unat i < length Name then Inr (Name ! unat i) else Inl (OutOfBoundsRead (unat i)))"

text \<open>
  \<^verbatim>\<open>RSExportVectorType::GetTypeName\<close>. The number of elements is an
  \<^verbatim>\<open>unsigned\<close>, so \<^verbatim>\<open>getNumElements() - 2\<close> wraps around below 2. The empty
  \<^verbatim>\<open>StringRef\<close> is the empty string.
\<close>

definition RSExportVectorType_GetTypeName :: "Tables \<Rightarrow> Type \<Rightarrow> 32 word \<Rightarrow> fault + string" where
  "RSExportVectorType_GetTypeName tb ElementType numElements =
     (case ElementType of
        Builtin BT \<Rightarrow>
          if numElements < 1 \<or> numElements > 4 then Inr []
          else (case SupportBuiltinType tb BT of
                  Some (DT, cname) \<Rightarrow>
                    NameTableAt [cname @ ''2'', cname @ ''3'', cname @ ''4''] (numElements - 2)
                | None \<Rightarrow> Inr [])
      | _ \<Rightarrow> Inr [])"

definition MsgAnonymousType :: string where
  "MsgAnonymousType = ''anonymous types cannot be exported''"

lemma TypeExportableHelper_same:
  "TypeExportableHelper tb T SPS Diags SM VD TLR = (Some T', r) \<Longrightarrow> T' = T"
  by (cases T) (auto split: if_splits option.splits prod.splits bool.splits)

lemma TypeExportable_same:
  "TypeExportable tb (Some T) Diags SM VD = (Some T', ds) \<Longrightarrow> T' = T"
  by (auto simp: TypeExportable_def split: prod.splits dest: TypeExportableHelper_same)

text \<open>
  \<^verbatim>\<open>RSExportType::GetTypeName\<close> and \<^verbatim>\<open>RSExportType::NormalizeType\<close>. The latter
  returns the canonical type and the name through its reference parameters:
  \<open>Inr (Some (T, TypeName))\<close> is the result \<^verbatim>\<open>true\<close>, \<open>Inr None\<close> is
  \<^verbatim>\<open>false\<close>.
\<close>

function (sequential) RSExportType_GetTypeName :: "Tables \<Rightarrow> Type option \<Rightarrow> fault + string"
  and NormalizeType ::
      "Tables \<Rightarrow> Type option \<Rightarrow> bool \<Rightarrow> bool \<Rightarrow> string option
       \<Rightarrow> (fault + (Type \<times> string) option) \<times> Diag list"
where
  "RSExportType_GetTypeName tb None = Inr []"
| "RSExportType_GetTypeName tb (Some (Builtin BT)) =
     (case SupportBuiltinType tb BT of
        Some (DT, cname) \<Rightarrow> Inr cname
      | None \<Rightarrow> Inr [])"
| "RSExportType_GetTypeName tb (Some (Record RD)) = Inr (GetTypeName_Record RD)"
| "RSExportType_GetTypeName tb (Some (Pointer PT)) =
     (case NormalizeType tb (Some PT) False False None of
        (Inl f, ds) \<Rightarrow> Inl f
      | (Inr (Some (PT', PointeeName)), ds) \<Rightarrow> Inr (CHR ''*'' # PointeeName)
      | (Inr None, ds) \<Rightarrow> Inr [])"
| "RSExportType_GetTypeName tb (Some (ExtVector ElementType numElements)) =
     RSExportVectorType_GetTypeName tb ElementType numElements"
| "RSExportType_GetTypeName tb (Some (ConstantArray ElementType Size)) =
     Inr DUMMY_TYPE_NAME_FOR_RS_CONSTANT_ARRAY_TYPE"
| "RSExportType_GetTypeName tb (Some T) = Inr []"
| "NormalizeType tb T Diags SM VD =
     (case TypeExportable tb T Diags SM VD of
        (None, ds) \<Rightarrow> (Inr None, ds)
      | (Some T', ds) \<Rightarrow>
          (case RSExportType_GetTypeName tb (Some T') of
             Inl f \<Rightarrow> (Inl f, ds)
           | Inr TypeName \<Rightarrow>
               if TypeName = []
               then (Inr None,
                     ds @ (if Diags \<and> SM then [Report VD MsgAnonymousType []] else []))
               else (Inr (Some (T', TypeName)), ds)))"
  by pat_completeness auto

termination
  by (relation "measure (\<lambda>x. case x of
          Inl (tb, T) \<Rightarrow> 2 * size_option size T
        | Inr (tb, T, r) \<Rightarrow> 2 * size_option size T + 1)")
     (auto simp: TypeExportable_def split: option.splits prod.splits
           dest: TypeExportableHelper_same)


section \<open>Sample tables\<close>

text \<open>
  Modelled from the spec: a sample of the tables of the three include files, which are
  not among the sources. It is used only to evaluate the functions at concrete inputs.
  The spec names the scalar \<open>int\<close> (canonical name "int", 32-bit signed) and
  \<open>float\<close>, and the matrix and object/handle pseudo-primitive types.
\<close>

fun SampleBuiltinType :: "BuiltinKind \<Rightarrow> (DataType \<times> string) option" where
  "SampleBuiltinType BT_Bool = Some (DataTypeBoolean, ''bool'')"
| "SampleBuiltinType BT_UChar = Some (DataTypeUnsigned8, ''uchar'')"
| "SampleBuiltinType BT_Int = Some (DataTypeSigned32, ''int'')"
| "SampleBuiltinType BT_UInt = Some (DataTypeUnsigned32, ''uint'')"
| "SampleBuiltinType BT_Float = Some (DataTypeFloat32, ''float'')"
| "SampleBuiltinType BT_Double = Some (DataTypeFloat64, ''double'')"
| "SampleBuiltinType _ = None"

definition SampleTables :: Tables where
  "SampleTables =
     \<lparr>SupportBuiltinType = SampleBuiltinType,
      RSSpecificTypes =
        [(''rs_matrix2x2'', DataTypeRSMatrix2x2),
         (''rs_matrix3x3'', DataTypeRSMatrix3x3),
         (''rs_matrix4x4'', DataTypeRSMatrix4x4),
         (''rs_element'', DataTypeRSObject ''RSElement''),
         (''rs_allocation'', DataTypeRSObject ''RSAllocation'')]\<rparr>"

section \<open>Properties of the exportability check\<close>

text \<open>
  Only record types are ever inserted into the checking set, so between any two steps of
  a check that \<open>TypeExportable\<close> started the set holds record types only.
\<close>

definition OnlyRecords :: "Type set \<Rightarrow> bool" where
  "OnlyRecords SPS = (\<forall>T \<in> SPS. getTypeClass T = TC_Record)"

lemma OnlyRecords_insert: "OnlyRecords SPS \<Longrightarrow> OnlyRecords (insert (Record RD) SPS)"
  by (simp add: OnlyRecords_def)

lemma OnlyRecords_preserved:
  "TypeExportableHelper tb T SPS Diags SM VD TLR = (R, SPS', ds) \<Longrightarrow> OnlyRecords SPS \<Longrightarrow>
     OnlyRecords SPS'"
  "CheckFields tb FDs RDecl SPS Diags SM VD TLR = (ok, SPS', ds) \<Longrightarrow> OnlyRecords SPS \<Longrightarrow>
     OnlyRecords SPS'"
  "ConstantArrayTypeExportableHelper tb E Size SPS Diags SM VD TLR = (R, SPS', ds) \<Longrightarrow>
     OnlyRecords SPS \<Longrightarrow> OnlyRecords SPS'"
proof (induction tb T SPS Diags SM VD TLR and tb FDs RDecl SPS Diags SM VD TLR
         and tb E Size SPS Diags SM VD TLR
       arbitrary: R SPS' ds and ok SPS' ds and R SPS' ds
       rule: TypeExportableHelper_CheckFields_ConstantArrayTypeExportableHelper.induct)
  case (2 tb RDecl SPS Diags SM VD TopLevelRecord)
  show ?case
  proof (cases "Record RDecl \<notin> SPS \<and> GetRSSpecificType tb (Some (Record RDecl)) = DataTypeUnknown
                \<and> \<not> isUnionType (Record RDecl) \<and> isStructureType (Record RDecl)
                \<and> getName RDecl \<noteq> []
                \<and> (\<exists>RD. getDefinition RDecl = Some RD \<and> \<not> hasFlexibleArrayMember RD \<and> \<not> hasObjectMember RD)")
    case False
    with "2.prems" show ?thesis
      by (auto split: if_splits option.splits)
  next
    case True
    then obtain RD where RD: "getDefinition RDecl = Some RD" "\<not> hasFlexibleArrayMember RD"
       "\<not> hasObjectMember RD" by auto
    obtain ok S1 d1 where H: "CheckFields tb (getFields RD) RDecl (insert (Record RDecl) SPS) Diags SM VD
             (SetTopLevelRecord TopLevelRecord RDecl) = (ok, S1, d1)"
      by (cases "CheckFields tb (getFields RD) RDecl (insert (Record RDecl) SPS) Diags SM VD
             (SetTopLevelRecord TopLevelRecord RDecl)") auto
    have "OnlyRecords S1"
      using "2.IH"[OF _ _ _ _ RD(1) _ _ H OnlyRecords_insert[OF "2.prems"(2)]] True RD by simp
    with "2.prems"(1) True RD H show ?thesis by (auto split: bool.splits)
  qed
next
  case (9 tb FD FDs RDecl SPS Diags SM VD TopLevelRecord)
  show ?case
  proof (cases "GET_CANONICAL_TYPE (getTypeOfDecl FD)")
    case None
    with "9.prems" show ?thesis by simp
  next
    case (Some FT)
    obtain R1 S1 d1 where H: "TypeExportableHelper tb FT SPS Diags SM VD TopLevelRecord = (R1, S1, d1)"
      by (cases "TypeExportableHelper tb FT SPS Diags SM VD TopLevelRecord") auto
    have S1: "OnlyRecords S1" using "9.IH"(1)[OF Some H "9.prems"(2)] .
    show ?thesis
    proof (cases "R1 \<noteq> None \<and> \<not> isBitField FD")
      case False
      with "9.prems"(1) Some H S1 show ?thesis by (auto split: if_splits option.splits)
    next
      case True
      then obtain T1 where R1: "R1 = Some T1" by auto
      obtain ok2 S2 d2 where H2: "CheckFields tb FDs RDecl S1 Diags SM VD TopLevelRecord = (ok2, S2, d2)"
        by (cases "CheckFields tb FDs RDecl S1 Diags SM VD TopLevelRecord") auto
      have "OnlyRecords S2"
        using "9.IH"(2)[OF Some H[symmetric] R1 refl _ H2 S1] True by simp
      with "9.prems"(1) Some H R1 True H2 show ?thesis by simp
    qed
  qed
qed (auto split: if_splits option.splits prod.splits)

lemma NotInSPS: "OnlyRecords SPS \<Longrightarrow> getTypeClass T \<noteq> TC_Record \<Longrightarrow> T \<notin> SPS"
  by (auto simp: OnlyRecords_def)

lemma builtin_exportable:
  "OnlyRecords SPS \<Longrightarrow>
     TypeExportableHelper tb (Builtin BT) SPS Diags SM VD TLR =
       (if SupportBuiltinType tb BT = None then None else Some (Builtin BT), SPS, [])"
  by (auto simp: NotInSPS split: option.splits)

text \<open>
  The check rejects a type that has a pointer inside, once a top-level record is set (as
  it is from the first record on). The checking set is never emptied, so the statement
  is an invariant of the set: a member of the set that has a pointer inside is a record
  whose fields are being checked, which is larger than every type below it
  (\<open>Guarded\<close>); every other member has passed the check.
\<close>

definition Guarded :: "Tables \<Rightarrow> nat \<Rightarrow> Type set \<Rightarrow> bool" where
  "Guarded tb k SPS = (\<forall>X \<in> SPS. PointerInside tb X \<longrightarrow> k < size X)"

lemma Guarded_mono: "Guarded tb k SPS \<Longrightarrow> k' \<le> k \<Longrightarrow> Guarded tb k' SPS"
  by (auto simp: Guarded_def)

lemma Guarded_member: "Guarded tb (size T) SPS \<Longrightarrow> T \<in> SPS \<Longrightarrow> \<not> PointerInside tb T"
  by (auto simp: Guarded_def)

lemma Guarded_new:
  "Guarded tb k SPS \<Longrightarrow> \<forall>X \<in> SPS'. X \<in> SPS \<or> \<not> PointerInside tb X \<Longrightarrow> Guarded tb k SPS'"
  by (auto simp: Guarded_def)

lemma Guarded_insert:
  "Guarded tb k SPS \<Longrightarrow> k' \<le> k \<Longrightarrow> k' < size T \<Longrightarrow> Guarded tb k' (insert T SPS)"
  by (auto simp: Guarded_def)

lemma PointerInside_checked:
  "TypeExportableHelper tb T SPS Diags SM VD TLR = (R, SPS', ds) \<Longrightarrow>
     Guarded tb (size T) SPS \<Longrightarrow> TLR \<noteq> None \<or> getTypeClass T = TC_Record \<Longrightarrow>
     (PointerInside tb T \<longrightarrow> R = None) \<and>
     (R \<noteq> None \<longrightarrow> (\<forall>X \<in> SPS'. X \<in> SPS \<or> \<not> PointerInside tb X))"
  "CheckFields tb FDs RDecl SPS Diags SM VD TLR = (ok, SPS', ds) \<Longrightarrow>
     Guarded tb (size_list size FDs) SPS \<Longrightarrow> TLR \<noteq> None \<Longrightarrow>
     (PointerInFields tb FDs \<longrightarrow> \<not> ok) \<and>
     (ok \<longrightarrow> (\<forall>X \<in> SPS'. X \<in> SPS \<or> \<not> PointerInside tb X))"
  "ConstantArrayTypeExportableHelper tb E Size SPS Diags SM VD TLR = (R, SPS', ds) \<Longrightarrow>
     Guarded tb (size E) SPS \<Longrightarrow> TLR \<noteq> None \<Longrightarrow>
     (PointerInside tb E \<longrightarrow> R = None) \<and>
     (R \<noteq> None \<longrightarrow> (\<forall>X \<in> SPS'. X \<in> SPS \<or> \<not> PointerInside tb X))"
proof (induction tb T SPS Diags SM VD TLR and tb FDs RDecl SPS Diags SM VD TLR
         and tb E Size SPS Diags SM VD TLR
       arbitrary: R SPS' ds and ok SPS' ds and R SPS' ds
       rule: TypeExportableHelper_CheckFields_ConstantArrayTypeExportableHelper.induct)
  case (1 tb BT SPS Diags SM VD TopLevelRecord)
  then show ?case by (auto split: if_splits option.splits)
next
  case (2 tb RDecl SPS Diags SM VD TopLevelRecord)
  show ?case
  proof (cases "Record RDecl \<in> SPS")
    case True
    with "2.prems"(1) have "R = Some (Record RDecl)" "SPS' = SPS" by simp_all
    with Guarded_member [OF "2.prems"(2) True] show ?thesis by simp
  next
    case NotIn: False
    show ?thesis
    proof (cases "GetRSSpecificType tb (Some (Record RDecl)) = DataTypeUnknown
                \<and> \<not> isUnionType (Record RDecl) \<and> isStructureType (Record RDecl)
                \<and> getName RDecl \<noteq> []
                \<and> (\<exists>RD. getDefinition RDecl = Some RD \<and> \<not> hasFlexibleArrayMember RD \<and>
                        \<not> hasObjectMember RD)")
      case False
      with NotIn "2.prems"(1) show ?thesis
        by (auto split: if_splits option.splits)
    next
      case True
      then obtain RD where RD: "getDefinition RDecl = Some RD" "\<not> hasFlexibleArrayMember RD"
         "\<not> hasObjectMember RD" by auto
      obtain ok S1 d1 where
        H: "CheckFields tb (getFields RD) RDecl (insert (Record RDecl) SPS) Diags SM VD
             (SetTopLevelRecord TopLevelRecord RDecl) = (ok, S1, d1)"
        by (cases "CheckFields tb (getFields RD) RDecl (insert (Record RDecl) SPS) Diags SM VD
             (SetTopLevelRecord TopLevelRecord RDecl)") auto
      have sz: "size_list size (getFields RD) < size (Record RDecl)"
        using size_getFields [OF RD(1)] by simp
      have G: "Guarded tb (size_list size (getFields RD)) (insert (Record RDecl) SPS)"
        using "2.prems"(2) sz by (auto intro: Guarded_insert)
      have T: "SetTopLevelRecord TopLevelRecord RDecl \<noteq> None"
        by (cases TopLevelRecord) (simp_all add: SetTopLevelRecord_def)
      have IH: "(PointerInFields tb (getFields RD) \<longrightarrow> \<not> ok) \<and>
          (ok \<longrightarrow> (\<forall>X \<in> S1. X \<in> insert (Record RDecl) SPS \<or> \<not> PointerInside tb X))"
        using "2.IH" [OF _ _ _ _ RD(1) _ _ H G T] NotIn True RD by simp
      from "2.prems"(1) NotIn True RD H have R: "R = (if ok then Some (Record RDecl) else None)"
        and S: "SPS' = S1"
        by (auto split: bool.splits)
      have PI: "PointerInside tb (Record RDecl) = PointerInFields tb (getFields RD)"
        using True RD by simp
      from IH R S PI show ?thesis by auto
    qed
  qed
next
  case (3 tb PointeeType SPS Diags SM VD TopLevelRecord)
  from Guarded_member [OF "3.prems"(2), of ] have N: "Pointer PointeeType \<notin> SPS" by auto
  from "3.prems"(3) obtain TLR where "TopLevelRecord = Some TLR" by auto
  with N "3.prems"(1) show ?case by simp
next
  case (4 tb ElementType numElements SPS Diags SM VD TopLevelRecord)
  from "4.prems"(3) have T: "TopLevelRecord \<noteq> None" by simp
  show ?case
  proof (cases "ExtVector ElementType numElements \<notin> SPS \<and> \<not> (numElements < 2 \<or> numElements > 4)
                \<and> getTypeClass ElementType = TC_Builtin")
    case False
    with "4.prems"(1) show ?thesis by (auto split: if_splits)
  next
    case True
    obtain R1 S1 d1 where
      H: "TypeExportableHelper tb ElementType SPS Diags SM VD TopLevelRecord = (R1, S1, d1)"
      by (cases "TypeExportableHelper tb ElementType SPS Diags SM VD TopLevelRecord") auto
    have G: "Guarded tb (size ElementType) SPS"
      using "4.prems"(2) by (rule Guarded_mono) simp
    have "(PointerInside tb ElementType \<longrightarrow> R1 = None) \<and>
          (R1 \<noteq> None \<longrightarrow> (\<forall>X \<in> S1. X \<in> SPS \<or> \<not> PointerInside tb X))"
      using "4.IH" [OF _ _ _ H G] True T by simp
    with "4.prems"(1) True H show ?thesis by (auto split: option.splits)
  qed
next
  case (5 tb ElementType Size SPS Diags SM VD TopLevelRecord)
  from "5.prems"(3) have T: "TopLevelRecord \<noteq> None" by simp
  show ?case
  proof (cases "ConstantArray ElementType Size \<in> SPS")
    case True
    with "5.prems"(1) have "R = Some (ConstantArray ElementType Size)" "SPS' = SPS" by simp_all
    with Guarded_member [OF "5.prems"(2) True] show ?thesis by simp
  next
    case False
    with "5.prems"(1) have
      H: "ConstantArrayTypeExportableHelper tb ElementType Size SPS Diags SM VD TopLevelRecord =
            (R, SPS', ds)" by simp
    have G: "Guarded tb (size ElementType) SPS"
      using "5.prems"(2) by (rule Guarded_mono) simp
    from "5.IH" [OF False H G T] show ?thesis by simp
  qed
next
  case (6 tb ElementType SPS Diags SM VD TopLevelRecord)
  then show ?case by (auto split: if_splits)
next
  case (7 tb N SPS Diags SM VD TopLevelRecord)
  then show ?case by (auto split: if_splits)
next
  case (8 tb RDecl SPS Diags SM VD TopLevelRecord)
  then show ?case by simp
next
  case (9 tb FD FDs RDecl SPS Diags SM VD TopLevelRecord)
  show ?case
  proof (cases "GET_CANONICAL_TYPE (getTypeOfDecl FD)")
    case None
    with "9.prems"(1) show ?thesis by simp
  next
    case (Some FT)
    obtain R1 S1 d1 where
      H: "TypeExportableHelper tb FT SPS Diags SM VD TopLevelRecord = (R1, S1, d1)"
      by (cases "TypeExportableHelper tb FT SPS Diags SM VD TopLevelRecord") auto
    have G: "Guarded tb (size FT) SPS"
      using "9.prems"(2) size_getTypeOfDecl [OF Some] by (auto intro: Guarded_mono)
    have IH1: "(PointerInside tb FT \<longrightarrow> R1 = None) \<and>
          (R1 \<noteq> None \<longrightarrow> (\<forall>X \<in> S1. X \<in> SPS \<or> \<not> PointerInside tb X))"
      using "9.IH"(1) [OF Some H G] "9.prems"(3) by simp
    show ?thesis
    proof (cases "R1 \<noteq> None \<and> \<not> isBitField FD")
      case False
      with "9.prems"(1) Some H show ?thesis by (auto split: if_splits option.splits)
    next
      case True
      then obtain T1 where R1: "R1 = Some T1" by auto
      obtain ok2 S2 d2 where
        H2: "CheckFields tb FDs RDecl S1 Diags SM VD TopLevelRecord = (ok2, S2, d2)"
        by (cases "CheckFields tb FDs RDecl S1 Diags SM VD TopLevelRecord") auto
      have G0: "Guarded tb (size_list size FDs) SPS"
        using "9.prems"(2) by (rule Guarded_mono) simp
      have G1: "Guarded tb (size_list size FDs) S1"
        using G0 IH1 R1 by (auto intro: Guarded_new)
      have IH2: "(PointerInFields tb FDs \<longrightarrow> \<not> ok2) \<and>
          (ok2 \<longrightarrow> (\<forall>X \<in> S2. X \<in> S1 \<or> \<not> PointerInside tb X))"
        using "9.IH"(2) [OF Some H [symmetric] R1 refl _ H2 G1 "9.prems"(3)] True by simp
      from "9.prems"(1) Some H R1 True H2 have "ok = ok2" "SPS' = S2" by simp_all
      with IH1 IH2 R1 Some show ?thesis by auto
    qed
  qed
next
  case (10 tb ElementType Size SPS Diags SM VD TopLevelRecord)
  show ?case
  proof (cases "\<not> isArrayType ElementType \<and> ExtVectorElementRejected ElementType Size = None")
    case False
    with "10.prems"(1) show ?thesis by (auto split: if_splits option.splits)
  next
    case True
    obtain R1 S1 d1 where
      H: "TypeExportableHelper tb ElementType SPS Diags SM VD TopLevelRecord = (R1, S1, d1)"
      by (cases "TypeExportableHelper tb ElementType SPS Diags SM VD TopLevelRecord") auto
    have "(PointerInside tb ElementType \<longrightarrow> R1 = None) \<and>
          (R1 \<noteq> None \<longrightarrow> (\<forall>X \<in> S1. X \<in> SPS \<or> \<not> PointerInside tb X))"
      using "10.IH" [OF _ _ H "10.prems"(2)] True "10.prems"(3) by simp
    with "10.prems"(1) True H show ?thesis by (auto split: option.splits)
  qed
qed

text \<open>
  Claim C5. A constant-size array whose element type is itself an array type is rejected
  by the exportability check, whatever the element array holds, at top level and inside
  a record. With a diagnostic sink the one diagnostic emitted is "multidimensional arrays
  cannot be exported", on the top-level record if there is one, on the variable
  otherwise; \<open>int vec[2][3]\<close> is the witness.
\<close>

theorem multidimensional_array_rejected:
  "isArrayType ElementType \<Longrightarrow> OnlyRecords SPS \<Longrightarrow>
     TypeExportableHelper tb (ConstantArray ElementType Size) SPS Diags SM VD TopLevelRecord =
       (None, SPS, ReportTypeError Diags SM VD TopLevelRecord MsgMultidimensional) \<and>
     TypeExportable tb (Some (ConstantArray ElementType Size)) Diags SM VD =
       (None, ReportTypeError Diags SM VD None MsgMultidimensional) \<and>
     ReportTypeError True True (Some V) None MsgMultidimensional =
       [Report (Some V) (''multidimensional arrays cannot be exported: '' @ squote ''%0'') [StrArg V]] \<and>
     ReportTypeError True True VD (Some TLR) MsgMultidimensional =
       [Report (Some (getName TLR))
          (''multidimensional arrays cannot be exported: '' @ squote ''%0'')
          [StrArg (getName TLR)]]"
  by (simp add: NotInSPS TypeExportable_def ReportTypeError_def MsgMultidimensional_def)

theorem multidimensional_array_rejected_witness:
  "TypeExportable SampleTables (Some (ConstantArray (ConstantArray (Builtin BT_Int) 3) 2))
     True True (Some ''vec'') =
     (None, [Report (Some ''vec'') MsgMultidimensional [StrArg ''vec'']])"
  using multidimensional_array_rejected
          [of "ConstantArray (Builtin BT_Int) 3" "{}" SampleTables 2 True True "Some ''vec''" None]
  by (simp add: OnlyRecords_def ReportTypeError_def)

text \<open>
  Claim C6. For a constant-size array of fixed vectors: a vector of width 3 is rejected
  unless the array length is 1; a vector of width 2 or 4 (and one of width 3 in an
  array of length 1) is accepted exactly when its base element is a builtin type that the
  check accepts, whatever the array length.
\<close>

theorem width3_vector_in_array:
  "OnlyRecords SPS \<Longrightarrow>
     (numElements = 3 \<and> Size \<noteq> 1 \<longrightarrow>
        fst (TypeExportableHelper tb (ConstantArray (ExtVector B numElements) Size) SPS
               Diags SM VD TopLevelRecord) = None) \<and>
     (numElements = 2 \<or> numElements = 4 \<or> numElements = 3 \<and> Size = 1 \<longrightarrow>
        (fst (TypeExportableHelper tb (ConstantArray (ExtVector B numElements) Size) SPS
                Diags SM VD TopLevelRecord) = Some (ConstantArray (ExtVector B numElements) Size))
        = (IsPrimitiveType (Some B) \<and>
           fst (TypeExportableHelper tb B SPS Diags SM VD TopLevelRecord) = Some B))"
  apply (cases B)
  apply (auto simp: NotInSPS IsPrimitiveType_def split: option.splits prod.splits)
  done

theorem width3_vector_in_array_witness:
  "fst (TypeExportableHelper SampleTables (ConstantArray (ExtVector (Builtin BT_Float) 3) 2) {}
          False False None None) = None \<and>
   fst (TypeExportableHelper SampleTables (ConstantArray (ExtVector (Builtin BT_Float) 4) 7) {}
          False False None None) = Some (ConstantArray (ExtVector (Builtin BT_Float) 4) 7)"
  using width3_vector_in_array [of "{}" 3 2 SampleTables "Builtin BT_Float" False False None None]
        width3_vector_in_array [of "{}" 4 7 SampleTables "Builtin BT_Float" False False None None]
  by (simp add: OnlyRecords_def IsPrimitiveType_def SampleTables_def)

text \<open>
  Claim C9. A record type whose canonical name is that of an RS specific matrix or
  object type passes the exportability check at once: the result is the type itself,
  nothing is added to the checking set and nothing is reported, whatever the record's
  tag, definition, name or fields are and whether or not a top-level record is being
  validated.
\<close>

theorem rs_specific_record_exportable:
  "GetRSSpecificType tb (Some (Record RD)) \<noteq> DataTypeUnknown \<Longrightarrow>
     TypeExportableHelper tb (Record RD) SPS Diags SM VD TopLevelRecord =
       (Some (Record RD), SPS, [])"
  by simp

theorem rs_specific_record_exportable_witness:
  "GetRSSpecificType SampleTables
     (Some (Record (RecordDecl TTK_Struct ''rs_matrix2x2'' None [] None))) = DataTypeRSMatrix2x2 \<and>
   TypeExportableHelper SampleTables (Record (RecordDecl TTK_Struct ''rs_matrix2x2'' None [] None))
     {} True True None (Some (RecordDecl TTK_Struct ''S'' None [] None)) =
     (Some (Record (RecordDecl TTK_Struct ''rs_matrix2x2'' None [] None)), {}, [])"
  using rs_specific_record_exportable
          [of SampleTables "RecordDecl TTK_Struct ''rs_matrix2x2'' None [] None" "{}" True True
              None "Some (RecordDecl TTK_Struct ''S'' None [] None)"]
  by (simp add: GetRSSpecificType_def GetRSSpecificType_Name_def GetTypeName_Record_def
        SampleTables_def)







text \<open>
  Claim C10. In \<^verbatim>\<open>RSExportVectorType::GetTypeName\<close> the guard on the number of
  elements is \<^verbatim>\<open>< 1 || > 4\<close>, so a vector of one element of a supported builtin type
  passes it and the table of three names is read at index \<open>1 - 2\<close>, which is
  \<open>4294967295\<close> in \<^verbatim>\<open>unsigned\<close> arithmetic.
\<close>

theorem vector_name_guard_admits_one:
  "RSExportVectorType_GetTypeName SampleTables (Builtin BT_Float) 1 =
     Inl (OutOfBoundsRead 4294967295)"
  by (simp add: RSExportVectorType_GetTypeName_def SampleTables_def NameTableAt_def
        unsigned_minus_1_eq_mask mask_eq_exp_minus_1)

text \<open>Outside 1 to 4 the guard returns the empty name, and 2 to 4 are read in bounds.\<close>

lemma vector_name_guard_other_counts:
  "numElements = 0 \<or> 4 < numElements \<Longrightarrow>
     RSExportVectorType_GetTypeName tb ElementType numElements = Inr []"
  by (auto simp: RSExportVectorType_GetTypeName_def split: Type.splits)

lemma vector_name_in_bounds:
  "SupportBuiltinType tb BT = Some (DT, cname) \<Longrightarrow>
     RSExportVectorType_GetTypeName tb (Builtin BT) 2 = Inr (cname @ ''2'') \<and>
     RSExportVectorType_GetTypeName tb (Builtin BT) 3 = Inr (cname @ ''3'') \<and>
     RSExportVectorType_GetTypeName tb (Builtin BT) 4 = Inr (cname @ ''4'')"
  by (simp add: RSExportVectorType_GetTypeName_def NameTableAt_def)

section \<open>Export types and the registry\<close>

text \<open>
  An export type is an object on the heap of the compilation; a pointer to one is its
  address. \<open>mImpl\<close> holds the members that the subclass adds to \<^verbatim>\<open>RSExportType\<close>
  (the members \<^verbatim>\<open>mKind\<close> and \<^verbatim>\<open>mNormalized\<close> of a primitive type are left out: no
  function modelled here reads them). \<open>mKeep\<close> is the state of the base class
  \<^verbatim>\<open>RSExportable\<close>. A deleted object leaves \<open>None\<close> at its address.
\<close>

datatype ExportClass =
    ExportClassPrimitive | ExportClassPointer | ExportClassVector | ExportClassMatrix
  | ExportClassConstantArray | ExportClassRecord

type_synonym addr = nat

datatype Field =
  Field (getType: addr) (getFName: string) (getParent: addr) (getOffsetInParent: nat)

datatype ExportTypeImpl =
    PrimitiveType DataType
  | PointerType addr
  | VectorType DataType "32 word"
  | MatrixType "32 word"
  | ConstantArrayType addr nat
  | RecordType bool bool nat "Field list"

record RSExportTypeObj =
  mClass :: ExportClass
  mName :: string
  mKeep :: bool
  mLLVMType :: "nat option"
  mImpl :: ExportTypeImpl

text \<open>
  Modelled from the spec: \<^verbatim>\<open>RSContext\<close> is declared in \<^verbatim>\<open>slang_rs_context.h\<close>,
  which is not among the sources. Of it the model keeps the registry, "a map name to
  export type" whose entries are "created on first successful export, never removed",
  the objects it owns and the diagnostics it received. \<open>findExportType\<close> looks a name
  up; \<open>insertExportType\<close> adds an entry and leaves an entry that the name already has
  as it is (the constructor of \<^verbatim>\<open>RSExportType\<close> notes that the insertion can fail).
\<close>

record RSContext =
  mExportTypes :: "(string \<times> addr) list"
  mHeap :: "RSExportTypeObj option list"
  mDiagnostics :: "Diag list"

definition findExportType :: "RSContext \<Rightarrow> string \<Rightarrow> addr option" where
  "findExportType Context TypeName = map_of (mExportTypes Context) TypeName"

definition insertExportType :: "RSContext \<Rightarrow> string \<Rightarrow> addr \<Rightarrow> RSContext" where
  "insertExportType Context TypeName Type =
     (case findExportType Context TypeName of
        Some ET \<Rightarrow> Context
      | None \<Rightarrow> Context\<lparr>mExportTypes := mExportTypes Context @ [(TypeName, Type)]\<rparr>)"

definition DiagsReport :: "RSContext \<Rightarrow> Diag \<Rightarrow> RSContext" where
  "DiagsReport Context D = Context\<lparr>mDiagnostics := mDiagnostics Context @ [D]\<rparr>"

text \<open>\<^verbatim>\<open>llvm::StringRef::startswith\<close>.\<close>

definition startswith :: "string \<Rightarrow> string \<Rightarrow> bool" where
  "startswith Name Prefix = (take (length Prefix) Name = Prefix)"

text \<open>
  The constructor \<^verbatim>\<open>RSExportType::RSExportType\<close>, called by \<^verbatim>\<open>new\<close> of a
  subclass: the object gets the next address, and it is inserted into the registry
  unless its name starts with the dummy prefix.
\<close>

definition new_RSExportType ::
  "RSContext \<Rightarrow> ExportClass \<Rightarrow> string \<Rightarrow> ExportTypeImpl \<Rightarrow> addr \<times> RSContext" where
  "new_RSExportType Context Class Name Impl =
     (let this = length (mHeap Context);
          Context' = Context\<lparr>mHeap := mHeap Context @
                       [Some \<lparr>mClass = Class, mName = Name, mKeep = False,
                               mLLVMType = None, mImpl = Impl\<rparr>]\<rparr>
      in (this,
          if \<not> startswith Name DUMMY_RS_TYPE_NAME_PREFIX
          then insertExportType Context' Name this
          else Context'))"

definition delete_RSExportType :: "RSContext \<Rightarrow> addr \<Rightarrow> RSContext" where
  "delete_RSExportType Context ET = Context\<lparr>mHeap := (mHeap Context)[ET := None]\<rparr>"

text \<open>
  \<^verbatim>\<open>RSExportMatrixType::Create\<close> and its five diagnostics. The type of the first
  field is tested as \<^verbatim>\<open>GetTypeOfDecl\<close> returns it: it has the class
  \<^verbatim>\<open>ConstantArray\<close> only when the array type is written in the declaration itself, and
  a typedef name has the class \<^verbatim>\<open>Typedef\<close>. The element type is read through
  \<^verbatim>\<open>GET_CONSTANT_ARRAY_ELEMENT_TYPE\<close>, in canonical form.
\<close>

definition MsgMatrixNoField :: string where
  "MsgMatrixNoField =
     ''invalid matrix struct: must have 1 field for saving values: '' @ squote ''%0''"

definition MsgMatrixNotArray :: string where
  "MsgMatrixNotArray =
     ''invalid matrix struct: first field should be an array with constant size: ''
     @ squote ''%0''"

definition MsgMatrixNotFloat :: string where
  "MsgMatrixNotFloat =
     ''invalid matrix struct: first field should be a float array: '' @ squote ''%0''"

definition MsgMatrixSize :: string where
  "MsgMatrixSize =
     ''invalid matrix struct: first field should be an array with size %0: '' @ squote ''%1''"

definition MsgMatrixExtraField :: string where
  "MsgMatrixExtraField =
     ''invalid matrix struct: must have exactly 1 field: '' @ squote ''%0''"

definition MatrixReport :: "RSContext \<Rightarrow> RecordDecl \<Rightarrow> string \<Rightarrow> DiagArg list \<Rightarrow> RSContext" where
  "MatrixReport Context RD Message Args =
     DiagsReport Context (Report (Some (getName RD)) Message Args)"

definition Assert :: "RSContext \<Rightarrow> bool \<Rightarrow> string \<Rightarrow> RSContext" where
  "Assert Context Cond Message =
     (if Cond then Context else DiagsReport Context (AssertFailed Message))"

definition RSExportMatrixType_Create ::
  "RSContext \<Rightarrow> RecordDecl \<Rightarrow> string \<Rightarrow> 32 word \<Rightarrow> addr option \<times> RSContext" where
  "RSExportMatrixType_Create Context0 RT TypeName Dim =
     (let Context = Assert Context0 (Dim > 1) ''Invalid dimension of matrix'' in
      case getDefinition RT of
        None \<Rightarrow>
          (case new_RSExportType Context ExportClassMatrix TypeName (MatrixType Dim) of
             (ET, Context') \<Rightarrow> (Some ET, Context'))
      | Some RD \<Rightarrow>
          (case getFields RD of
             [] \<Rightarrow> (None, MatrixReport Context RT MsgMatrixNoField [StrArg (getName RT)])
           | FD # FIT \<Rightarrow>
               (case getTypeOfDecl FD of
                  Some (Plain (ConstantArray ElementType Size)) \<Rightarrow>
                    if ElementType \<noteq> Builtin BT_Float
                    then (None,
                          MatrixReport Context RT MsgMatrixNotFloat [StrArg (getName RT)])
                    else if Size \<noteq> unat (Dim * Dim)
                    then (None,
                          MatrixReport Context RT MsgMatrixSize
                            [UIntArg (unat (Dim * Dim)), StrArg (getName RT)])
                    else if FIT \<noteq> []
                    then (None,
                          MatrixReport Context RT MsgMatrixExtraField [StrArg (getName RT)])
                    else (case new_RSExportType Context ExportClassMatrix TypeName
                                 (MatrixType Dim) of
                            (ET, Context') \<Rightarrow> (Some ET, Context'))
                | _ \<Rightarrow>
                    (None, MatrixReport Context RT MsgMatrixNotArray [StrArg (getName RT)]))))"


definition MsgBuiltinNotExported :: string where
  "MsgBuiltinNotExported = ''built-in type cannot be exported: '' @ squote ''%0''"

definition MsgPrimitiveNotExported :: string where
  "MsgPrimitiveNotExported = ''primitive type cannot be exported: '' @ squote ''%0''"

definition MsgUnknownTypeNotExported :: string where
  "MsgUnknownTypeNotExported = ''unknown type cannot be exported: '' @ squote ''%0''"

definition MsgFieldNotExported :: string where
  "MsgFieldNotExported = ''field type cannot be exported: '' @ squote ''%0.%1''"

definition GetDataType :: "Tables \<Rightarrow> RSContext \<Rightarrow> Type option \<Rightarrow> DataType \<times> RSContext" where
  "GetDataType tb Context T =
     (case T of
        None \<Rightarrow> (DataTypeUnknown, Context)
      | Some (Builtin BT) \<Rightarrow>
          (case SupportBuiltinType tb BT of
             Some (DT, cname) \<Rightarrow> (DT, Context)
           | None \<Rightarrow>
               (DataTypeUnknown,
                DiagsReport Context
                  (Report None MsgBuiltinNotExported [StrArg (getTypeClassName (Builtin BT))])))
      | Some (Record RD) \<Rightarrow> (GetRSSpecificType tb T, Context)
      | Some T' \<Rightarrow>
          (DataTypeUnknown,
           DiagsReport Context
             (Report None MsgPrimitiveNotExported [StrArg (getTypeClassName T')])))"

definition RSExportPrimitiveType_Create ::
  "Tables \<Rightarrow> RSContext \<Rightarrow> Type option \<Rightarrow> string \<Rightarrow> addr option \<times> RSContext" where
  "RSExportPrimitiveType_Create tb Context T TypeName =
     (case GetDataType tb Context T of
        (DT, Context') \<Rightarrow>
          if DT = DataTypeUnknown \<or> TypeName = [] then (None, Context')
          else (case new_RSExportType Context' ExportClassPrimitive TypeName (PrimitiveType DT) of
                  (ET, Context'') \<Rightarrow> (Some ET, Context'')))"

definition RSExportPrimitiveType_Create_Type ::
  "Tables \<Rightarrow> RSContext \<Rightarrow> Type option \<Rightarrow> addr option \<times> RSContext" where
  "RSExportPrimitiveType_Create_Type tb Context T =
     (case NormalizeType tb T False False None of
        (Inr (Some (T', TypeName)), ds) \<Rightarrow>
          if IsPrimitiveType (Some T')
          then RSExportPrimitiveType_Create tb Context (Some T') TypeName
          else (None, Context)
      | (Inr None, ds) \<Rightarrow> (None, Context)
      | (Inl f, ds) \<Rightarrow> (None, Context))"

definition RSExportVectorType_Create ::
  "Tables \<Rightarrow> RSContext \<Rightarrow> Type \<Rightarrow> 32 word \<Rightarrow> string \<Rightarrow> addr option \<times> RSContext" where
  "RSExportVectorType_Create tb Context ElementType numElements TypeName =
     (case GetDataType tb Context (Some ElementType) of
        (DT, Context') \<Rightarrow>
          if DT \<noteq> DataTypeUnknown
          then (case new_RSExportType Context' ExportClassVector TypeName
                       (VectorType DT numElements) of
                  (ET, Context'') \<Rightarrow> (Some ET, Context''))
          else (None, Context'))"

definition push_back_Field :: "RSContext \<Rightarrow> addr \<Rightarrow> Field \<Rightarrow> RSContext" where
  "push_back_Field Context ERT F =
     (if ERT < length (mHeap Context)
      then (case mHeap Context ! ERT of
              Some Obj \<Rightarrow>
                (case mImpl Obj of
                   RecordType Packed Artificial AllocSize Fields \<Rightarrow>
                     Context\<lparr>mHeap := (mHeap Context)
                       [ERT := Some (Obj\<lparr>mImpl :=
                                 RecordType Packed Artificial AllocSize (Fields @ [F])\<rparr>)]\<rparr>
                 | _ \<Rightarrow> Context)
            | None \<Rightarrow> Context)
      else Context)"

declare NormalizeType.simps [simp del]

lemma NormalizeType_same:
  "NormalizeType tb (Some T) Diags SM VD = (Inr (Some (T', TypeName)), ds) \<Longrightarrow> T' = T"
  by (auto simp: NormalizeType.simps split: prod.splits option.splits sum.splits if_splits
           dest: TypeExportable_same)

lemma NormalizeType_None:
  "NormalizeType tb None Diags SM VD = (Inr None, [])"
  by (simp add: NormalizeType.simps TypeExportable_def)

text \<open>The size of a type that may be NULL, for the termination of the factory.\<close>

definition osize :: "Type option \<Rightarrow> nat" where
  "osize T = (case T of None \<Rightarrow> 0 | Some T' \<Rightarrow> size T')"

lemma osize_Some [simp]: "osize (Some T) = size T"
  by (simp add: osize_def)

lemma osize_getTypeOfDecl:
  "3 * osize (GET_CANONICAL_TYPE (getTypeOfDecl FD)) < 4 + (3 * size FD + 3 * size_list size FDs)"
  by (cases FD; cases "getTypeOfDecl FD" rule: GET_CANONICAL_TYPE.cases)
     (simp_all add: osize_def)

lemma NormalizeType_osize:
  "(Inr (Some (T', TypeName)), ds) = NormalizeType tb T Diags SM VD \<Longrightarrow> size T' = osize T"
  by (cases T) (auto simp: NormalizeType_None dest: NormalizeType_same [OF sym])

text \<open>
  The factory. \<open>RSExportType_Create\<close> is \<^verbatim>\<open>RSExportType::Create(Context, T)\<close>,
  \<open>RSExportType_Create_Named\<close> is the overload that takes the type name, and
  \<open>CreateFields\<close> is the loop over the fields in \<^verbatim>\<open>RSExportRecordType::Create\<close>.
  \<open>RSExportPrimitiveType_Create_Type\<close> above is
  \<^verbatim>\<open>RSExportPrimitiveType::Create(Context, T, DK)\<close>. \<open>NormalizeType\<close> never
  returns a fault (\<open>NormalizeType_no_fault\<close> below), so the branch for it is never taken.

  Modelled from the spec: \<^verbatim>\<open>RSExportElement::CreateFromDecl\<close> is defined in
  \<^verbatim>\<open>slang_rs_export_element.cpp\<close>, which is not among the sources. The spec says:
  "Each field's type is resolved through the same registry entry point", so the loop
  calls \<open>RSExportType_Create\<close> on the type of the field (in canonical form, the first
  thing that \<^verbatim>\<open>NormalizeType\<close> turns it into). The constructor of
  \<^verbatim>\<open>RSExportConstantArrayType\<close> is in the header; it passes the dummy name of
  constant arrays to the constructor of \<^verbatim>\<open>RSExportType\<close>.
\<close>

function (sequential) RSExportType_Create ::
      "Tables \<Rightarrow> RSContext \<Rightarrow> Type option \<Rightarrow> addr option \<times> RSContext"
  and RSExportType_Create_Named ::
      "Tables \<Rightarrow> RSContext \<Rightarrow> Type \<Rightarrow> string \<Rightarrow> addr option \<times> RSContext"
  and RSExportPointerType_Create ::
      "Tables \<Rightarrow> RSContext \<Rightarrow> Type \<Rightarrow> string \<Rightarrow> addr option \<times> RSContext"
  and RSExportConstantArrayType_Create ::
      "Tables \<Rightarrow> RSContext \<Rightarrow> Type \<Rightarrow> nat \<Rightarrow> addr option \<times> RSContext"
  and RSExportRecordType_Create ::
      "Tables \<Rightarrow> RSContext \<Rightarrow> RecordDecl \<Rightarrow> string \<Rightarrow> bool \<Rightarrow> addr option \<times> RSContext"
  and CreateFields ::
      "Tables \<Rightarrow> RSContext \<Rightarrow> addr \<Rightarrow> RecordDecl \<Rightarrow> FieldDecl list \<Rightarrow> addr option \<times> RSContext"
where
  "RSExportType_Create tb Context T =
     (case NormalizeType tb T False False None of
        (Inr (Some (T', TypeName)), ds) \<Rightarrow> RSExportType_Create_Named tb Context T' TypeName
      | (Inr None, ds) \<Rightarrow> (None, Context)
      | (Inl f, ds) \<Rightarrow> (None, Context))"
| "RSExportType_Create_Named tb Context T TypeName =
     (case findExportType Context TypeName of
        Some ET \<Rightarrow> (Some ET, Context)
      | None \<Rightarrow>
          (case T of
             Record RD \<Rightarrow>
               (case GetRSSpecificType_Name tb TypeName of
                  DataTypeUnknown \<Rightarrow> RSExportRecordType_Create tb Context RD TypeName False
                | DataTypeRSMatrix2x2 \<Rightarrow> RSExportMatrixType_Create Context RD TypeName 2
                | DataTypeRSMatrix3x3 \<Rightarrow> RSExportMatrixType_Create Context RD TypeName 3
                | DataTypeRSMatrix4x4 \<Rightarrow> RSExportMatrixType_Create Context RD TypeName 4
                | _ \<Rightarrow> RSExportPrimitiveType_Create tb Context (Some T) TypeName)
           | Builtin BT \<Rightarrow> RSExportPrimitiveType_Create tb Context (Some T) TypeName
           | Pointer PointeeType \<Rightarrow> RSExportPointerType_Create tb Context PointeeType TypeName
           | ExtVector ElementType numElements \<Rightarrow>
               RSExportVectorType_Create tb Context ElementType numElements TypeName
           | ConstantArray ElementType Size \<Rightarrow>
               RSExportConstantArrayType_Create tb Context ElementType Size
           | _ \<Rightarrow>
               (None,
                DiagsReport Context
                  (Report None MsgUnknownTypeNotExported [StrArg (getTypeClassName T)]))))"
| "RSExportPointerType_Create tb Context PointeeType TypeName =
     (case (if getTypeClass PointeeType \<noteq> TC_Pointer
            then RSExportType_Create tb Context (Some PointeeType)
            else RSExportPrimitiveType_Create_Type tb Context (Some (Builtin BT_Int))) of
        (None, Context') \<Rightarrow> (None, Context')
      | (Some PointeeET, Context') \<Rightarrow>
          (case new_RSExportType Context' ExportClassPointer TypeName (PointerType PointeeET) of
             (ET, Context'') \<Rightarrow> (Some ET, Context'')))"
| "RSExportConstantArrayType_Create tb Context0 ElementType CATSize =
     (let Context1 = Assert Context0 (CATSize < 2 ^ 31) ''array too large'';
          Size = CATSize mod 2 ^ 32;
          Context = Assert Context1 (Size > 0)
                      ''Constant array should have size greater than 0''
      in case RSExportType_Create tb Context (Some ElementType) of
           (None, Context') \<Rightarrow> (None, Context')
         | (Some ElementET, Context') \<Rightarrow>
             (case new_RSExportType Context' ExportClassConstantArray
                     DUMMY_TYPE_NAME_FOR_RS_CONSTANT_ARRAY_TYPE
                     (ConstantArrayType ElementET Size) of
                (ET, Context'') \<Rightarrow> (Some ET, Context'')))"
| "RSExportRecordType_Create tb Context0 RT TypeName mIsArtificial =
     (let Context = Assert Context0 (getTagKind RT = TTK_Struct) ''RD->isStruct()'' in
      case getDefinition RT of
        None \<Rightarrow>
          (None, DiagsReport Context (AssertFailed ''struct is not defined in this module''))
      | Some RD \<Rightarrow>
          (case new_RSExportType Context ExportClassRecord TypeName
                  (RecordType (hasPackedAttr RD) mIsArtificial (getSizeInBits RD div 8) []) of
             (ERT, Context') \<Rightarrow> CreateFields tb Context' ERT RT (getFields RD)))"
| "CreateFields tb Context ERT RT [] = (Some ERT, Context)"
| "CreateFields tb Context ERT RT (FD # FDs) =
     (if isBitField FD then (None, delete_RSExportType Context ERT)
      else case RSExportType_Create tb Context (GET_CANONICAL_TYPE (getTypeOfDecl FD)) of
             (Some ET, Context') \<Rightarrow>
               CreateFields tb
                 (push_back_Field Context' ERT
                    (Field ET (getFieldName FD) ERT (getFieldOffset FD div 8)))
                 ERT RT FDs
           | (None, Context') \<Rightarrow>
               (None,
                delete_RSExportType
                  (DiagsReport Context'
                     (Report (Some (getName RT)) MsgFieldNotExported
                        [StrArg (getName RT), StrArg (getFieldName FD)]))
                  ERT))"
  by pat_completeness auto

termination
  by (relation "measure (\<lambda>x. case x of
          Inl (Inl (tb, Context, T)) \<Rightarrow> 3 * osize T + 2
        | Inl (Inr (Inl (tb, Context, T, TypeName))) \<Rightarrow> 3 * size T + 1
        | Inl (Inr (Inr (tb, Context, PointeeType, TypeName))) \<Rightarrow> 3 * size PointeeType + 3
        | Inr (Inl (tb, Context, ElementType, Size)) \<Rightarrow> 3 * size ElementType + 3
        | Inr (Inr (Inl (tb, Context, RT, r))) \<Rightarrow> 3 * size RT + 3
        | Inr (Inr (Inr (tb, Context, ERT, RT, FDs))) \<Rightarrow> 3 * size_list size FDs + 3)")
     (auto simp: osize_getTypeOfDecl dest: size_getFields NormalizeType_osize)



section \<open>Sample inputs\<close>

definition EmptyContext :: RSContext where
  "EmptyContext = \<lparr>mExportTypes = [], mHeap = [], mDiagnostics = []\<rparr>"

text \<open>A struct named as the 2x2 matrix type whose array has 3 elements, and a struct that
  has a field of that type.\<close>

definition BadMatrix2x2 :: RecordDecl where
  "BadMatrix2x2 =
     RecordDecl TTK_Struct ''rs_matrix2x2'' None []
       (Some (RecordDef [FieldDecl ''m'' (Some (Plain (ConstantArray (Builtin BT_Float) 3))) False 0]
                False False False 96))"

definition StructWithBadMatrix :: Type where
  "StructWithBadMatrix =
     Record (RecordDecl TTK_Struct ''S'' None []
       (Some (RecordDef [FieldDecl ''v'' (Some (Plain (Builtin BT_Int))) False 0,
                         FieldDecl ''m'' (Some (Plain (Record BadMatrix2x2))) False 32]
                False False False 128)))"

definition GoodMatrix2x2 :: RecordDecl where
  "GoodMatrix2x2 =
     RecordDecl TTK_Struct ''rs_matrix2x2'' None []
       (Some (RecordDef [FieldDecl ''m'' (Some (Plain (ConstantArray (Builtin BT_Float) 4))) False 0]
                False False False 128))"

section \<open>Properties of the factory\<close>

text \<open>
  A struct named as the 2x2 matrix type whose field is declared through a typedef:
  \<^verbatim>\<open>typedef float vec4[4]; struct rs_matrix2x2 { vec4 m; }\<close>.
\<close>

definition TypedefMatrix2x2 :: RecordDecl where
  "TypedefMatrix2x2 =
     RecordDecl TTK_Struct ''rs_matrix2x2'' None []
       (Some (RecordDef
                [FieldDecl ''m'' (Some (Typedef ''vec4'' (ConstantArray (Builtin BT_Float) 4)))
                   False 0]
                False False False 128))"

text \<open>
  Claim C4. The struct \<^verbatim>\<open>rs_matrix2x2\<close> above has exactly one field, and the field is a
  constant-size array of \<open>float\<close> of length \<open>2 * 2\<close>: that is its canonical type, the
  type the exportability check looks at (it accepts the struct). The creation of the
  matrix type tests the class of the type as written, finds a typedef name, and rejects
  the struct with the report that the first field should be an array with constant size.
  The same struct with the array type written in the declaration is accepted.
\<close>

theorem typedef_matrix_field_rejected:
  "GET_CANONICAL_TYPE (getTypeOfDecl (FieldDecl ''m''
       (Some (Typedef ''vec4'' (ConstantArray (Builtin BT_Float) 4))) False 0)) =
     Some (ConstantArray (Builtin BT_Float) 4) \<and>
   fst (TypeExportable SampleTables (Some (Record TypedefMatrix2x2)) False False None) =
     Some (Record TypedefMatrix2x2) \<and>
   RSExportType_Create SampleTables EmptyContext (Some (Record TypedefMatrix2x2)) =
     (None,
      \<lparr>mExportTypes = [], mHeap = [],
       mDiagnostics =
         [Report (Some ''rs_matrix2x2'')
            (''invalid matrix struct: first field should be an array with constant size: ''
             @ squote ''%0'')
            [StrArg ''rs_matrix2x2'']]\<rparr>) \<and>
   fst (RSExportType_Create SampleTables EmptyContext (Some (Record GoodMatrix2x2))) = Some 0"
  by code_simp

text \<open>
  Apart from that, a struct requested as a matrix of dimension 2, 3 or 4 is accepted
  exactly when it has no definition or its definition has one field whose type is
  written as a constant-size array of \<open>float\<close> of length \<open>Dim * Dim\<close>. Each deviation
  adds one report of its own to the diagnostics: no field, a first field that is not
  written as a constant-size array, an element type other than \<open>float\<close>, another
  length, a second field; the five messages differ.
\<close>

lemma Dim_square:
  "Dim = 2 \<or> Dim = 3 \<or> Dim = 4 \<Longrightarrow> unat (Dim * Dim) = unat Dim * unat Dim \<and> 1 < Dim"
  for Dim :: "32 word"
  by auto

lemma matrix_struct_shape:
  "Dim = 2 \<or> Dim = 3 \<or> Dim = 4 \<Longrightarrow>
     (fst (RSExportMatrixType_Create Context RT TypeName Dim) \<noteq> None) =
       (case getDefinition RT of
          None \<Rightarrow> True
        | Some RD \<Rightarrow>
            (\<exists>FD. getFields RD = [FD] \<and>
                  getTypeOfDecl FD =
                    Some (Plain (ConstantArray (Builtin BT_Float) (unat Dim * unat Dim))))) \<and>
     (\<forall>RD. getDefinition RT = Some RD \<and> getFields RD = [] \<longrightarrow>
        RSExportMatrixType_Create Context RT TypeName Dim =
          (None, Context\<lparr>mDiagnostics := mDiagnostics Context @
                   [Report (Some (getName RT)) MsgMatrixNoField [StrArg (getName RT)]]\<rparr>)) \<and>
     (\<forall>RD FD FIT. getDefinition RT = Some RD \<and> getFields RD = FD # FIT \<and>
        (\<forall>ElementType Size.
           getTypeOfDecl FD \<noteq> Some (Plain (ConstantArray ElementType Size))) \<longrightarrow>
        RSExportMatrixType_Create Context RT TypeName Dim =
          (None, Context\<lparr>mDiagnostics := mDiagnostics Context @
                   [Report (Some (getName RT)) MsgMatrixNotArray [StrArg (getName RT)]]\<rparr>)) \<and>
     (\<forall>RD FD FIT ElementType Size. getDefinition RT = Some RD \<and> getFields RD = FD # FIT \<and>
        getTypeOfDecl FD = Some (Plain (ConstantArray ElementType Size)) \<and>
        ElementType \<noteq> Builtin BT_Float \<longrightarrow>
        RSExportMatrixType_Create Context RT TypeName Dim =
          (None, Context\<lparr>mDiagnostics := mDiagnostics Context @
                   [Report (Some (getName RT)) MsgMatrixNotFloat [StrArg (getName RT)]]\<rparr>)) \<and>
     (\<forall>RD FD FIT Size. getDefinition RT = Some RD \<and> getFields RD = FD # FIT \<and>
        getTypeOfDecl FD = Some (Plain (ConstantArray (Builtin BT_Float) Size)) \<and>
        Size \<noteq> unat Dim * unat Dim \<longrightarrow>
        RSExportMatrixType_Create Context RT TypeName Dim =
          (None, Context\<lparr>mDiagnostics := mDiagnostics Context @
                   [Report (Some (getName RT)) MsgMatrixSize
                      [UIntArg (unat Dim * unat Dim), StrArg (getName RT)]]\<rparr>)) \<and>
     (\<forall>RD FD FIT. getDefinition RT = Some RD \<and> getFields RD = FD # FIT \<and>
        getTypeOfDecl FD =
          Some (Plain (ConstantArray (Builtin BT_Float) (unat Dim * unat Dim))) \<and>
        FIT \<noteq> [] \<longrightarrow>
        RSExportMatrixType_Create Context RT TypeName Dim =
          (None, Context\<lparr>mDiagnostics := mDiagnostics Context @
                   [Report (Some (getName RT)) MsgMatrixExtraField [StrArg (getName RT)]]\<rparr>)) \<and>
     distinct [MsgMatrixNoField, MsgMatrixNotArray, MsgMatrixNotFloat, MsgMatrixSize,
               MsgMatrixExtraField]"
proof -
  assume D: "Dim = 2 \<or> Dim = 3 \<or> Dim = 4"
  have sq: "unat (Dim * Dim) = unat Dim * unat Dim" and gt: "1 < Dim"
    using Dim_square [OF D] by simp_all
  have A: "Assert Context (1 < Dim) ''Invalid dimension of matrix'' = Context"
    using gt by (simp add: Assert_def)
  have msgs: "distinct [MsgMatrixNoField, MsgMatrixNotArray, MsgMatrixNotFloat, MsgMatrixSize,
               MsgMatrixExtraField]"
    by (simp add: MsgMatrixNoField_def MsgMatrixNotArray_def MsgMatrixNotFloat_def
          MsgMatrixSize_def MsgMatrixExtraField_def)
  have acc: "(fst (RSExportMatrixType_Create Context RT TypeName Dim) \<noteq> None) =
       (case getDefinition RT of
          None \<Rightarrow> True
        | Some RD \<Rightarrow>
            (\<exists>FD. getFields RD = [FD] \<and>
                  getTypeOfDecl FD =
                    Some (Plain (ConstantArray (Builtin BT_Float) (unat Dim * unat Dim)))))"
    by (auto simp: RSExportMatrixType_Create_def A sq Let_def
             split: option.splits list.splits Type.splits DeclType.splits prod.splits)
  show ?thesis
  proof (intro conjI)
    show "distinct [MsgMatrixNoField, MsgMatrixNotArray, MsgMatrixNotFloat, MsgMatrixSize,
               MsgMatrixExtraField]"
      by (rule msgs)
  next
    show "(fst (RSExportMatrixType_Create Context RT TypeName Dim) \<noteq> None) =
       (case getDefinition RT of
          None \<Rightarrow> True
        | Some RD \<Rightarrow>
            (\<exists>FD. getFields RD = [FD] \<and>
                  getTypeOfDecl FD =
                    Some (Plain (ConstantArray (Builtin BT_Float) (unat Dim * unat Dim)))))"
      by (rule acc)
  qed (auto simp: RSExportMatrixType_Create_def MatrixReport_def DiagsReport_def A sq Let_def
            split: option.splits list.splits Type.splits DeclType.splits prod.splits)
qed

text \<open>
  Claim C2. A record type is constructed, and so inserted into the registry, before its
  fields are resolved. When a field fails, the object is deleted and the entry stays:
  after the failed creation of \<open>struct S { int v; rs_matrix2x2 m; }\<close> (the matrix struct
  being malformed) the registry maps "S" to the address of the deleted object, and a second
  creation returns that address. The entry of \<open>int\<close>, interned before the failure,
  stays as the claim says.
\<close>

theorem failed_record_stays_registered:
  "fst (TypeExportable SampleTables (Some StructWithBadMatrix) False False None) =
     Some StructWithBadMatrix \<and>
   fst (RSExportType_Create SampleTables EmptyContext (Some StructWithBadMatrix)) = None \<and>
   mExportTypes (snd (RSExportType_Create SampleTables EmptyContext (Some StructWithBadMatrix))) =
     [(''S'', 0), (''int'', 1)] \<and>
   mHeap (snd (RSExportType_Create SampleTables EmptyContext (Some StructWithBadMatrix))) ! 0 =
     None \<and>
   fst (RSExportType_Create SampleTables
          (snd (RSExportType_Create SampleTables EmptyContext (Some StructWithBadMatrix)))
          (Some StructWithBadMatrix)) = Some 0"
  by code_simp


text \<open>The selectors of the sample tables, for evaluation by the simplifier.\<close>

lemma SampleTables_sel:
  "SupportBuiltinType SampleTables = SampleBuiltinType"
  "RSSpecificTypes SampleTables =
        [(''rs_matrix2x2'', DataTypeRSMatrix2x2),
         (''rs_matrix3x3'', DataTypeRSMatrix3x3),
         (''rs_matrix4x4'', DataTypeRSMatrix4x4),
         (''rs_element'', DataTypeRSObject ''RSElement''),
         (''rs_allocation'', DataTypeRSObject ''RSAllocation'')]"
  by (simp_all add: SampleTables_def)

lemma NormalizeType_int_array:
  "NormalizeType SampleTables (Some (ConstantArray (Builtin BT_Int) 2)) False False None =
     (Inr (Some (ConstantArray (Builtin BT_Int) 2, DUMMY_TYPE_NAME_FOR_RS_CONSTANT_ARRAY_TYPE)),
      [])"
  by (simp add: NormalizeType.simps TypeExportable_def SampleTables_sel
        DUMMY_TYPE_NAME_FOR_RS_CONSTANT_ARRAY_TYPE_def DUMMY_RS_TYPE_NAME_PREFIX_def)

lemma NormalizeType_int:
  "NormalizeType SampleTables (Some (Builtin BT_Int)) False False None =
     (Inr (Some (Builtin BT_Int, ''int'')), [])"
  by (simp add: NormalizeType.simps TypeExportable_def SampleTables_sel)

text \<open>
  Claim C1, as stated, fails for constant arrays: their name is the dummy name, which
  starts with the prefix that the constructor does not cache, so each creation of
  \<open>int[2]\<close> builds a new object.
\<close>

theorem create_twice_constant_array:
  "fst (TypeExportable SampleTables (Some (ConstantArray (Builtin BT_Int) 2)) False False None) =
     Some (ConstantArray (Builtin BT_Int) 2) \<and>
   fst (RSExportType_Create SampleTables EmptyContext (Some (ConstantArray (Builtin BT_Int) 2))) =
     Some 1 \<and>
   fst (RSExportType_Create SampleTables
          (snd (RSExportType_Create SampleTables EmptyContext
                  (Some (ConstantArray (Builtin BT_Int) 2))))
          (Some (ConstantArray (Builtin BT_Int) 2))) = Some 2"
  by (simp add: NormalizeType_int_array NormalizeType_int TypeExportable_def EmptyContext_def
        findExportType_def insertExportType_def new_RSExportType_def Assert_def Let_def
        RSExportPrimitiveType_Create_def GetDataType_def SampleTables_sel startswith_def
        DUMMY_TYPE_NAME_FOR_RS_CONSTANT_ARRAY_TYPE_def DUMMY_RS_TYPE_NAME_PREFIX_def)

section \<open>Interning\<close>

text \<open>
  The names under which the creation of a type can insert export types into the
  registry: \<open>NameOf\<close> is the canonical name of the type itself, \<open>InnerNames\<close> are
  the names of the types that its creation creates in turn (the pointee, or \<open>int\<close>
  for a pointer to a pointer; the element type; the types of the fields of a record
  that is not named as an RS specific type).
\<close>

definition NameOf :: "Tables \<Rightarrow> Type \<Rightarrow> string list" where
  "NameOf tb T = (case RSExportType_GetTypeName tb (Some T) of Inr TypeName \<Rightarrow> [TypeName] | Inl f \<Rightarrow> [])"

function (sequential) InnerNames :: "Tables \<Rightarrow> Type \<Rightarrow> string list"
  and FieldsNames :: "Tables \<Rightarrow> FieldDecl list \<Rightarrow> string list"
where
  "InnerNames tb (Pointer PointeeType) =
     (if getTypeClass PointeeType = TC_Pointer then NameOf tb (Builtin BT_Int)
      else NameOf tb PointeeType @ InnerNames tb PointeeType)"
| "InnerNames tb (ConstantArray ElementType Size) =
     NameOf tb ElementType @ InnerNames tb ElementType"
| "InnerNames tb (Record RT) =
     (if GetRSSpecificType tb (Some (Record RT)) \<noteq> DataTypeUnknown then []
      else case getDefinition RT of
             None \<Rightarrow> []
           | Some RD \<Rightarrow> FieldsNames tb (getFields RD))"
| "InnerNames tb T = []"
| "FieldsNames tb [] = []"
| "FieldsNames tb (FD # FDs) =
     (case GET_CANONICAL_TYPE (getTypeOfDecl FD) of
        None \<Rightarrow> []
      | Some FT \<Rightarrow> NameOf tb FT @ InnerNames tb FT) @ FieldsNames tb FDs"
  by pat_completeness auto

termination
  by (relation "measure (\<lambda>x. case x of
          Inl (tb, T) \<Rightarrow> size T
        | Inr (tb, FDs) \<Rightarrow> size_list size FDs)")
     (auto dest: size_getFields size_getTypeOfDecl)

text \<open>
  \<open>Grows Names Context Context'\<close>: the registry of \<open>Context'\<close> is that of
  \<open>Context\<close> with entries appended, all of them under names of \<open>Names\<close> or names
  that the registry had already. Every function of the factory grows the registry in
  this sense; no entry is ever removed or changed.
\<close>

definition Keys :: "RSContext \<Rightarrow> string set" where
  "Keys Context = fst ` set (mExportTypes Context)"

definition Grows :: "string set \<Rightarrow> RSContext \<Rightarrow> RSContext \<Rightarrow> bool" where
  "Grows Names Context Context' =
     ((\<exists>New. mExportTypes Context' = mExportTypes Context @ New) \<and>
      Keys Context' \<subseteq> Keys Context \<union> Names)"

lemma Grows_refl: "Grows Names Context Context"
  by (simp add: Grows_def)

lemma Grows_trans:
  "Grows N1 C1 C2 \<Longrightarrow> Grows N2 C2 C3 \<Longrightarrow> N1 \<union> N2 \<subseteq> N \<Longrightarrow> Grows N C1 C3"
  by (auto simp: Grows_def)

lemma Grows_mono: "Grows N1 C1 C2 \<Longrightarrow> N1 \<subseteq> N \<Longrightarrow> Grows N C1 C2"
  by (auto simp: Grows_def)

lemma Grows_same_registry:
  "mExportTypes Context' = mExportTypes Context \<Longrightarrow> Grows Names Context Context'"
  by (simp add: Grows_def Keys_def)

lemma Grows_DiagsReport: "Grows Names Context (DiagsReport Context D)"
  by (simp add: Grows_same_registry DiagsReport_def)

lemma Grows_Assert: "Grows Names Context (Assert Context Cond Message)"
  by (simp add: Assert_def Grows_refl Grows_DiagsReport)

lemma Grows_delete: "Grows Names Context (delete_RSExportType Context ET)"
  by (simp add: Grows_same_registry delete_RSExportType_def)

lemma Grows_push_back: "Grows Names Context (push_back_Field Context ERT F)"
  by (auto simp: Grows_same_registry push_back_Field_def
           split: option.splits ExportTypeImpl.splits)

lemma Grows_MatrixReport: "Grows Names Context (MatrixReport Context RD Message Args)"
  by (simp add: MatrixReport_def Grows_DiagsReport)

lemma findExportType_Keys: "(findExportType Context TypeName = None) = (TypeName \<notin> Keys Context)"
  by (simp add: findExportType_def Keys_def map_of_eq_None_iff)

lemma Grows_insert: "Grows {TypeName} Context (insertExportType Context TypeName ET)"
  by (auto simp: insertExportType_def Grows_def Keys_def split: option.splits)

lemma Grows_new:
  "new_RSExportType Context Class TypeName Impl = (ET, Context') \<Longrightarrow>
     Grows {TypeName} Context Context'"
  by (auto simp: new_RSExportType_def Let_def Grows_def Keys_def insertExportType_def
           split: if_splits option.splits)

lemma Grows_find:
  "Grows Names Context Context' \<Longrightarrow> findExportType Context TypeName = Some ET \<Longrightarrow>
     findExportType Context' TypeName = Some ET"
  by (auto simp: Grows_def findExportType_def)

lemma new_registers:
  "new_RSExportType Context Class TypeName Impl = (ET, Context') \<Longrightarrow>
     findExportType Context TypeName = None \<Longrightarrow>
     \<not> startswith TypeName DUMMY_RS_TYPE_NAME_PREFIX \<Longrightarrow>
     findExportType Context' TypeName = Some ET"
  by (auto simp: new_RSExportType_def Let_def insertExportType_def findExportType_def
           map_add_def split: if_splits option.splits)


definition OptNames :: "Tables \<Rightarrow> Type option \<Rightarrow> string list" where
  "OptNames tb T = (case T of None \<Rightarrow> [] | Some T' \<Rightarrow> NameOf tb T' @ InnerNames tb T')"

lemma FieldsNames_Cons:
  "FieldsNames tb (FD # FDs) =
     OptNames tb (GET_CANONICAL_TYPE (getTypeOfDecl FD)) @ FieldsNames tb FDs"
  by (simp add: OptNames_def split: option.splits)

lemma Grows_new_dummy:
  "new_RSExportType Context Class TypeName Impl = (ET, Context') \<Longrightarrow>
     startswith TypeName DUMMY_RS_TYPE_NAME_PREFIX \<Longrightarrow> Grows Names Context Context'"
  by (auto simp: new_RSExportType_def Let_def Grows_def Keys_def)

lemma dummy_name_startswith:
  "startswith DUMMY_TYPE_NAME_FOR_RS_CONSTANT_ARRAY_TYPE DUMMY_RS_TYPE_NAME_PREFIX"
  by (simp add: startswith_def DUMMY_TYPE_NAME_FOR_RS_CONSTANT_ARRAY_TYPE_def
        DUMMY_RS_TYPE_NAME_PREFIX_def)

lemma NormalizeType_name:
  "NormalizeType tb T Diags SM VD = (Inr (Some (T', TypeName)), ds) \<Longrightarrow>
     T = Some T' \<and> RSExportType_GetTypeName tb (Some T') = Inr TypeName \<and> TypeName \<noteq> []"
  by (cases T)
     (auto simp: NormalizeType.simps TypeExportable_def
           split: prod.splits option.splits sum.splits if_splits
           dest: TypeExportableHelper_same)

lemma NormalizeType_NameOf:
  "NormalizeType tb T Diags SM VD = (Inr (Some (T', TypeName)), ds) \<Longrightarrow>
     T = Some T' \<and> NameOf tb T' = [TypeName]"
  by (auto simp: NameOf_def dest: NormalizeType_name)

lemma Grows_GetDataType:
  "GetDataType tb Context T = (DT, Context') \<Longrightarrow> Grows Names Context Context'"
  by (auto simp: GetDataType_def Grows_refl Grows_DiagsReport
           split: option.splits Type.splits prod.splits)

lemma Grows_Primitive:
  "RSExportPrimitiveType_Create tb Context T TypeName = (R, Context') \<Longrightarrow>
     Grows {TypeName} Context Context'"
  by (auto simp: RSExportPrimitiveType_Create_def split: prod.splits if_splits
           intro: Grows_trans [OF Grows_GetDataType Grows_new] Grows_GetDataType)

lemma Grows_Primitive_Type:
  "RSExportPrimitiveType_Create_Type tb Context T = (R, Context') \<Longrightarrow>
     Grows (set (OptNames tb T)) Context Context'"
  by (auto simp: RSExportPrimitiveType_Create_Type_def OptNames_def Grows_refl
           split: prod.splits sum.splits option.splits if_splits
           dest!: NormalizeType_NameOf Grows_Primitive elim: Grows_mono)

lemma Grows_Vector:
  "RSExportVectorType_Create tb Context ElementType numElements TypeName = (R, Context') \<Longrightarrow>
     Grows {TypeName} Context Context'"
  by (auto simp: RSExportVectorType_Create_def split: prod.splits if_splits
           intro: Grows_trans [OF Grows_GetDataType Grows_new] Grows_GetDataType)

lemma Grows_Matrix:
  "RSExportMatrixType_Create Context RT TypeName Dim = (R, Context') \<Longrightarrow>
     Grows {TypeName} Context Context'"
  by (auto simp: RSExportMatrixType_Create_def Let_def Grows_MatrixReport
           split: prod.splits if_splits option.splits list.splits Type.splits DeclType.splits
           intro: Grows_trans [OF Grows_Assert Grows_new]
                  Grows_trans [OF Grows_Assert Grows_MatrixReport])


lemma Create_Grows:
  "RSExportType_Create tb Context T = (R, Context') \<Longrightarrow>
     Grows (set (OptNames tb T)) Context Context'"
  "RSExportType_Create_Named tb Context T1 TypeName = (R, Context') \<Longrightarrow>
     RSExportType_GetTypeName tb (Some T1) = Inr TypeName \<Longrightarrow>
     Grows ({TypeName} \<union> set (InnerNames tb T1)) Context Context'"
  "RSExportPointerType_Create tb Context PointeeType TypeName = (R, Context') \<Longrightarrow>
     Grows ({TypeName} \<union> set (InnerNames tb (Pointer PointeeType))) Context Context'"
  "RSExportConstantArrayType_Create tb Context ElementType Size = (R, Context') \<Longrightarrow>
     Grows (set (InnerNames tb (ConstantArray ElementType Size))) Context Context'"
  "RSExportRecordType_Create tb Context RT TypeName mIsArtificial = (R, Context') \<Longrightarrow>
     Grows ({TypeName} \<union>
            set (case getDefinition RT of
                   None \<Rightarrow> []
                 | Some RD \<Rightarrow> FieldsNames tb (getFields RD))) Context Context'"
  "CreateFields tb Context ERT RT FDs = (R, Context') \<Longrightarrow>
     Grows (set (FieldsNames tb FDs)) Context Context'"
proof (induction tb Context T and tb Context T1 TypeName and tb Context PointeeType TypeName
         and tb Context ElementType Size and tb Context RT TypeName mIsArtificial
         and tb Context ERT RT FDs
       arbitrary: R Context' and R Context' and R Context' and R Context' and R Context'
         and R Context'
       rule: RSExportType_Create_RSExportType_Create_Named_RSExportPointerType_Create_RSExportConstantArrayType_Create_RSExportRecordType_Create_CreateFields.induct)
  case (1 tb Context T)
  show ?case
  proof (cases "NormalizeType tb T False False None")
    case (Pair N ds)
    show ?thesis
    proof (cases N)
      case (Inl f)
      with Pair "1.prems" show ?thesis by (simp add: Grows_refl)
    next
      case (Inr Res)
      show ?thesis
      proof (cases Res)
        case None
        with Pair Inr "1.prems" show ?thesis by (simp add: Grows_refl)
      next
        case (Some TN)
        obtain T' TypeName where TN: "TN = (T', TypeName)" by (cases TN)
        from Pair Inr Some TN have N: "NormalizeType tb T False False None =
          (Inr (Some (T', TypeName)), ds)" by simp
        from NormalizeType_NameOf [OF N] have T: "T = Some T'" "NameOf tb T' = [TypeName]"
          by simp_all
        from "1.prems" N have "RSExportType_Create_Named tb Context T' TypeName = (R, Context')"
          by simp
        from NormalizeType_name [OF N]
        have "RSExportType_GetTypeName tb (Some T') = Inr TypeName" by simp
        from "1.IH" [OF N [symmetric] refl refl refl \<open>RSExportType_Create_Named tb Context T'
           TypeName = (R, Context')\<close> this] T show ?thesis
          by (simp add: OptNames_def)
      qed
    qed
  qed
next
  case (2 tb Context T TypeName)
  show ?case
  proof (cases "findExportType Context TypeName")
    case (Some ET)
    with "2.prems" show ?thesis by (simp add: Grows_refl)
  next
    case None
    show ?thesis
    proof (cases T)
      case (Builtin BT)
      with None "2.prems" have "Grows {TypeName} Context Context'"
        by (auto dest: Grows_Primitive)
      then show ?thesis by (rule Grows_mono) simp
    next
      case (Record RD)
      show ?thesis
      proof (cases "GetRSSpecificType_Name tb TypeName = DataTypeUnknown")
        case True
        with None Record "2.prems"
        have "RSExportRecordType_Create tb Context RD TypeName False = (R, Context')"
          by simp
        from "2.IH"(1) [OF None Record True this]
        have "Grows ({TypeName} \<union>
            set (case getDefinition RD of
                   None \<Rightarrow> []
                 | Some RDef \<Rightarrow> FieldsNames tb (getFields RDef))) Context Context'" .
        moreover from "2.prems"(2) Record True
        have "GetRSSpecificType tb (Some (Record RD)) = DataTypeUnknown"
          by (simp add: GetRSSpecificType_def)
        ultimately show ?thesis using Record by simp
      next
        case False
        with None Record "2.prems" have "Grows {TypeName} Context Context'"
          by (auto split: DataType.splits dest: Grows_Primitive Grows_Matrix)
        then show ?thesis by (rule Grows_mono) simp
      qed
    next
      case (Pointer P)
      with None "2.prems"
      have "RSExportPointerType_Create tb Context P TypeName = (R, Context')"
        by simp
      from "2.IH"(2) [OF None Pointer this] Pointer show ?thesis by simp
    next
      case (ExtVector E n)
      with None "2.prems" have "Grows {TypeName} Context Context'"
        by (auto dest: Grows_Vector)
      then show ?thesis by (rule Grows_mono) simp
    next
      case (ConstantArray E n)
      with None "2.prems"
      have "RSExportConstantArrayType_Create tb Context E n = (R, Context')"
        by simp
      from "2.IH"(3) [OF None ConstantArray this] ConstantArray show ?thesis
        by (auto elim: Grows_mono)
    next
      case (IncompleteArray E)
      with None "2.prems" show ?thesis by (auto simp: Grows_DiagsReport)
    next
      case (EnumType N)
      with None "2.prems" show ?thesis by (auto simp: Grows_DiagsReport)
    qed
  qed
next
  case (3 tb Context PointeeType TypeName)
  obtain R1 C1 where P: "(if getTypeClass PointeeType \<noteq> TC_Pointer
            then RSExportType_Create tb Context (Some PointeeType)
            else RSExportPrimitiveType_Create_Type tb Context (Some (Builtin BT_Int))) = (R1, C1)"
    by (cases "if getTypeClass PointeeType \<noteq> TC_Pointer
            then RSExportType_Create tb Context (Some PointeeType)
            else RSExportPrimitiveType_Create_Type tb Context (Some (Builtin BT_Int))") auto
  have G1: "Grows (set (InnerNames tb (Pointer PointeeType))) Context C1"
  proof (cases "getTypeClass PointeeType = TC_Pointer")
    case True
    with P have "RSExportPrimitiveType_Create_Type tb Context (Some (Builtin BT_Int)) = (R1, C1)"
      by simp
    from Grows_Primitive_Type [OF this] True show ?thesis by (simp add: OptNames_def)
  next
    case False
    with P have "RSExportType_Create tb Context (Some PointeeType) = (R1, C1)" by simp
    from "3.IH" [OF False this] False show ?thesis by (simp add: OptNames_def)
  qed
  show ?case
  proof (cases R1)
    case None
    with "3.prems" P have "Context' = C1" by simp
    with G1 show ?thesis by (auto elim: Grows_mono)
  next
    case (Some PointeeET)
    with "3.prems" P obtain ET where
      "new_RSExportType C1 ExportClassPointer TypeName (PointerType PointeeET) = (ET, Context')"
      by (auto split: prod.splits)
    from Grows_trans [OF G1 Grows_new [OF this] subset_refl] show ?thesis
      by (rule Grows_mono) auto
  qed
next
  case (4 tb Context0 ElementType CATSize)
  define Context1 where "Context1 = Assert Context0 (CATSize < 2 ^ 31) ''array too large''"
  define Size where "Size = CATSize mod 2 ^ 32"
  define Context where "Context = Assert Context1 (Size > 0)
                      ''Constant array should have size greater than 0''"
  obtain R1 C1 where P: "RSExportType_Create tb Context (Some ElementType) = (R1, C1)"
    by (cases "RSExportType_Create tb Context (Some ElementType)") auto
  have G0: "Grows {} Context0 Context"
    unfolding Context_def Context1_def
    by (rule Grows_trans [OF Grows_Assert Grows_Assert]) simp
  have G1: "Grows (set (InnerNames tb (ConstantArray ElementType CATSize))) Context C1"
    using "4.IH" [OF Context1_def Size_def Context_def P] by (simp add: OptNames_def)
  have G2: "Grows (set (InnerNames tb (ConstantArray ElementType CATSize))) Context0 C1"
    by (rule Grows_trans [OF G0 G1]) simp
  show ?case
  proof (cases R1)
    case None
    with "4.prems" P have "Context' = C1"
      by (simp add: Let_def Context_def Context1_def Size_def)
    with G2 show ?thesis by simp
  next
    case (Some ElementET)
    with "4.prems" P obtain ET where
      "new_RSExportType C1 ExportClassConstantArray DUMMY_TYPE_NAME_FOR_RS_CONSTANT_ARRAY_TYPE
         (ConstantArrayType ElementET Size) = (ET, Context')"
      by (auto simp: Let_def Context_def Context1_def Size_def split: prod.splits)
    from Grows_trans [OF G2 Grows_new_dummy [OF this dummy_name_startswith, of "{}"]
            subset_refl]
    show ?thesis by (rule Grows_mono) auto
  qed
next
  case (5 tb Context0 RT TypeName mIsArtificial)
  define Context where "Context = Assert Context0 (getTagKind RT = TTK_Struct) ''RD->isStruct()''"
  have G0: "Grows {} Context0 Context"
    unfolding Context_def by (rule Grows_Assert)
  show ?case
  proof (cases "getDefinition RT")
    case None
    with "5.prems" have "Context' =
        DiagsReport Context (AssertFailed ''struct is not defined in this module'')"
      by (simp add: Let_def Context_def)
    then have "Grows {} Context Context'" by (simp add: Grows_DiagsReport)
    from Grows_trans [OF G0 this subset_refl] show ?thesis by (rule Grows_mono) auto
  next
    case (Some RD)
    obtain ERT C1 where N: "new_RSExportType Context ExportClassRecord TypeName
                  (RecordType (hasPackedAttr RD) mIsArtificial (getSizeInBits RD div 8) []) =
                  (ERT, C1)"
      by (cases "new_RSExportType Context ExportClassRecord TypeName
                  (RecordType (hasPackedAttr RD) mIsArtificial (getSizeInBits RD div 8) [])") auto
    with "5.prems" Some have F: "CreateFields tb C1 ERT RT (getFields RD) = (R, Context')"
      by (simp add: Let_def Context_def)
    have G1: "Grows (set (FieldsNames tb (getFields RD))) C1 Context'"
      using "5.IH" [OF Context_def Some N [symmetric] F] .
    from Grows_trans [OF Grows_trans [OF G0 Grows_new [OF N] subset_refl] G1 subset_refl]
    show ?thesis using Some by (elim Grows_mono) auto
  qed
next
  case (6 tb Context ERT RT)
  then show ?case by (simp add: Grows_refl)
next
  case (7 tb Context ERT RT FD FDs)
  show ?case
  proof (cases "isBitField FD")
    case True
    with "7.prems" show ?thesis by (auto simp: Grows_delete)
  next
    case False
    obtain R1 C1 where
      P: "RSExportType_Create tb Context (GET_CANONICAL_TYPE (getTypeOfDecl FD)) = (R1, C1)"
      by (cases "RSExportType_Create tb Context (GET_CANONICAL_TYPE (getTypeOfDecl FD))") auto
    have G1: "Grows (set (OptNames tb (GET_CANONICAL_TYPE (getTypeOfDecl FD)))) Context C1"
      using "7.IH"(1) [OF False P] .
    show ?thesis
    proof (cases R1)
      case None
      with "7.prems" False P have "Context' = delete_RSExportType
                  (DiagsReport C1
                     (Report (Some (getName RT)) MsgFieldNotExported
                        [StrArg (getName RT), StrArg (getFieldName FD)]))
                  ERT"
        by simp
      then have "Grows {} C1 Context'"
        using Grows_trans [OF Grows_DiagsReport [of "{}"] Grows_delete [of "{}"] subset_refl]
        by simp
      from Grows_trans [OF G1 this subset_refl] show ?thesis
        by (rule Grows_mono) (auto simp: FieldsNames_Cons simp del: FieldsNames.simps)
    next
      case (Some ET)
      with "7.prems" False P have F: "CreateFields tb
                 (push_back_Field C1 ERT
                    (Field ET (getFieldName FD) ERT (getFieldOffset FD div 8)))
                 ERT RT FDs = (R, Context')"
        by simp
      have G2: "Grows (set (FieldsNames tb FDs)) (push_back_Field C1 ERT
                    (Field ET (getFieldName FD) ERT (getFieldOffset FD div 8))) Context'"
        using "7.IH"(2) [OF False P [symmetric] Some F] .
      from Grows_trans [OF Grows_trans [OF G1 Grows_push_back [of "{}"] subset_refl] G2
              subset_refl]
      show ?thesis by (rule Grows_mono) (auto simp: FieldsNames_Cons simp del: FieldsNames.simps)
    qed
  qed
qed


lemma CreateFields_result:
  "CreateFields tb Context ERT RT FDs = (Some ET, Context') \<Longrightarrow> ET = ERT"
proof (induction FDs arbitrary: Context)
  case Nil
  then show ?case by simp
next
  case (Cons FD FDs)
  then show ?case
    by (auto split: if_splits prod.splits option.splits)
qed

lemma Grows_absent:
  "Grows Names Context Context' \<Longrightarrow> findExportType Context TypeName = None \<Longrightarrow>
     TypeName \<notin> Names \<Longrightarrow> findExportType Context' TypeName = None"
  by (auto simp: findExportType_Keys Grows_def)

lemma Create_Named_registers:
  assumes C: "RSExportType_Create_Named tb Context T TypeName = (Some ET, Context')"
    and N: "RSExportType_GetTypeName tb (Some T) = Inr TypeName"
    and D: "\<not> startswith TypeName DUMMY_RS_TYPE_NAME_PREFIX"
    and U: "\<forall>PointeeType. T = Pointer PointeeType \<longrightarrow> TypeName \<notin> set (InnerNames tb T)"
  shows "findExportType Context' TypeName = Some ET"
proof (cases "findExportType Context TypeName")
  case (Some ET')
  with C show ?thesis by simp
next
  case None
  have prim: "findExportType Context' TypeName = Some ET"
    if "RSExportPrimitiveType_Create tb Context T' TypeName = (Some ET, Context')" for T'
  proof -
    obtain DT C1 where G: "GetDataType tb Context T' = (DT, C1)"
      by (cases "GetDataType tb Context T'") auto
    with that have "new_RSExportType C1 ExportClassPrimitive TypeName (PrimitiveType DT) =
        (ET, Context')"
      by (auto simp: RSExportPrimitiveType_Create_def split: if_splits prod.splits)
    moreover have "findExportType C1 TypeName = None"
      using Grows_absent [OF Grows_GetDataType [OF G, of "{}"] None] by simp
    ultimately show ?thesis using D by (rule new_registers)
  qed
  show ?thesis
  proof (cases T)
    case (Builtin BT)
    with None C show ?thesis by (auto intro: prim)
  next
    case (Record RD)
    show ?thesis
    proof (cases "GetRSSpecificType_Name tb TypeName = DataTypeUnknown")
      case True
      with None Record C
      have R: "RSExportRecordType_Create tb Context RD TypeName False = (Some ET, Context')"
        by simp
      define Context1 where
        "Context1 = Assert Context (getTagKind RD = TTK_Struct) ''RD->isStruct()''"
      from R obtain RDef where RDef: "getDefinition RD = Some RDef"
        by (cases "getDefinition RD") (auto simp: Let_def)
      obtain ERT C1 where New: "new_RSExportType Context1 ExportClassRecord TypeName
                  (RecordType (hasPackedAttr RDef) False (getSizeInBits RDef div 8) []) =
                  (ERT, C1)"
        by (cases "new_RSExportType Context1 ExportClassRecord TypeName
                  (RecordType (hasPackedAttr RDef) False (getSizeInBits RDef div 8) [])") auto
      with R RDef have F: "CreateFields tb C1 ERT RD (getFields RDef) = (Some ET, Context')"
        by (simp add: Let_def Context1_def)
      have "findExportType Context1 TypeName = None"
        using Grows_absent [OF Grows_Assert [of "{}"] None] by (simp add: Context1_def)
      from new_registers [OF New this D] have "findExportType C1 TypeName = Some ERT" .
      from Grows_find [OF Create_Grows(6) [OF F] this] CreateFields_result [OF F]
      show ?thesis by simp
    next
      case False
      with None Record C have
        "RSExportPrimitiveType_Create tb Context (Some T) TypeName = (Some ET, Context') \<or>
         (\<exists>Dim. RSExportMatrixType_Create Context RD TypeName Dim = (Some ET, Context'))"
        by (auto split: DataType.splits)
      then show ?thesis
      proof
        assume "RSExportPrimitiveType_Create tb Context (Some T) TypeName = (Some ET, Context')"
        then show ?thesis by (rule prim)
      next
        assume "\<exists>Dim. RSExportMatrixType_Create Context RD TypeName Dim = (Some ET, Context')"
        then obtain Dim where
          M: "RSExportMatrixType_Create Context RD TypeName Dim = (Some ET, Context')" ..
        define Context1 where
          "Context1 = Assert Context (Dim > 1) ''Invalid dimension of matrix''"
        from M have "new_RSExportType Context1 ExportClassMatrix TypeName (MatrixType Dim) =
           (ET, Context')"
          by (auto simp: RSExportMatrixType_Create_def Let_def Context1_def
                   split: option.splits list.splits Type.splits DeclType.splits if_splits
                          prod.splits)
        moreover have "findExportType Context1 TypeName = None"
          using Grows_absent [OF Grows_Assert [of "{}"] None] by (simp add: Context1_def)
        ultimately show ?thesis using D by (rule new_registers)
      qed
    qed
  next
    case (Pointer P)
    with None C have PC: "RSExportPointerType_Create tb Context P TypeName = (Some ET, Context')"
      by simp
    obtain R1 C1 where P1: "(if getTypeClass P \<noteq> TC_Pointer
            then RSExportType_Create tb Context (Some P)
            else RSExportPrimitiveType_Create_Type tb Context (Some (Builtin BT_Int))) = (R1, C1)"
      by (cases "if getTypeClass P \<noteq> TC_Pointer
            then RSExportType_Create tb Context (Some P)
            else RSExportPrimitiveType_Create_Type tb Context (Some (Builtin BT_Int))") auto
    have G1: "Grows (set (InnerNames tb (Pointer P))) Context C1"
    proof (cases "getTypeClass P = TC_Pointer")
      case True
      with P1 have "RSExportPrimitiveType_Create_Type tb Context (Some (Builtin BT_Int)) = (R1, C1)"
        by simp
      from Grows_Primitive_Type [OF this] True show ?thesis by (simp add: OptNames_def)
    next
      case False
      with P1 have "RSExportType_Create tb Context (Some P) = (R1, C1)" by simp
      from Create_Grows(1) [OF this] False show ?thesis by (simp add: OptNames_def)
    qed
    from U Pointer have "TypeName \<notin> set (InnerNames tb (Pointer P))" by simp
    from Grows_absent [OF G1 None this] have A: "findExportType C1 TypeName = None" .
    from PC P1 obtain PointeeET where
      "new_RSExportType C1 ExportClassPointer TypeName (PointerType PointeeET) = (ET, Context')"
      by (auto split: option.splits prod.splits)
    from new_registers [OF this A D] show ?thesis .
  next
    case (ExtVector E n)
    with None C have V: "RSExportVectorType_Create tb Context E n TypeName = (Some ET, Context')"
      by simp
    obtain DT C1 where G: "GetDataType tb Context (Some E) = (DT, C1)"
      by (cases "GetDataType tb Context (Some E)") auto
    with V have "new_RSExportType C1 ExportClassVector TypeName (VectorType DT n) =
        (ET, Context')"
      by (auto simp: RSExportVectorType_Create_def split: if_splits prod.splits)
    moreover have "findExportType C1 TypeName = None"
      using Grows_absent [OF Grows_GetDataType [OF G, of "{}"] None] by simp
    ultimately show ?thesis using D by (rule new_registers)
  next
    case (ConstantArray E n)
    with N D show ?thesis by (simp add: dummy_name_startswith)
  next
    case (IncompleteArray E)
    with None C show ?thesis by simp
  next
    case (EnumType N)
    with None C show ?thesis by simp
  qed
qed

text \<open>
  The names of the types at or below a type that are not pointers: scalars, vectors,
  arrays and records with the types of their fields, and \<open>int\<close>, which stands for the
  pointee of a pointer to a pointer. A pointer type that the check accepts has no pointer
  below its pointee, so the names of the types created for the pointee are among them.
\<close>

function (sequential) PlainNames :: "Tables \<Rightarrow> Type \<Rightarrow> string list"
  and PlainFieldsNames :: "Tables \<Rightarrow> FieldDecl list \<Rightarrow> string list"
where
  "PlainNames tb (Pointer PointeeType) = NameOf tb (Builtin BT_Int) @ PlainNames tb PointeeType"
| "PlainNames tb (ConstantArray ElementType Size) =
     NameOf tb (ConstantArray ElementType Size) @ PlainNames tb ElementType"
| "PlainNames tb (Record RT) =
     NameOf tb (Record RT) @
     (case getDefinition RT of
        None \<Rightarrow> []
      | Some RD \<Rightarrow> PlainFieldsNames tb (getFields RD))"
| "PlainNames tb T = NameOf tb T"
| "PlainFieldsNames tb [] = []"
| "PlainFieldsNames tb (FD # FDs) =
     (case GET_CANONICAL_TYPE (getTypeOfDecl FD) of
        None \<Rightarrow> []
      | Some FT \<Rightarrow> PlainNames tb FT) @ PlainFieldsNames tb FDs"
  by pat_completeness auto

termination
  by (relation "measure (\<lambda>x. case x of
          Inl (tb, T) \<Rightarrow> size T
        | Inr (tb, FDs) \<Rightarrow> size_list size FDs)")
     (auto dest: size_getFields size_getTypeOfDecl)

lemma NameOf_PlainNames: "getTypeClass T \<noteq> TC_Pointer \<Longrightarrow> set (NameOf tb T) \<subseteq> set (PlainNames tb T)"
  by (cases T) simp_all

lemma InnerNames_PlainNames:
  "\<not> PointerInside tb T \<Longrightarrow> set (NameOf tb T @ InnerNames tb T) \<subseteq> set (PlainNames tb T)"
  "\<not> PointerInFields tb FDs \<Longrightarrow> set (FieldsNames tb FDs) \<subseteq> set (PlainFieldsNames tb FDs)"
proof (induction tb T and tb FDs rule: InnerNames_FieldsNames.induct)
  case (1 tb PointeeType)
  then show ?case by simp
next
  case (2 tb ElementType Size)
  then have "set (NameOf tb ElementType @ InnerNames tb ElementType) \<subseteq>
             set (PlainNames tb ElementType)" by simp
  then show ?case by auto
next
  case (3 tb RT)
  show ?case
  proof (cases "GetRSSpecificType tb (Some (Record RT)) \<noteq> DataTypeUnknown")
    case True
    then show ?thesis by simp
  next
    case False
    show ?thesis
    proof (cases "getDefinition RT")
      case None
      with False show ?thesis by simp
    next
      case (Some RD)
      with False "3.prems" have "\<not> PointerInFields tb (getFields RD)" by simp
      from "3.IH" [OF False Some this] False Some show ?thesis by auto
    qed
  qed
next
  case (6 tb FD FDs)
  show ?case
  proof (cases "GET_CANONICAL_TYPE (getTypeOfDecl FD)")
    case None
    with "6.prems" "6.IH"(2) show ?thesis by auto
  next
    case (Some FT)
    with "6.prems" have N: "\<not> PointerInside tb FT" "\<not> PointerInFields tb FDs" by simp_all
    from "6.IH"(1) [OF Some N(1)] "6.IH"(2) [OF N(2)] Some show ?thesis by auto
  qed
qed simp_all

lemma exportable_pointee_names:
  assumes "fst (TypeExportable tb (Some (Pointer P)) Diags SM VD) \<noteq> None"
  shows "set (InnerNames tb (Pointer P)) \<subseteq> set (PlainNames tb (Pointer P))"
proof (cases "getTypeClass P = TC_Pointer")
  case True
  then show ?thesis by simp
next
  case False
  obtain R S ds where H: "TypeExportableHelper tb P {} Diags SM VD None = (R, S, ds)"
    by (cases "TypeExportableHelper tb P {} Diags SM VD None") auto
  from assms False H have acc: "R \<noteq> None" and arr: "\<not> isArrayType P"
    by (auto simp: TypeExportable_def split: if_splits prod.splits option.splits)
  have "\<not> PointerInside tb P"
  proof (cases "getTypeClass P = TC_Record")
    case True
    have "Guarded tb (size P) {}" by (simp add: Guarded_def)
    from PointerInside_checked(1) [OF H this] True acc show ?thesis by auto
  next
    case NR: False
    with False arr show ?thesis by (cases P) simp_all
  qed
  from InnerNames_PlainNames(1) [OF this] False show ?thesis by auto
qed

lemma NormalizeType_exportable:
  "NormalizeType tb T Diags SM VD = (Inr (Some (T', TypeName)), ds) \<Longrightarrow>
     fst (TypeExportable tb T Diags SM VD) \<noteq> None"
  by (auto simp: NormalizeType.simps split: prod.splits option.splits sum.splits if_splits)

lemma pointer_name_star:
  "RSExportType_GetTypeName tb (Some (Pointer P)) = Inr TypeName \<Longrightarrow> TypeName \<noteq> [] \<Longrightarrow>
     startswith TypeName ''*''"
  by (auto simp: startswith_def split: prod.splits sum.splits option.splits)

text \<open>
  Claim C1, amended. Let the names of the scalars and records at or below \<open>T\<close> not
  begin with \<open>*\<close>, the first character of the name of a pointer (no identifier of C
  does). When the creation of \<open>T\<close> returns an object and the canonical name of \<open>T\<close>
  does not start with the dummy prefix (so \<open>T\<close> is not a constant array), the object
  is in the registry under that name, and a second creation returns the same address and
  leaves the context as it is.
\<close>

theorem create_twice_identical:
  assumes "RSExportType_Create tb Context (Some T) = (Some ET, Context')"
    and "RSExportType_GetTypeName tb (Some T) = Inr TypeName"
    and "\<not> startswith TypeName DUMMY_RS_TYPE_NAME_PREFIX"
    and "list_all (\<lambda>Name. \<not> startswith Name ''*'') (PlainNames tb T)"
  shows "findExportType Context' TypeName = Some ET \<and>
         RSExportType_Create tb Context' (Some T) = (Some ET, Context')"
proof -
  from assms(1) obtain T' TypeName' ds where
    N: "NormalizeType tb (Some T) False False None = (Inr (Some (T', TypeName')), ds)"
    by (auto split: prod.splits sum.splits option.splits)
  from NormalizeType_name [OF N] assms(2) have T': "T' = T" "TypeName' = TypeName"
    and NE: "TypeName \<noteq> []"
    by simp_all
  from assms(1) N T' have C: "RSExportType_Create_Named tb Context T TypeName = (Some ET, Context')"
    by simp
  have U: "\<forall>PointeeType. T = Pointer PointeeType \<longrightarrow> TypeName \<notin> set (InnerNames tb T)"
  proof (intro allI impI)
    fix P assume P: "T = Pointer P"
    from NormalizeType_exportable [OF N] P
    have "set (InnerNames tb (Pointer P)) \<subseteq> set (PlainNames tb (Pointer P))"
      by (rule_tac exportable_pointee_names) simp
    moreover from assms(2) P NE have "startswith TypeName ''*''"
      by (auto intro: pointer_name_star)
    ultimately show "TypeName \<notin> set (InnerNames tb T)"
      using assms(4) P by (auto simp: list_all_iff)
  qed
  from Create_Named_registers [OF C assms(2) assms(3) U]
  have F: "findExportType Context' TypeName = Some ET" .
  with N T' show ?thesis by simp
qed


lemma NormalizeType_int_pointer:
  "NormalizeType SampleTables (Some (Pointer (Builtin BT_Int))) False False None =
     (Inr (Some (Pointer (Builtin BT_Int), ''*int'')), [])"
  by (simp add: NormalizeType.simps [of _ "Some (Pointer (Builtin BT_Int))"] NormalizeType_int
        TypeExportable_def SampleTables_sel)

theorem create_twice_identical_witness:
  "fst (RSExportType_Create SampleTables EmptyContext (Some (Pointer (Builtin BT_Int)))) = Some 1 \<and>
   RSExportType_Create SampleTables
     (snd (RSExportType_Create SampleTables EmptyContext (Some (Pointer (Builtin BT_Int)))))
     (Some (Pointer (Builtin BT_Int))) =
     (Some 1, snd (RSExportType_Create SampleTables EmptyContext (Some (Pointer (Builtin BT_Int)))))"
proof -
  define C where "C = snd (RSExportType_Create SampleTables EmptyContext
                             (Some (Pointer (Builtin BT_Int))))"
  have fst: "fst (RSExportType_Create SampleTables EmptyContext
                    (Some (Pointer (Builtin BT_Int)))) = Some 1"
    by (simp add: NormalizeType_int_pointer NormalizeType_int EmptyContext_def
        findExportType_def insertExportType_def new_RSExportType_def Let_def
        RSExportPrimitiveType_Create_def GetDataType_def SampleTables_sel startswith_def
        DUMMY_RS_TYPE_NAME_PREFIX_def)
  then have e: "RSExportType_Create SampleTables EmptyContext (Some (Pointer (Builtin BT_Int))) =
      (Some 1, C)"
    by (simp add: C_def prod_eq_iff)
  have n: "RSExportType_GetTypeName SampleTables (Some (Pointer (Builtin BT_Int))) = Inr ''*int''"
    by (simp add: NormalizeType_int)
  have d: "\<not> startswith ''*int'' DUMMY_RS_TYPE_NAME_PREFIX"
    by (simp add: startswith_def DUMMY_RS_TYPE_NAME_PREFIX_def)
  have u: "list_all (\<lambda>Name. \<not> startswith Name ''*'')
             (PlainNames SampleTables (Pointer (Builtin BT_Int)))"
    by (simp add: NameOf_def SampleTables_sel startswith_def)
  from create_twice_identical [OF e n d u] fst show ?thesis
    by (simp add: C_def)
qed

text \<open>
  \<open>NormalizeType\<close> never returns a fault: it asks for the name of an exportable type
  only, and an exportable vector has 2, 3 or 4 elements.
\<close>

lemma word_2_to_4:
  "\<not> (n < 2 \<or> 4 < n) \<Longrightarrow> n = 2 \<or> n = 3 \<or> n = 4" for n :: "32 word"
  by unat_arith

lemma NormalizeType_no_fault:
  "TypeExportable tb T Diags SM VD = (Some T', ds) \<Longrightarrow>
     RSExportType_GetTypeName tb T \<noteq> Inl f"
  "fst (NormalizeType tb T Diags SM VD) \<noteq> Inl f"
proof (induction tb T and tb T Diags SM VD arbitrary: Diags SM VD T' ds f and f
       rule: RSExportType_GetTypeName_NormalizeType.induct)
  case (4 tb PT)
  from "4.IH" [of f] show ?case
    by (cases "NormalizeType tb (Some PT) False False None")
       (auto split: sum.splits option.splits)
next
  case (5 tb ElementType numElements)
  then have "\<not> (numElements < 2 \<or> 4 < numElements)"
    by (auto simp: TypeExportable_def split: prod.splits if_splits)
  then have "numElements = 2 \<or> numElements = 3 \<or> numElements = 4"
    by (rule word_2_to_4)
  then show ?case
    by (auto simp: RSExportVectorType_GetTypeName_def NameTableAt_def
             split: Type.splits option.splits)
next
  case (8 tb T Diags SM VD)
  show ?case
  proof (cases "TypeExportable tb T Diags SM VD")
    case (Pair R ds)
    show ?thesis
    proof (cases R)
      case None
      with Pair show ?thesis by (simp add: NormalizeType.simps)
    next
      case (Some T')
      with Pair have E: "TypeExportable tb T Diags SM VD = (Some T', ds)" by simp
      then have T: "T = Some T'"
        by (cases T) (auto simp: TypeExportable_def split: prod.splits
                             dest: TypeExportableHelper_same)
      from "8.IH" [OF E [symmetric] refl] E T
      have "\<And>f. RSExportType_GetTypeName tb (Some T') \<noteq> Inl f" by blast
      with E show ?thesis
        by (auto simp: NormalizeType.simps split: sum.splits)
    qed
  qed
qed (auto split: option.splits)


section \<open>Equality and reachability marking\<close>

text \<open>
  The member functions \<^verbatim>\<open>equals\<close> and \<^verbatim>\<open>keep\<close> are virtual: the call on an export type
  runs the function of the object's own subclass, which is the case of \<open>mImpl\<close> here.
  Both follow pointers to other export types, so they run on the heap of the
  compilation, and \<open>keep\<close> returns the heap it has written. \<open>deref\<close> reads an address;
  it is \<open>None\<close> at an address that holds no object, where the source would read freed
  or unallocated memory.
\<close>

type_synonym heap = "RSExportTypeObj option list"

definition deref :: "heap \<Rightarrow> addr \<Rightarrow> RSExportTypeObj option" where
  "deref H ET = (if ET < length H then H ! ET else None)"

text \<open>
  Modelled from the spec: \<^verbatim>\<open>RSExportable::equals\<close> is defined in
  \<^verbatim>\<open>slang_rs_exportable.cpp\<close>, which is not among the sources. The spec makes the
  equality of two export types depend on their class and their kind-specific structure
  alone; the comparison of the base class sees neither, and both objects are export
  types, so it accepts.
\<close>

definition RSExportable_equals :: "RSExportTypeObj \<Rightarrow> RSExportTypeObj \<Rightarrow> bool" where
  "RSExportable_equals This E = True"

text \<open>
  \<^verbatim>\<open>RSExportType::equals\<close>: the macro \<^verbatim>\<open>CHECK_PARENT_EQUALITY\<close> returns false when the
  parent class's comparison does, then the classes are compared.
\<close>

definition RSExportType_equals :: "RSExportTypeObj \<Rightarrow> RSExportTypeObj \<Rightarrow> bool" where
  "RSExportType_equals This E = (if \<not> RSExportable_equals This E then False else mClass E = mClass This)"

text \<open>
  The loop of \<^verbatim>\<open>RSExportRecordType::equals\<close> over the two field lists returns false at
  the first pair of field types that are not equal; \<open>FirstFailure\<close> is that loop over the
  results of the comparisons, of which one that does not return stops the loop as well.

  \<open>equals n H this E\<close> is the call \<^verbatim>\<open>this->equals(E)\<close> with \<open>n\<close> nested calls allowed.
  Every subclass compares the classes first (through \<^verbatim>\<open>CHECK_PARENT_EQUALITY\<close>), then
  casts \<open>E\<close> to its own class: a vector compares the element type
  (\<^verbatim>\<open>RSExportPrimitiveType::equals\<close>) and then the number of elements; a pointer asks the
  pointee of \<open>E\<close> to compare itself with its own pointee; an array compares the sizes and
  then the element types; a record compares the numbers of fields and then the field
  types in order. The cast of an object whose class tag does not fit its members has no
  defined result (\<open>None\<close>).
\<close>

fun FirstFailure :: "bool option list \<Rightarrow> bool option" where
  "FirstFailure [] = Some True"
| "FirstFailure (None # Rs) = None"
| "FirstFailure (Some False # Rs) = Some False"
| "FirstFailure (Some True # Rs) = FirstFailure Rs"

primrec equals :: "nat \<Rightarrow> heap \<Rightarrow> addr \<Rightarrow> addr \<Rightarrow> bool option" where
  "equals 0 H this E = None"
| "equals (Suc n) H this E =
     (case deref H this of
        None \<Rightarrow> None
      | Some This \<Rightarrow>
          (case deref H E of
             None \<Rightarrow> None
           | Some RHS \<Rightarrow>
               if \<not> RSExportType_equals This RHS then Some False
               else (case mImpl This of
                  PrimitiveType DT \<Rightarrow>
                    (case mImpl RHS of
                       PrimitiveType DT' \<Rightarrow> Some (DT' = DT)
                     | _ \<Rightarrow> None)
                | VectorType DT NumElement \<Rightarrow>
                    (case mImpl RHS of
                       VectorType DT' NumElement' \<Rightarrow>
                         if DT' \<noteq> DT then Some False else Some (NumElement' = NumElement)
                     | _ \<Rightarrow> None)
                | PointerType PointeeType \<Rightarrow>
                    (case mImpl RHS of
                       PointerType PointeeType' \<Rightarrow> equals n H PointeeType' PointeeType
                     | _ \<Rightarrow> None)
                | MatrixType Dim \<Rightarrow>
                    (case mImpl RHS of
                       MatrixType Dim' \<Rightarrow> Some (Dim' = Dim)
                     | _ \<Rightarrow> None)
                | ConstantArrayType ElementType Size \<Rightarrow>
                    (case mImpl RHS of
                       ConstantArrayType ElementType' Size' \<Rightarrow>
                         if Size \<noteq> Size' then Some False
                         else equals n H ElementType ElementType'
                     | _ \<Rightarrow> None)
                | RecordType Packed Artificial AllocSize Fields \<Rightarrow>
                    (case mImpl RHS of
                       RecordType Packed' Artificial' AllocSize' Fields' \<Rightarrow>
                         if length Fields' \<noteq> length Fields then Some False
                         else FirstFailure
                                (map (\<lambda>(AI, BI). equals n H (getType AI) (getType BI))
                                   (zip Fields Fields'))
                     | _ \<Rightarrow> None))))"

text \<open>
  Modelled from the spec: \<^verbatim>\<open>RSExportable::keep\<close> and \<^verbatim>\<open>RSExportable::isKeep\<close> belong to
  the base class, whose files are not among the sources. The spec describes "keep" as a
  traversal that "marks the type (and, recursively, every type it references) as
  reachable/used, idempotent and safe to call multiple times": the base class holds the
  mark, and its \<^verbatim>\<open>keep\<close> returns false on an object that has the mark and sets it and
  returns true otherwise. The functions return the object next to the result.
\<close>

definition RSExportable_keep :: "RSExportTypeObj \<Rightarrow> bool \<times> RSExportTypeObj" where
  "RSExportable_keep This = (if mKeep This then (False, This) else (True, This\<lparr>mKeep := True\<rparr>))"

definition isKeep :: "heap \<Rightarrow> addr \<Rightarrow> bool" where
  "isKeep H ET = (case deref H ET of None \<Rightarrow> False | Some Obj \<Rightarrow> mKeep Obj)"

text \<open>
  \<^verbatim>\<open>RSExportType::keep\<close> invalidates the converted LLVM type when the base class has set
  the mark. The subclasses \<^verbatim>\<open>RSExportPointerType\<close>, \<^verbatim>\<open>RSExportConstantArrayType\<close> and
  \<^verbatim>\<open>RSExportRecordType\<close> then call \<^verbatim>\<open>keep\<close> on the pointee, on the element type and on
  the type of every field in order (\<open>KeepFields\<close>), and drop the results of these calls.
  \<open>keep n H this\<close> is the call \<^verbatim>\<open>this->keep()\<close> with \<open>n\<close> nested calls allowed.
\<close>

definition RSExportType_keep :: "RSExportTypeObj \<Rightarrow> bool \<times> RSExportTypeObj" where
  "RSExportType_keep This =
     (case RSExportable_keep This of
        (False, This') \<Rightarrow> (False, This')
      | (True, This') \<Rightarrow> (True, This'\<lparr>mLLVMType := None\<rparr>))"

fun KeepFields ::
  "(heap \<Rightarrow> addr \<Rightarrow> (bool \<times> heap) option) \<Rightarrow> Field list \<Rightarrow> heap \<Rightarrow> heap option" where
  "KeepFields k [] H = Some H"
| "KeepFields k (F # Fs) H =
     (case k H (getType F) of
        None \<Rightarrow> None
      | Some (r, H') \<Rightarrow> KeepFields k Fs H')"

primrec keep :: "nat \<Rightarrow> heap \<Rightarrow> addr \<Rightarrow> (bool \<times> heap) option" where
  "keep 0 H this = None"
| "keep (Suc n) H this =
     (case deref H this of
        None \<Rightarrow> None
      | Some This \<Rightarrow>
          (case RSExportType_keep This of
             (False, This') \<Rightarrow> Some (False, H)
           | (True, This') \<Rightarrow>
               (case mImpl This of
                  PointerType PointeeType \<Rightarrow>
                    (case keep n (H[this := Some This']) PointeeType of
                       None \<Rightarrow> None
                     | Some (r, H') \<Rightarrow> Some (True, H'))
                | ConstantArrayType ElementType Size \<Rightarrow>
                    (case keep n (H[this := Some This']) ElementType of
                       None \<Rightarrow> None
                     | Some (r, H') \<Rightarrow> Some (True, H'))
                | RecordType Packed Artificial AllocSize Fields \<Rightarrow>
                    (case KeepFields (keep n) Fields (H[this := Some This']) of
                       None \<Rightarrow> None
                     | Some H' \<Rightarrow> Some (True, H'))
                | _ \<Rightarrow> Some (True, H[this := Some This']))))"

text \<open>
  \<open>KeepTimes N n H ET\<close> calls \<^verbatim>\<open>keep\<close> on the same type \<open>N\<close> times in a row.
\<close>

primrec KeepTimes :: "nat \<Rightarrow> nat \<Rightarrow> heap \<Rightarrow> addr \<Rightarrow> heap option" where
  "KeepTimes 0 n H ET = Some H"
| "KeepTimes (Suc N) n H ET =
     (case keep n H ET of
        None \<Rightarrow> None
      | Some (r, H') \<Rightarrow> KeepTimes N n H' ET)"

text \<open>
  The heap below an export type is well formed (within depth \<open>n\<close>) when the type and
  every type it refers to is a live object whose class tag is the one that the
  constructor of its subclass sets.
\<close>

primrec WellFormed :: "nat \<Rightarrow> heap \<Rightarrow> addr \<Rightarrow> bool" where
  "WellFormed 0 H ET = False"
| "WellFormed (Suc n) H ET =
     (case deref H ET of
        None \<Rightarrow> False
      | Some Obj \<Rightarrow>
          (case mImpl Obj of
             PrimitiveType DT \<Rightarrow> mClass Obj = ExportClassPrimitive
           | VectorType DT NumElement \<Rightarrow> mClass Obj = ExportClassVector
           | PointerType PointeeType \<Rightarrow>
               mClass Obj = ExportClassPointer \<and> WellFormed n H PointeeType
           | MatrixType Dim \<Rightarrow> mClass Obj = ExportClassMatrix
           | ConstantArrayType ElementType Size \<Rightarrow>
               mClass Obj = ExportClassConstantArray \<and> WellFormed n H ElementType
           | RecordType Packed Artificial AllocSize Fields \<Rightarrow>
               mClass Obj = ExportClassRecord \<and>
               list_all (\<lambda>F. WellFormed n H (getType F)) Fields))"

text \<open>
  The export types that a type refers to directly, and the addresses reachable from a
  type in at most \<open>n\<close> steps.
\<close>

definition NestedTypes :: "ExportTypeImpl \<Rightarrow> addr list" where
  "NestedTypes Impl =
     (case Impl of
        PointerType PointeeType \<Rightarrow> [PointeeType]
      | ConstantArrayType ElementType Size \<Rightarrow> [ElementType]
      | RecordType Packed Artificial AllocSize Fields \<Rightarrow> map getType Fields
      | _ \<Rightarrow> [])"

primrec Reachable :: "nat \<Rightarrow> heap \<Rightarrow> addr \<Rightarrow> addr list" where
  "Reachable 0 H ET = [ET]"
| "Reachable (Suc n) H ET =
     ET # (case deref H ET of
             None \<Rightarrow> []
           | Some Obj \<Rightarrow> concat (map (Reachable n H) (NestedTypes (mImpl Obj))))"

text \<open>
  The marks of a heap are closed when every marked object refers to marked types only.
  No object is marked when it is created, and \<^verbatim>\<open>keep\<close> is the only function that sets a
  mark, so this holds between any two calls of \<^verbatim>\<open>keep\<close>.
\<close>

definition KeptClosed :: "heap \<Rightarrow> bool" where
  "KeptClosed H =
     list_all (\<lambda>Slot. case Slot of
                 None \<Rightarrow> True
               | Some Obj \<Rightarrow> mKeep Obj \<longrightarrow> list_all (isKeep H) (NestedTypes (mImpl Obj))) H"

text \<open>
  A heap has no dangling reference when every type that a live object refers to is a
  live object. \<open>Unmarked H\<close> is the number of live objects of the heap that have no
  mark: a call of \<^verbatim>\<open>keep\<close> goes into the nested types of an object only after it has
  marked the object, so it is the bound on the depth of the nested calls.
\<close>

definition NoDangling :: "heap \<Rightarrow> bool" where
  "NoDangling H =
     list_all (\<lambda>Slot. case Slot of
                 None \<Rightarrow> True
               | Some Obj \<Rightarrow> list_all (\<lambda>a. deref H a \<noteq> None) (NestedTypes (mImpl Obj))) H"

definition UnmarkedAt :: "heap \<Rightarrow> addr \<Rightarrow> bool" where
  "UnmarkedAt H a = (case deref H a of None \<Rightarrow> False | Some Obj \<Rightarrow> \<not> mKeep Obj)"

definition Unmarked :: "heap \<Rightarrow> nat" where
  "Unmarked H = length (filter (UnmarkedAt H) [0..<length H])"

text \<open>
  What the factory maintains of the heap, whether a creation succeeds or fails: no object
  has the mark (the constructor clears it and the factory never calls \<open>keep\<close>), and
  every address in the registry and every type that an object refers to has been
  allocated. \<open>Step\<close> relates the context before a call of the factory to the one after
  it; the heap only grows.
\<close>

definition NoMarks :: "heap \<Rightarrow> bool" where
  "NoMarks H = list_all (\<lambda>Slot. case Slot of None \<Rightarrow> True | Some Obj \<Rightarrow> \<not> mKeep Obj) H"

definition InRange :: "RSContext \<Rightarrow> bool" where
  "InRange Context =
     (list_all (\<lambda>(Name, ET). ET < length (mHeap Context)) (mExportTypes Context) \<and>
      list_all (\<lambda>Slot. case Slot of
                  None \<Rightarrow> True
                | Some Obj \<Rightarrow>
                    list_all (\<lambda>ET. ET < length (mHeap Context)) (NestedTypes (mImpl Obj)))
        (mHeap Context))"

definition FactoryInv :: "RSContext \<Rightarrow> bool" where
  "FactoryInv Context = (NoMarks (mHeap Context) \<and> InRange Context)"

definition Step :: "RSContext \<Rightarrow> RSContext \<Rightarrow> bool" where
  "Step Context Context' =
     (FactoryInv Context' \<and> length (mHeap Context) \<le> length (mHeap Context'))"

text \<open>
  The structure that the spec lets equality depend on: the class with the element type,
  the number of elements, the dimension, the size, the structure of the pointee or of the
  element, and the structures of the fields in order. Names, offsets, parents, packing
  and allocation size are not part of it.
\<close>

datatype Structure =
    NoStructure
  | PrimitiveStructure DataType
  | PointerStructure Structure
  | VectorStructure DataType "32 word"
  | MatrixStructure "32 word"
  | ConstantArrayStructure Structure nat
  | RecordStructure "Structure list"

primrec StructureOf :: "nat \<Rightarrow> heap \<Rightarrow> addr \<Rightarrow> Structure" where
  "StructureOf 0 H ET = NoStructure"
| "StructureOf (Suc n) H ET =
     (case deref H ET of
        None \<Rightarrow> NoStructure
      | Some Obj \<Rightarrow>
          (case mImpl Obj of
             PrimitiveType DT \<Rightarrow> PrimitiveStructure DT
           | VectorType DT NumElement \<Rightarrow> VectorStructure DT NumElement
           | PointerType PointeeType \<Rightarrow> PointerStructure (StructureOf n H PointeeType)
           | MatrixType Dim \<Rightarrow> MatrixStructure Dim
           | ConstantArrayType ElementType Size \<Rightarrow>
               ConstantArrayStructure (StructureOf n H ElementType) Size
           | RecordType Packed Artificial AllocSize Fields \<Rightarrow>
               RecordStructure (map (\<lambda>F. StructureOf n H (getType F)) Fields)))"

text \<open>
  An object without its name, mark and cached LLVM type; of a record only the field
  types are left: the names, parents and offsets of the fields, the packing, the
  artificial flag and the allocation size are erased.
\<close>

definition EraseLayoutImpl :: "ExportTypeImpl \<Rightarrow> ExportTypeImpl" where
  "EraseLayoutImpl Impl =
     (case Impl of
        RecordType Packed Artificial AllocSize Fields \<Rightarrow>
          RecordType False False 0 (map (\<lambda>F. Field (getType F) [] 0 0) Fields)
      | _ \<Rightarrow> Impl)"

definition EraseLayout :: "RSExportTypeObj \<Rightarrow> RSExportTypeObj" where
  "EraseLayout Obj =
     \<lparr>mClass = mClass Obj, mName = [], mKeep = False, mLLVMType = None,
      mImpl = EraseLayoutImpl (mImpl Obj)\<rparr>"

text \<open>
  A sample heap: \<open>int\<close> at address 0, the struct \<open>A\<close> with the field \<open>x\<close> of type
  \<open>int\<close> at address 1, the packed struct \<open>B\<close> whose one field \<open>y\<close> of type \<open>int\<close> has
  the offset 4 at address 2, and a pointer to \<open>A\<close> at address 3.
\<close>

definition SampleHeap :: heap where
  "SampleHeap =
     [Some \<lparr>mClass = ExportClassPrimitive, mName = ''int'', mKeep = False,
             mLLVMType = None, mImpl = PrimitiveType DataTypeSigned32\<rparr>,
      Some \<lparr>mClass = ExportClassRecord, mName = ''A'', mKeep = False,
             mLLVMType = None, mImpl = RecordType False False 4 [Field 0 ''x'' 1 0]\<rparr>,
      Some \<lparr>mClass = ExportClassRecord, mName = ''B'', mKeep = False,
             mLLVMType = Some 7, mImpl = RecordType True False 8 [Field 0 ''y'' 2 4]\<rparr>,
      Some \<lparr>mClass = ExportClassPointer, mName = ''*A'', mKeep = False,
             mLLVMType = Some 9, mImpl = PointerType 1\<rparr>]"

text \<open>
  A struct whose tag is the name of a vector type, with a field of that vector type:
  \<^verbatim>\<open>typedef float float4 __attribute__((ext_vector_type(4)));
  struct float4 { float4 v; }\<close> (tags and typedef names are different name spaces of
  C). \<open>Float4Heap\<close> is the heap that the factory builds for it, see
  \<open>equals_self_never_returns\<close>: the record is registered as "float4" before
  its fields are created, and the creation of the field looks "float4" up and gets the
  record itself.
\<close>

definition StructFloat4 :: Type where
  "StructFloat4 =
     Record (RecordDecl TTK_Struct ''float4'' None []
       (Some (RecordDef
                [FieldDecl ''v'' (Some (Typedef ''float4'' (ExtVector (Builtin BT_Float) 4)))
                   False 0]
                False False False 128)))"

definition Float4Heap :: heap where
  "Float4Heap =
     [Some \<lparr>mClass = ExportClassRecord, mName = ''float4'', mKeep = False,
             mLLVMType = None, mImpl = RecordType False False 16 [Field 0 ''v'' 0 0]\<rparr>]"

section \<open>Properties of equality\<close>

lemma FirstFailure_all_True:
  "(FirstFailure Rs = Some True) = (\<forall>R \<in> set Rs. R = Some True)"
  by (induction Rs rule: FirstFailure.induct) auto

lemma FirstFailure_returns:
  "\<forall>R \<in> set Rs. R \<noteq> None \<Longrightarrow> FirstFailure Rs \<noteq> None"
  by (induction Rs rule: FirstFailure.induct) auto

lemma zip_map_sym:
  assumes "length Fs = length Fs'"
    and "\<And>i. i < length Fs \<Longrightarrow> f (Fs ! i) (Fs' ! i) = g (Fs' ! i) (Fs ! i)"
  shows "map (\<lambda>(AI, BI). f AI BI) (zip Fs Fs') = map (\<lambda>(AI, BI). g AI BI) (zip Fs' Fs)"
  using assms by (auto simp: list_eq_iff_nth_eq)

lemma equals_returns:
  "WellFormed n H ET \<Longrightarrow> WellFormed n H ET' \<Longrightarrow> equals n H ET ET' \<noteq> None"
proof (induction n arbitrary: ET ET')
  case 0
  then show ?case by simp
next
  case (Suc n)
  from Suc.prems obtain A B where AB: "deref H ET = Some A" "deref H ET' = Some B"
    by (auto split: option.splits)
  show ?case
  proof (cases "mClass B = mClass A")
    case False
    with AB show ?thesis by (simp add: RSExportType_equals_def RSExportable_equals_def)
  next
    case True
    show ?thesis
    proof (cases "mImpl A")
      case (RecordType pk ar sz Fs)
      with Suc.prems AB True obtain pk' ar' sz' Fs' where B: "mImpl B = RecordType pk' ar' sz' Fs'"
        by (cases "mImpl B") auto
      show ?thesis
      proof (cases "length Fs' = length Fs")
        case False
        with AB True RecordType B show ?thesis
          by (simp add: RSExportType_equals_def RSExportable_equals_def)
      next
        case L: True
        have "\<forall>R \<in> set (map (\<lambda>(AI, BI). equals n H (getType AI) (getType BI)) (zip Fs Fs')).
                R \<noteq> None"
        proof
          fix R assume "R \<in> set (map (\<lambda>(AI, BI). equals n H (getType AI) (getType BI)) (zip Fs Fs'))"
          then obtain AI BI where R: "R = equals n H (getType AI) (getType BI)"
            and Z: "(AI, BI) \<in> set (zip Fs Fs')" by auto
          from Z have "AI \<in> set Fs" "BI \<in> set Fs'" by (auto dest: set_zip_leftD set_zip_rightD)
          with Suc.prems AB RecordType B have "WellFormed n H (getType AI)"
            "WellFormed n H (getType BI)" by (auto simp: list_all_iff)
          with R show "R \<noteq> None" by (simp add: Suc.IH)
        qed
        from FirstFailure_returns [OF this] AB True RecordType B L show ?thesis
          by (simp add: RSExportType_equals_def RSExportable_equals_def)
      qed
    qed (use Suc.prems AB True Suc.IH in
          \<open>auto simp: RSExportType_equals_def RSExportable_equals_def
                split: ExportTypeImpl.splits\<close>)
  qed
qed

lemma equals_reflexive:
  "WellFormed n H ET \<Longrightarrow> equals n H ET ET = Some True"
proof (induction n arbitrary: ET)
  case 0
  then show ?case by simp
next
  case (Suc n)
  from Suc.prems obtain A where A: "deref H ET = Some A"
    by (auto split: option.splits)
  show ?case
  proof (cases "mImpl A")
    case (RecordType pk ar sz Fs)
    have "\<forall>R \<in> set (map (\<lambda>(AI, BI). equals n H (getType AI) (getType BI)) (zip Fs Fs)).
            R = Some True"
    proof
      fix R assume "R \<in> set (map (\<lambda>(AI, BI). equals n H (getType AI) (getType BI)) (zip Fs Fs))"
      then obtain AI where R: "R = equals n H (getType AI) (getType AI)" and "AI \<in> set Fs"
        by (auto simp: zip_same)
      with Suc.prems A RecordType have "WellFormed n H (getType AI)"
        by (auto simp: list_all_iff)
      with R show "R = Some True" by (simp add: Suc.IH)
    qed
    then have "FirstFailure (map (\<lambda>(AI, BI). equals n H (getType AI) (getType BI)) (zip Fs Fs))
        = Some True"
      by (simp only: FirstFailure_all_True)
    with A RecordType show ?thesis
      by (simp add: RSExportType_equals_def RSExportable_equals_def)
  qed (use Suc.prems A Suc.IH in
        \<open>auto simp: RSExportType_equals_def RSExportable_equals_def\<close>)
qed

lemma equals_symmetric:
  "WellFormed n H ET \<Longrightarrow> WellFormed n H ET' \<Longrightarrow> equals n H ET ET' = equals n H ET' ET"
proof (induction n arbitrary: ET ET')
  case 0
  then show ?case by simp
next
  case (Suc n)
  from Suc.prems obtain A B where AB: "deref H ET = Some A" "deref H ET' = Some B"
    by (auto split: option.splits)
  show ?case
  proof (cases "mClass B = mClass A")
    case False
    with AB show ?thesis by (auto simp: RSExportType_equals_def RSExportable_equals_def)
  next
    case True
    show ?thesis
    proof (cases "mImpl A")
      case (RecordType pk ar sz Fs)
      with Suc.prems AB True obtain pk' ar' sz' Fs' where B: "mImpl B = RecordType pk' ar' sz' Fs'"
        by (cases "mImpl B") auto
      show ?thesis
      proof (cases "length Fs' = length Fs")
        case False
        with AB True RecordType B show ?thesis
          by (auto simp: RSExportType_equals_def RSExportable_equals_def)
      next
        case L: True
        have "map (\<lambda>(AI, BI). equals n H (getType AI) (getType BI)) (zip Fs Fs') =
              map (\<lambda>(AI, BI). equals n H (getType AI) (getType BI)) (zip Fs' Fs)"
        proof (rule zip_map_sym)
          show "length Fs = length Fs'" using L by simp
        next
          fix i assume i: "i < length Fs"
          with L Suc.prems AB RecordType B have "WellFormed n H (getType (Fs ! i))"
            "WellFormed n H (getType (Fs' ! i))" by (auto simp: list_all_length)
          then show "equals n H (getType (Fs ! i)) (getType (Fs' ! i)) =
                     equals n H (getType (Fs' ! i)) (getType (Fs ! i))"
            by (rule Suc.IH)
        qed
        with AB True RecordType B L show ?thesis
          by (simp add: RSExportType_equals_def RSExportable_equals_def)
      qed
    next
      case (PointerType P)
      with Suc.prems AB True obtain P' where B: "mImpl B = PointerType P'"
        by (cases "mImpl B") auto
      with Suc.prems AB PointerType have "WellFormed n H P" "WellFormed n H P'" by auto
      from Suc.IH [OF this] AB True PointerType B show ?thesis
        by (simp add: RSExportType_equals_def RSExportable_equals_def)
    next
      case (ConstantArrayType E S)
      with Suc.prems AB True obtain E' S' where B: "mImpl B = ConstantArrayType E' S'"
        by (cases "mImpl B") auto
      with Suc.prems AB ConstantArrayType have "WellFormed n H E" "WellFormed n H E'" by auto
      from Suc.IH [OF this] AB True ConstantArrayType B show ?thesis
        by (auto simp: RSExportType_equals_def RSExportable_equals_def)
    qed (use Suc.prems AB True in
          \<open>auto simp: RSExportType_equals_def RSExportable_equals_def
                split: ExportTypeImpl.splits\<close>)
  qed
qed

lemma EraseLayout_sel:
  "mClass (EraseLayout Obj) = mClass Obj" "mImpl (EraseLayout Obj) = EraseLayoutImpl (mImpl Obj)"
  by (simp_all add: EraseLayout_def)

lemma deref_EraseLayout: "deref (map (map_option EraseLayout) H) ET = map_option EraseLayout (deref H ET)"
  by (simp add: deref_def)

lemma equals_EraseLayout:
  "equals n (map (map_option EraseLayout) H) ET ET' = equals n H ET ET'"
proof (induction n arbitrary: ET ET')
  case 0
  show ?case by simp
next
  case (Suc n)
  have Z: "map (\<lambda>(AI, BI). equals n H (getType AI) (getType BI))
             (zip (map (\<lambda>F. Field (getType F) [] 0 0) Fs)
                  (map (\<lambda>F. Field (getType F) [] 0 0) Fs')) =
           map (\<lambda>(AI, BI). equals n H (getType AI) (getType BI)) (zip Fs Fs')" for Fs Fs'
    by (simp add: zip_map_map case_prod_unfold)
  show ?case
  proof (cases "deref H ET")
    case None
    then show ?thesis by (simp add: deref_EraseLayout)
  next
    case A: (Some A)
    show ?thesis
    proof (cases "deref H ET'")
      case None
      with A show ?thesis by (simp add: deref_EraseLayout)
    next
      case B: (Some B)
      show ?thesis
      proof (cases "mClass B = mClass A")
        case False
        with A B show ?thesis
          by (simp add: deref_EraseLayout EraseLayout_sel RSExportType_equals_def
                RSExportable_equals_def)
      next
        case True
        with A B show ?thesis
          by (cases "mImpl A"; cases "mImpl B")
             (simp_all add: deref_EraseLayout EraseLayout_sel EraseLayoutImpl_def RSExportType_equals_def
                RSExportable_equals_def Suc.IH Z)
      qed
    qed
  qed
qed

lemma FirstFailure_Some: "FirstFailure (map Some bs) = Some (\<forall>b \<in> set bs. b)"
proof (induction bs)
  case Nil
  show ?case by simp
next
  case (Cons a bs)
  then show ?case by (cases a) simp_all
qed

lemma FirstFailure_zip:
  assumes "length Fs = length Fs'"
    and "\<And>i. i < length Fs \<Longrightarrow> g (Fs ! i) (Fs' ! i) = Some (f (Fs ! i) = f (Fs' ! i))"
  shows "FirstFailure (map (\<lambda>(AI, BI). g AI BI) (zip Fs Fs')) = Some (map f Fs = map f Fs')"
proof -
  have "map (\<lambda>(AI, BI). g AI BI) (zip Fs Fs') =
        map Some (map (\<lambda>(AI, BI). f AI = f BI) (zip Fs Fs'))"
    using assms by (auto simp: list_eq_iff_nth_eq)
  moreover have "(\<forall>b \<in> set (map (\<lambda>(AI, BI). f AI = f BI) (zip Fs Fs')). b) =
                 (map f Fs = map f Fs')"
    using assms(1) by (auto simp: list_eq_iff_nth_eq set_zip)
  ultimately show ?thesis by (simp only: FirstFailure_Some)
qed

lemma equals_StructureOf:
  "WellFormed n H ET \<Longrightarrow> WellFormed n H ET' \<Longrightarrow>
   equals n H ET ET' = Some (StructureOf n H ET = StructureOf n H ET')"
proof (induction n arbitrary: ET ET')
  case 0
  then show ?case by simp
next
  case (Suc n)
  from Suc.prems obtain A B where AB: "deref H ET = Some A" "deref H ET' = Some B"
    by (auto split: option.splits)
  show ?case
  proof (cases "mClass B = mClass A")
    case False
    with AB Suc.prems show ?thesis
      by (cases "mImpl A"; cases "mImpl B")
         (auto simp: RSExportType_equals_def RSExportable_equals_def)
  next
    case True
    show ?thesis
    proof (cases "mImpl A")
      case (RecordType pk ar sz Fs)
      with Suc.prems AB True obtain pk' ar' sz' Fs' where B: "mImpl B = RecordType pk' ar' sz' Fs'"
        by (cases "mImpl B") auto
      show ?thesis
      proof (cases "length Fs' = length Fs")
        case False
        then have "map (\<lambda>F. StructureOf n H (getType F)) Fs \<noteq>
                   map (\<lambda>F. StructureOf n H (getType F)) Fs'"
          by (metis length_map)
        with False AB True RecordType B show ?thesis
          by (simp add: RSExportType_equals_def RSExportable_equals_def)
      next
        case L: True
        have "FirstFailure (map (\<lambda>(AI, BI). equals n H (getType AI) (getType BI)) (zip Fs Fs')) =
              Some (map (\<lambda>F. StructureOf n H (getType F)) Fs =
                    map (\<lambda>F. StructureOf n H (getType F)) Fs')"
        proof (rule FirstFailure_zip)
          show "length Fs = length Fs'" using L by simp
        next
          fix i assume i: "i < length Fs"
          with L Suc.prems AB RecordType B have "WellFormed n H (getType (Fs ! i))"
            "WellFormed n H (getType (Fs' ! i))" by (auto simp: list_all_length)
          then show "equals n H (getType (Fs ! i)) (getType (Fs' ! i)) =
                     Some (StructureOf n H (getType (Fs ! i)) = StructureOf n H (getType (Fs' ! i)))"
            by (rule Suc.IH)
        qed
        with AB True RecordType B L show ?thesis
          by (simp add: RSExportType_equals_def RSExportable_equals_def)
      qed
    next
      case (PointerType P)
      with Suc.prems AB True obtain P' where B: "mImpl B = PointerType P'"
        by (cases "mImpl B") auto
      with Suc.prems AB PointerType have "WellFormed n H P'" "WellFormed n H P" by auto
      from Suc.IH [OF this] AB True PointerType B show ?thesis
        by (auto simp: RSExportType_equals_def RSExportable_equals_def)
    next
      case (ConstantArrayType E S)
      with Suc.prems AB True obtain E' S' where B: "mImpl B = ConstantArrayType E' S'"
        by (cases "mImpl B") auto
      with Suc.prems AB ConstantArrayType have "WellFormed n H E" "WellFormed n H E'" by auto
      from Suc.IH [OF this] AB True ConstantArrayType B show ?thesis
        by (auto simp: RSExportType_equals_def RSExportable_equals_def)
    qed (use Suc.prems AB True in
          \<open>auto simp: RSExportType_equals_def RSExportable_equals_def
                split: ExportTypeImpl.splits\<close>)
  qed
qed

text \<open>
  On export types whose heap is well formed, \<open>equals\<close> returns; it is reflexive and
  symmetric; two types are equal exactly when they have the same structure (the same
  class with the same kind-specific members, and for two records the same number of
  fields with pairwise equal field types in order); and the result does not change when
  every name, field name, offset, parent, packing and allocation size of the heap is
  erased.
\<close>

lemma equals_structural:
  assumes "WellFormed n H ET" and "WellFormed n H ET'"
  shows "equals n H ET ET = Some True \<and>
         equals n H ET ET' = equals n H ET' ET \<and>
         equals n H ET ET' = Some (StructureOf n H ET = StructureOf n H ET') \<and>
         equals n (map (map_option EraseLayout) H) ET ET' = equals n H ET ET'"
proof (intro conjI)
  show "equals n H ET ET = Some True" using assms(1) by (rule equals_reflexive)
  show "equals n H ET ET' = equals n H ET' ET" using assms by (rule equals_symmetric)
  show "equals n H ET ET' = Some (StructureOf n H ET = StructureOf n H ET')"
    using assms by (rule equals_StructureOf)
  show "equals n (map (map_option EraseLayout) H) ET ET' = equals n H ET ET'"
    by (rule equals_EraseLayout)
qed

lemma equals_structural_example:
  "WellFormed 2 SampleHeap 1 \<and> WellFormed 2 SampleHeap 2 \<and>
   equals 2 SampleHeap 1 2 = Some True \<and> equals 2 SampleHeap 2 1 = Some True"
  by code_simp

text \<open>
  The heap of \<^verbatim>\<open>struct float4 { float4 v; }\<close>: the comparison of the record with itself
  compares the types of the first fields, which are the record itself, and so on; no
  number of nested calls is enough.
\<close>

lemma equals_Float4Heap: "equals n Float4Heap 0 0 = None"
  by (induction n)
     (simp_all add: Float4Heap_def deref_def RSExportType_equals_def RSExportable_equals_def)

text \<open>
  Claim C7. \<^verbatim>\<open>struct float4 { float4 v; }\<close> passes the exportability check, and the
  factory creates for it, in the empty context, the record at address 0 whose one field
  has the type at address 0. On this export type \<open>equals\<close> is not reflexive: the call
  \<^verbatim>\<open>T->equals(T)\<close> does not return, whatever the number of nested calls allowed.
\<close>

theorem equals_self_never_returns:
  "fst (TypeExportable SampleTables (Some StructFloat4) False False None) = Some StructFloat4 \<and>
   RSExportType_Create SampleTables EmptyContext (Some StructFloat4) =
     (Some 0, \<lparr>mExportTypes = [(''float4'', 0)], mHeap = Float4Heap, mDiagnostics = []\<rparr>) \<and>
   (\<forall>n. equals n Float4Heap 0 0 = None)"
proof -
  have 1: "fst (TypeExportable SampleTables (Some StructFloat4) False False None) =
      Some StructFloat4" by code_simp
  have 2: "RSExportType_Create SampleTables EmptyContext (Some StructFloat4) =
     (Some 0, \<lparr>mExportTypes = [(''float4'', 0)], mHeap = Float4Heap, mDiagnostics = []\<rparr>)"
    by code_simp
  from 1 2 equals_Float4Heap show ?thesis by blast
qed

section \<open>Properties of keep\<close>

text \<open>
  A call of \<^verbatim>\<open>keep\<close> changes the heap in one way only: objects that had no mark get the
  mark and lose their cached LLVM type (\<open>Marks\<close>). \<open>KeepAll\<close> is the sequence of the
  nested calls of one call, on the list of the nested types. \<open>ClosedExcept G\<close> is the
  closure of the marks but for the objects of \<open>G\<close>, those whose call is still running.
\<close>

definition Marked :: "RSExportTypeObj \<Rightarrow> RSExportTypeObj" where
  "Marked Obj = Obj\<lparr>mKeep := True, mLLVMType := None\<rparr>"

definition Marks :: "heap \<Rightarrow> heap \<Rightarrow> bool" where
  "Marks H H' =
     (length H' = length H \<and>
      (\<forall>a. deref H' a = deref H a \<or>
           (\<exists>Obj. deref H a = Some Obj \<and> \<not> mKeep Obj \<and> deref H' a = Some (Marked Obj))))"

fun KeepAll ::
  "(heap \<Rightarrow> addr \<Rightarrow> (bool \<times> heap) option) \<Rightarrow> addr list \<Rightarrow> heap \<Rightarrow> heap option" where
  "KeepAll k [] H = Some H"
| "KeepAll k (a # as) H =
     (case k H a of
        None \<Rightarrow> None
      | Some (r, H') \<Rightarrow> KeepAll k as H')"

definition ClosedExcept :: "addr set \<Rightarrow> heap \<Rightarrow> bool" where
  "ClosedExcept G H =
     (\<forall>a Obj. a \<notin> G \<longrightarrow> deref H a = Some Obj \<longrightarrow> mKeep Obj \<longrightarrow>
        (\<forall>c \<in> set (NestedTypes (mImpl Obj)). isKeep H c))"

lemma KeepFields_KeepAll: "KeepFields k Fs H = KeepAll k (map getType Fs) H"
  by (induction Fs arbitrary: H) (auto split: option.splits)

lemma keep_unfold:
  "keep (Suc n) H this =
     (case deref H this of
        None \<Rightarrow> None
      | Some This \<Rightarrow>
          if mKeep This then Some (False, H)
          else map_option (Pair True)
                 (KeepAll (keep n) (NestedTypes (mImpl This)) (H[this := Some (Marked This)])))"
  by (simp add: RSExportType_keep_def RSExportable_keep_def Marked_def NestedTypes_def
        KeepFields_KeepAll split: option.splits ExportTypeImpl.splits prod.splits)

declare keep.simps(2) [simp del]

lemma Marked_sel:
  "mKeep (Marked Obj)" "mImpl (Marked Obj) = mImpl Obj" "mClass (Marked Obj) = mClass Obj"
  by (simp_all add: Marked_def)

lemma deref_update_same: "deref H this = Some This \<Longrightarrow> deref (H[this := X]) this = X"
  by (auto simp: deref_def split: if_splits)

lemma deref_update_other: "a \<noteq> this \<Longrightarrow> deref (H[this := X]) a = deref H a"
  by (auto simp: deref_def)

lemma Marks_at:
  "Marks H H' \<Longrightarrow>
   deref H' a = deref H a \<or>
   (\<exists>Obj. deref H a = Some Obj \<and> \<not> mKeep Obj \<and> deref H' a = Some (Marked Obj))"
  by (simp add: Marks_def)

lemma Marks_refl: "Marks H H"
  by (simp add: Marks_def)

lemma Marks_trans: "Marks H H1 \<Longrightarrow> Marks H1 H2 \<Longrightarrow> Marks H H2"
  unfolding Marks_def
proof (intro conjI allI)
  assume 1: "length H1 = length H \<and>
      (\<forall>a. deref H1 a = deref H a \<or>
           (\<exists>Obj. deref H a = Some Obj \<and> \<not> mKeep Obj \<and> deref H1 a = Some (Marked Obj)))"
    and 2: "length H2 = length H1 \<and>
      (\<forall>a. deref H2 a = deref H1 a \<or>
           (\<exists>Obj. deref H1 a = Some Obj \<and> \<not> mKeep Obj \<and> deref H2 a = Some (Marked Obj)))"
  from 1 2 show "length H2 = length H" by simp
  fix a
  from 1 have A: "deref H1 a = deref H a \<or>
           (\<exists>Obj. deref H a = Some Obj \<and> \<not> mKeep Obj \<and> deref H1 a = Some (Marked Obj))"
    by blast
  from 2 have B: "deref H2 a = deref H1 a \<or>
           (\<exists>Obj. deref H1 a = Some Obj \<and> \<not> mKeep Obj \<and> deref H2 a = Some (Marked Obj))"
    by blast
  from A B show "deref H2 a = deref H a \<or>
           (\<exists>Obj. deref H a = Some Obj \<and> \<not> mKeep Obj \<and> deref H2 a = Some (Marked Obj))"
    by (metis Marked_sel(1) option.inject)
qed

lemma Marks_update:
  assumes "deref H this = Some This" and "\<not> mKeep This"
  shows "Marks H (H[this := Some (Marked This)])"
  unfolding Marks_def
proof (intro conjI allI)
  show "length (H[this := Some (Marked This)]) = length H" by simp
  fix a
  show "deref (H[this := Some (Marked This)]) a = deref H a \<or>
        (\<exists>Obj. deref H a = Some Obj \<and> \<not> mKeep Obj \<and>
               deref (H[this := Some (Marked This)]) a = Some (Marked Obj))"
  proof (cases "a = this")
    case True
    with assms deref_update_same [OF assms(1), of "Some (Marked This)"] show ?thesis by simp
  next
    case False
    then show ?thesis by (simp add: deref_update_other)
  qed
qed

lemma Marks_kept_same:
  assumes "Marks H H'" and "isKeep H a"
  shows "deref H' a = deref H a"
proof -
  from assms(2) obtain Obj where "deref H a = Some Obj" "mKeep Obj"
    by (auto simp: isKeep_def split: option.splits)
  with Marks_at [OF assms(1), of a] show ?thesis by auto
qed

lemma Marks_isKeep: "Marks H H' \<Longrightarrow> isKeep H a \<Longrightarrow> isKeep H' a"
  by (simp add: isKeep_def Marks_kept_same)

lemma Marks_deref:
  assumes "Marks H H'" and "deref H a = Some Obj"
  shows "\<exists>Obj'. deref H' a = Some Obj' \<and> mImpl Obj' = mImpl Obj \<and> mClass Obj' = mClass Obj"
  using Marks_at [OF assms(1), of a] assms(2) by (auto simp: Marked_sel)

lemma KeepAll_Marks:
  assumes "\<And>H a r H'. k H a = Some (r, H') \<Longrightarrow> Marks H H'"
  shows "KeepAll k as H = Some H' \<Longrightarrow> Marks H H'"
proof (induction as arbitrary: H)
  case Nil
  then show ?case by (simp add: Marks_refl)
next
  case (Cons a as)
  from Cons.prems obtain r H1 where 1: "k H a = Some (r, H1)" and 2: "KeepAll k as H1 = Some H'"
    by (auto split: option.splits)
  from assms [OF 1] Cons.IH [OF 2] show ?case by (rule Marks_trans)
qed

lemma keep_Marks: "keep n H ET = Some (r, H') \<Longrightarrow> Marks H H'"
proof (induction n arbitrary: H ET r H')
  case 0
  then show ?case by simp
next
  case (Suc n)
  from Suc.prems obtain This where T: "deref H ET = Some This"
    by (auto simp: keep_unfold split: option.splits)
  show ?case
  proof (cases "mKeep This")
    case True
    with Suc.prems T show ?thesis by (simp add: keep_unfold Marks_refl)
  next
    case False
    with Suc.prems T have
      K: "KeepAll (keep n) (NestedTypes (mImpl This)) (H[ET := Some (Marked This)]) = Some H'"
      by (auto simp: keep_unfold)
    have "Marks (H[ET := Some (Marked This)]) H'"
      using K by (rule KeepAll_Marks [rotated]) (rule Suc.IH)
    with Marks_update [OF T False] show ?thesis by (rule Marks_trans)
  qed
qed

lemma isKeep_update:
  "deref H ET = Some This \<Longrightarrow> isKeep (H[ET := Some (Marked This)]) ET"
  by (auto simp: isKeep_def deref_def Marked_def split: if_splits)

lemma keep_isKeep:
  assumes "keep n H ET = Some (r, H')"
  shows "isKeep H' ET \<and> r = (\<not> isKeep H ET)"
proof (cases n)
  case 0
  with assms show ?thesis by simp
next
  case (Suc m)
  from assms Suc obtain This where T: "deref H ET = Some This"
    by (auto simp: keep_unfold split: option.splits)
  show ?thesis
  proof (cases "mKeep This")
    case True
    with assms Suc T show ?thesis by (auto simp: keep_unfold isKeep_def)
  next
    case False
    with assms Suc T have
      K: "KeepAll (keep m) (NestedTypes (mImpl This)) (H[ET := Some (Marked This)]) = Some H'"
      and r: "r" by (auto simp: keep_unfold)
    have "Marks (H[ET := Some (Marked This)]) H'"
      using K by (rule KeepAll_Marks [rotated]) (rule keep_Marks)
    from Marks_isKeep [OF this isKeep_update [OF T]] r False T show ?thesis
      by (simp add: isKeep_def)
  qed
qed

lemma KeepAll_kept:
  "KeepAll (keep n) as H = Some H' \<Longrightarrow> \<forall>a \<in> set as. isKeep H' a"
proof (induction as arbitrary: H)
  case Nil
  then show ?case by simp
next
  case (Cons a as)
  from Cons.prems obtain r H1 where 1: "keep n H a = Some (r, H1)"
    and 2: "KeepAll (keep n) as H1 = Some H'"
    by (auto split: option.splits)
  have "Marks H1 H'" using 2 by (rule KeepAll_Marks [rotated]) (rule keep_Marks)
  from Marks_isKeep [OF this] keep_isKeep [OF 1] have "isKeep H' a" by simp
  with Cons.IH [OF 2] show ?case by simp
qed

lemma keep_nested:
  assumes "keep n H ET = Some (True, H')" and "deref H ET = Some This"
  shows "\<forall>a \<in> set (NestedTypes (mImpl This)). isKeep H' a"
proof (cases n)
  case 0
  with assms show ?thesis by simp
next
  case (Suc m)
  with assms have
    "KeepAll (keep m) (NestedTypes (mImpl This)) (H[ET := Some (Marked This)]) = Some H'"
    by (auto simp: keep_unfold split: if_splits)
  then show ?thesis by (rule KeepAll_kept)
qed

lemma Unmarked_card: "Unmarked H = card {a. a < length H \<and> UnmarkedAt H a}"
proof -
  have "distinct (filter (UnmarkedAt H) [0..<length H])" by simp
  from distinct_card [OF this]
  have "Unmarked H = card (set (filter (UnmarkedAt H) [0..<length H]))"
    unfolding Unmarked_def by simp
  also have "set (filter (UnmarkedAt H) [0..<length H]) = {a. a < length H \<and> UnmarkedAt H a}"
    by auto
  finally show ?thesis .
qed

lemma Marks_UnmarkedAt:
  assumes "Marks H H'" and "UnmarkedAt H' a"
  shows "UnmarkedAt H a"
proof -
  from assms(2) obtain Obj' where O: "deref H' a = Some Obj'" "\<not> mKeep Obj'"
    by (auto simp: UnmarkedAt_def split: option.splits)
  from Marks_at [OF assms(1), of a] show ?thesis
  proof
    assume "deref H' a = deref H a"
    with O show ?thesis by (simp add: UnmarkedAt_def)
  next
    assume "\<exists>Obj. deref H a = Some Obj \<and> \<not> mKeep Obj \<and> deref H' a = Some (Marked Obj)"
    then show ?thesis by (auto simp: UnmarkedAt_def)
  qed
qed

lemma Marks_length: "Marks H H' \<Longrightarrow> length H' = length H"
  by (simp add: Marks_def)

lemma Marks_Unmarked: "Marks H H' \<Longrightarrow> Unmarked H' \<le> Unmarked H"
  unfolding Unmarked_card
  by (rule card_mono) (auto simp: Marks_length dest: Marks_UnmarkedAt)

lemma Unmarked_update:
  assumes "deref H ET = Some This" and "\<not> mKeep This"
  shows "Unmarked (H[ET := Some (Marked This)]) < Unmarked H"
  unfolding Unmarked_card
proof (rule psubset_card_mono)
  show "finite {a. a < length H \<and> UnmarkedAt H a}" by simp
  have L: "ET < length H" using assms(1) by (auto simp: deref_def split: if_splits)
  have M: "Marks H (H[ET := Some (Marked This)])" using assms by (rule Marks_update)
  have "ET \<in> {a. a < length H \<and> UnmarkedAt H a}"
    using assms L by (simp add: UnmarkedAt_def)
  moreover have "ET \<notin> {a. a < length (H[ET := Some (Marked This)]) \<and>
                       UnmarkedAt (H[ET := Some (Marked This)]) a}"
    using deref_update_same [OF assms(1), of "Some (Marked This)"]
    by (simp add: UnmarkedAt_def Marked_sel)
  moreover have "{a. a < length (H[ET := Some (Marked This)]) \<and>
                     UnmarkedAt (H[ET := Some (Marked This)]) a} \<subseteq>
                 {a. a < length H \<and> UnmarkedAt H a}"
    using Marks_UnmarkedAt [OF M] by auto
  ultimately show "{a. a < length (H[ET := Some (Marked This)]) \<and>
                     UnmarkedAt (H[ET := Some (Marked This)]) a} \<subset>
                 {a. a < length H \<and> UnmarkedAt H a}"
    by blast
qed

lemma NoDangling_iff:
  "NoDangling H =
     (\<forall>a Obj c. deref H a = Some Obj \<longrightarrow> c \<in> set (NestedTypes (mImpl Obj)) \<longrightarrow>
        deref H c \<noteq> None)"
proof
  assume N: "NoDangling H"
  show "\<forall>a Obj c. deref H a = Some Obj \<longrightarrow> c \<in> set (NestedTypes (mImpl Obj)) \<longrightarrow>
        deref H c \<noteq> None"
  proof (intro allI impI)
    fix a Obj c
    assume "deref H a = Some Obj" and c: "c \<in> set (NestedTypes (mImpl Obj))"
    then have "a < length H" "H ! a = Some Obj" by (auto simp: deref_def split: if_splits)
    then have "Some Obj \<in> set H" by (metis nth_mem)
    with N c show "deref H c \<noteq> None" by (auto simp: NoDangling_def list_all_iff)
  qed
next
  assume A: "\<forall>a Obj c. deref H a = Some Obj \<longrightarrow> c \<in> set (NestedTypes (mImpl Obj)) \<longrightarrow>
        deref H c \<noteq> None"
  show "NoDangling H"
    unfolding NoDangling_def list_all_iff
  proof
    fix Slot assume "Slot \<in> set H"
    then obtain a where "a < length H" "H ! a = Slot" by (auto simp: in_set_conv_nth)
    then have "deref H a = Slot" by (simp add: deref_def)
    with A show "case Slot of None \<Rightarrow> True
          | Some Obj \<Rightarrow> \<forall>a \<in> set (NestedTypes (mImpl Obj)). deref H a \<noteq> None"
      by (auto split: option.splits)
  qed
qed

lemma Marks_live: "Marks H H' \<Longrightarrow> deref H a \<noteq> None \<Longrightarrow> deref H' a \<noteq> None"
  using Marks_deref [of H H' a] by auto

lemma Marks_deref_back:
  assumes "Marks H H'" and "deref H' a = Some Obj'"
  shows "\<exists>Obj. deref H a = Some Obj \<and> mImpl Obj' = mImpl Obj"
proof -
  from Marks_at [OF assms(1), of a] show ?thesis
  proof
    assume "deref H' a = deref H a"
    with assms(2) show ?thesis by simp
  next
    assume "\<exists>Obj. deref H a = Some Obj \<and> \<not> mKeep Obj \<and> deref H' a = Some (Marked Obj)"
    with assms(2) show ?thesis by (auto simp: Marked_sel)
  qed
qed

lemma Marks_NoDangling:
  assumes "Marks H H'" and "NoDangling H"
  shows "NoDangling H'"
  unfolding NoDangling_iff
proof (intro allI impI)
  fix a Obj' c
  assume O: "deref H' a = Some Obj'" and c: "c \<in> set (NestedTypes (mImpl Obj'))"
  from Marks_deref_back [OF assms(1) O] obtain Obj where
    "deref H a = Some Obj" "mImpl Obj' = mImpl Obj" by blast
  with assms(2) c have "deref H c \<noteq> None" by (auto simp: NoDangling_iff)
  with assms(1) show "deref H' c \<noteq> None" by (rule Marks_live)
qed

lemma KeepAll_returns_live:
  assumes "\<And>H a. NoDangling H \<Longrightarrow> deref H a \<noteq> None \<Longrightarrow> Unmarked H < n \<Longrightarrow>
             \<exists>r H'. keep n H a = Some (r, H')"
  shows "NoDangling H \<Longrightarrow> \<forall>a \<in> set as. deref H a \<noteq> None \<Longrightarrow> Unmarked H < n \<Longrightarrow>
           \<exists>H'. KeepAll (keep n) as H = Some H'"
proof (induction as arbitrary: H)
  case Nil
  then show ?case by simp
next
  case (Cons a as)
  from Cons.prems have "deref H a \<noteq> None" by simp
  from assms [OF Cons.prems(1) this Cons.prems(3)] obtain r H1 where
    1: "keep n H a = Some (r, H1)" by blast
  note M = keep_Marks [OF 1]
  have "NoDangling H1" using M Cons.prems(1) by (rule Marks_NoDangling)
  moreover have "\<forall>a \<in> set as. deref H1 a \<noteq> None"
    using Cons.prems(2) Marks_live [OF M] by simp
  moreover have "Unmarked H1 < n" using Marks_Unmarked [OF M] Cons.prems(3) by simp
  ultimately obtain H' where "KeepAll (keep n) as H1 = Some H'"
    using Cons.IH by blast
  with 1 show ?case by simp
qed

lemma keep_returns_live:
  "NoDangling H \<Longrightarrow> deref H ET \<noteq> None \<Longrightarrow> Unmarked H < n \<Longrightarrow>
     \<exists>r H'. keep n H ET = Some (r, H')"
proof (induction n arbitrary: H ET)
  case 0
  then show ?case by simp
next
  case (Suc n)
  from Suc.prems(2) obtain This where T: "deref H ET = Some This" by auto
  show ?case
  proof (cases "mKeep This")
    case True
    with T show ?thesis by (auto simp: keep_unfold)
  next
    case False
    let ?H1 = "H[ET := Some (Marked This)]"
    have M: "Marks H ?H1" using T False by (rule Marks_update)
    have N1: "NoDangling ?H1" using M Suc.prems(1) by (rule Marks_NoDangling)
    have "\<forall>a \<in> set (NestedTypes (mImpl This)). deref H a \<noteq> None"
      using Suc.prems(1) T by (auto simp: NoDangling_iff)
    then have L1: "\<forall>a \<in> set (NestedTypes (mImpl This)). deref ?H1 a \<noteq> None"
      using Marks_live [OF M] by simp
    have U1: "Unmarked ?H1 < n"
      using Unmarked_update [OF T False] Suc.prems(3) by simp
    from KeepAll_returns_live [OF Suc.IH N1 L1 U1] T False show ?thesis
      by (auto simp: keep_unfold)
  qed
qed

lemma ClosedExcept_Marks_out:
  assumes "ClosedExcept G H" and "Marks H H'" and "\<forall>a. a \<notin> G \<longrightarrow> isKeep H' a \<longrightarrow> isKeep H a"
  shows "ClosedExcept G H'"
  unfolding ClosedExcept_def
proof (intro allI impI ballI)
  fix a Obj' c
  assume a: "a \<notin> G" and O': "deref H' a = Some Obj'" and k: "mKeep Obj'"
    and c: "c \<in> set (NestedTypes (mImpl Obj'))"
  from O' k have "isKeep H' a" by (simp add: isKeep_def)
  with assms(3) a have ka: "isKeep H a" by blast
  from Marks_kept_same [OF assms(2) ka] O' have "deref H a = Some Obj'" by simp
  with assms(1) a k c have "isKeep H c" by (auto simp: ClosedExcept_def)
  with assms(2) show "isKeep H' c" by (rule Marks_isKeep)
qed

lemma KeepAll_closed:
  assumes "\<And>H a r H'. keep n H a = Some (r, H') \<Longrightarrow> ClosedExcept G H \<Longrightarrow> ClosedExcept G H'"
  shows "KeepAll (keep n) as H = Some H' \<Longrightarrow> ClosedExcept G H \<Longrightarrow> ClosedExcept G H'"
proof (induction as arbitrary: H)
  case Nil
  then show ?case by simp
next
  case (Cons a as)
  from Cons.prems obtain r H1 where 1: "keep n H a = Some (r, H1)"
    and 2: "KeepAll (keep n) as H1 = Some H'"
    by (auto split: option.splits)
  from assms [OF 1 Cons.prems(2)] have "ClosedExcept G H1" .
  with 2 show ?case by (rule Cons.IH)
qed

lemma keep_closed:
  "keep n H ET = Some (r, H') \<Longrightarrow> ClosedExcept G H \<Longrightarrow> ClosedExcept G H'"
proof (induction n arbitrary: H ET r H' G)
  case 0
  then show ?case by simp
next
  case (Suc n)
  from Suc.prems obtain This where T: "deref H ET = Some This"
    by (auto simp: keep_unfold split: option.splits)
  show ?case
  proof (cases "mKeep This")
    case True
    with Suc.prems T show ?thesis by (simp add: keep_unfold)
  next
    case False
    let ?H1 = "H[ET := Some (Marked This)]"
    from Suc.prems T False have
      K: "KeepAll (keep n) (NestedTypes (mImpl This)) ?H1 = Some H'" and r: "r"
      by (auto simp: keep_unfold)
    have M1: "Marks H ?H1" using T False by (rule Marks_update)
    have "ClosedExcept (insert ET G) ?H1"
    proof (rule ClosedExcept_Marks_out [OF _ M1])
      show "ClosedExcept (insert ET G) H"
        using Suc.prems(2) by (auto simp: ClosedExcept_def)
      show "\<forall>a. a \<notin> insert ET G \<longrightarrow> isKeep ?H1 a \<longrightarrow> isKeep H a"
        by (auto simp: isKeep_def deref_def)
    qed
    with K have C: "ClosedExcept (insert ET G) H'"
      by (rule KeepAll_closed [rotated]) (rule Suc.IH)
    have M2: "Marks ?H1 H'" using K by (rule KeepAll_Marks [rotated]) (rule keep_Marks)
    have D1: "deref ?H1 ET = Some (Marked This)" using T by (auto simp: deref_def split: if_splits)
    from Marks_kept_same [OF M2 isKeep_update [OF T]] D1
    have D': "deref H' ET = Some (Marked This)" by simp
    have N: "\<forall>a \<in> set (NestedTypes (mImpl This)). isKeep H' a"
      using K by (rule KeepAll_kept)
    show ?thesis
      unfolding ClosedExcept_def
    proof (intro allI impI ballI)
      fix a Obj c
      assume a: "a \<notin> G" and O: "deref H' a = Some Obj" and k: "mKeep Obj"
        and c: "c \<in> set (NestedTypes (mImpl Obj))"
      show "isKeep H' c"
      proof (cases "a = ET")
        case True
        with O D' have "mImpl Obj = mImpl This" by (auto simp: Marked_def)
        with N c show ?thesis by simp
      next
        case False
        with a C O k c show ?thesis by (auto simp: ClosedExcept_def)
      qed
    qed
  qed
qed

lemma KeptClosed_ClosedExcept: "KeptClosed H = ClosedExcept {} H"
proof
  assume C: "KeptClosed H"
  show "ClosedExcept {} H"
    unfolding ClosedExcept_def
  proof (intro allI impI ballI)
    fix a Obj c
    assume "deref H a = Some Obj" and k: "mKeep Obj" and c: "c \<in> set (NestedTypes (mImpl Obj))"
    then have "a < length H" "H ! a = Some Obj" by (auto simp: deref_def split: if_splits)
    then have "Some Obj \<in> set H" by (metis nth_mem)
    with C k c show "isKeep H c" by (auto simp: KeptClosed_def list_all_iff)
  qed
next
  assume C: "ClosedExcept {} H"
  show "KeptClosed H"
    unfolding KeptClosed_def list_all_iff
  proof
    fix Slot assume "Slot \<in> set H"
    then obtain a where "a < length H" "H ! a = Slot" by (auto simp: in_set_conv_nth)
    then have "deref H a = Slot" by (simp add: deref_def)
    with C show "case Slot of None \<Rightarrow> True
          | Some Obj \<Rightarrow> mKeep Obj \<longrightarrow> (\<forall>x \<in> set (NestedTypes (mImpl Obj)). isKeep H x)"
      by (auto simp: ClosedExcept_def split: option.splits)
  qed
qed

lemma KeptClosed_nested:
  "KeptClosed H \<Longrightarrow> deref H ET = Some This \<Longrightarrow> mKeep This \<Longrightarrow>
   \<forall>a \<in> set (NestedTypes (mImpl This)). isKeep H a"
  by (auto simp: KeptClosed_ClosedExcept ClosedExcept_def)

text \<open>An object is created without the mark, and a heap without marks is closed.\<close>

lemma new_unmarked:
  "new_RSExportType Context Class Name Impl = (this, Context') \<Longrightarrow>
   deref (mHeap Context') this =
     Some \<lparr>mClass = Class, mName = Name, mKeep = False, mLLVMType = None, mImpl = Impl\<rparr>"
  by (auto simp: new_RSExportType_def Let_def deref_def insertExportType_def
           split: if_splits option.splits)

lemma KeptClosed_unmarked:
  "\<forall>Slot \<in> set H. \<forall>Obj. Slot = Some Obj \<longrightarrow> \<not> mKeep Obj \<Longrightarrow> KeptClosed H"
  by (auto simp: KeptClosed_def list_all_iff split: option.splits)

lemma Reachable_kept:
  "KeptClosed H \<Longrightarrow> isKeep H ET \<Longrightarrow> \<forall>a \<in> set (Reachable m H ET). isKeep H a"
proof (induction m arbitrary: ET)
  case 0
  then show ?case by simp
next
  case (Suc m)
  from Suc.prems(2) obtain This where T: "deref H ET = Some This" "mKeep This"
    by (auto simp: isKeep_def split: option.splits)
  from KeptClosed_nested [OF Suc.prems(1) T]
  have "\<forall>a \<in> set (NestedTypes (mImpl This)). isKeep H a" .
  with Suc.IH [OF Suc.prems(1)] Suc.prems(2) T show ?case by auto
qed

lemma keep_again: "isKeep H ET \<Longrightarrow> keep (Suc m) H ET = Some (False, H)"
  by (auto simp: keep_unfold isKeep_def split: option.splits)

lemma KeepTimes_kept: "isKeep H ET \<Longrightarrow> KeepTimes N (Suc m) H ET = Some H"
  by (induction N) (simp_all add: keep_again)

lemma KeepTimes_once:
  assumes "keep n H ET = Some (r, H')"
  shows "KeepTimes (Suc N) n H ET = Some H'"
proof (cases n)
  case 0
  with assms show ?thesis by simp
next
  case (Suc m)
  from keep_isKeep [OF assms] have "isKeep H' ET" by simp
  from KeepTimes_kept [OF this, of N m] assms Suc show ?thesis by simp
qed

text \<open>
  The factory keeps the invariant, and the address it returns has been allocated. Hence
  the marks of a heap that the factory built from the empty context are closed; when no
  creation of a record failed (no object was deleted), the heap has no dangling
  reference and the returned type is a live object. The record that
  \<open>struct float4 { float4 v; }\<close> gives is such a heap, with a cycle.
\<close>

lemma Step_refl: "FactoryInv Context \<Longrightarrow> Step Context Context"
  by (simp add: Step_def)

lemma Step_trans: "Step C1 C2 \<Longrightarrow> Step C2 C3 \<Longrightarrow> Step C1 C3"
  by (auto simp: Step_def)

lemma Step_Inv: "Step C1 C2 \<Longrightarrow> FactoryInv C2"
  by (simp add: Step_def)

lemma Step_length: "Step C1 C2 \<Longrightarrow> ET < length (mHeap C1) \<Longrightarrow> ET < length (mHeap C2)"
  by (auto simp: Step_def)

lemma Step_DiagsReport: "FactoryInv Context \<Longrightarrow> Step Context (DiagsReport Context D)"
  by (simp add: Step_def FactoryInv_def InRange_def DiagsReport_def cong: option.case_cong)

lemma Step_Assert: "FactoryInv Context \<Longrightarrow> Step Context (Assert Context Cond Message)"
  by (simp add: Assert_def Step_refl Step_DiagsReport)

lemma Step_MatrixReport:
  "FactoryInv Context \<Longrightarrow> Step Context (MatrixReport Context RD Message Args)"
  by (simp add: MatrixReport_def Step_DiagsReport)

lemma Step_delete: "FactoryInv Context \<Longrightarrow> Step Context (delete_RSExportType Context ET)"
  unfolding Step_def FactoryInv_def InRange_def NoMarks_def delete_RSExportType_def
  by (auto simp: list_all_iff dest!: set_update_subset_insert [THEN subsetD])

lemma findExportType_InRange:
  "FactoryInv Context \<Longrightarrow> findExportType Context TypeName = Some ET \<Longrightarrow>
     ET < length (mHeap Context)"
  by (auto simp: FactoryInv_def InRange_def findExportType_def list_all_iff dest: map_of_SomeD)

lemma Step_new:
  assumes "FactoryInv Context"
    and "\<forall>ET \<in> set (NestedTypes Impl). ET < length (mHeap Context)"
    and "new_RSExportType Context Class TypeName Impl = (this, Context')"
  shows "Step Context Context' \<and> this < length (mHeap Context')"
proof -
  from assms(3) have H: "mHeap Context' = mHeap Context @
        [Some \<lparr>mClass = Class, mName = TypeName, mKeep = False, mLLVMType = None,
                mImpl = Impl\<rparr>]"
    and T: "this = length (mHeap Context)"
    and R: "set (mExportTypes Context') \<subseteq> insert (TypeName, this) (set (mExportTypes Context))"
    by (auto simp: new_RSExportType_def Let_def insertExportType_def
             split: if_splits option.splits)
  from assms(1,2) H T R show ?thesis
    unfolding Step_def FactoryInv_def InRange_def NoMarks_def
    by (auto simp: list_all_iff less_Suc_eq split: option.splits)
qed

lemma Step_push_back:
  assumes "FactoryInv Context" and "ET < length (mHeap Context)"
  shows "Step Context (push_back_Field Context ERT (Field ET Name Parent Offset))"
proof (cases "ERT < length (mHeap Context)")
  case False
  with assms(1) show ?thesis by (simp add: push_back_Field_def Step_refl)
next
  case L: True
  show ?thesis
  proof (cases "mHeap Context ! ERT")
    case None
    with L assms(1) show ?thesis by (simp add: push_back_Field_def Step_refl)
  next
    case (Some Obj)
    show ?thesis
    proof (cases "mImpl Obj")
      case (RecordType Packed Artificial AllocSize Fields)
      let ?Obj' = "Obj\<lparr>mImpl := RecordType Packed Artificial AllocSize
                                 (Fields @ [Field ET Name Parent Offset])\<rparr>"
      have P: "push_back_Field Context ERT (Field ET Name Parent Offset) =
            Context\<lparr>mHeap := (mHeap Context)[ERT := Some ?Obj']\<rparr>"
        using L Some RecordType by (simp add: push_back_Field_def)
      have O: "Some Obj \<in> set (mHeap Context)" using L Some by (metis nth_mem)
      have N: "NestedTypes (mImpl ?Obj') = NestedTypes (mImpl Obj) @ [ET]"
        using RecordType by (simp add: NestedTypes_def)
      have U: "Slot = Some ?Obj' \<or> Slot \<in> set (mHeap Context)"
        if "Slot \<in> set ((mHeap Context)[ERT := Some ?Obj'])" for Slot
        using that set_update_subset_insert [of "mHeap Context" ERT "Some ?Obj'"] by auto
      have K: "\<not> mKeep Obj"
        using assms(1) O by (auto simp: FactoryInv_def NoMarks_def list_all_iff)
      have I: "list_all (\<lambda>ET. ET < length (mHeap Context)) (NestedTypes (mImpl Obj))"
        using assms(1) O by (auto simp: FactoryInv_def InRange_def list_all_iff)
      have "NoMarks ((mHeap Context)[ERT := Some ?Obj'])"
        unfolding NoMarks_def list_all_iff
      proof
        fix Slot assume "Slot \<in> set ((mHeap Context)[ERT := Some ?Obj'])"
        from U [OF this] K assms(1)
        show "case Slot of None \<Rightarrow> True | Some Obj \<Rightarrow> \<not> mKeep Obj"
          by (auto simp: FactoryInv_def NoMarks_def list_all_iff)
      qed
      moreover have "list_all (\<lambda>Slot. case Slot of
                  None \<Rightarrow> True
                | Some Obj \<Rightarrow>
                    list_all (\<lambda>ET. ET < length (mHeap Context)) (NestedTypes (mImpl Obj)))
             ((mHeap Context)[ERT := Some ?Obj'])"
        unfolding list_all_iff
      proof
        fix Slot assume "Slot \<in> set ((mHeap Context)[ERT := Some ?Obj'])"
        from U [OF this] show "case Slot of
                  None \<Rightarrow> True
                | Some Obj \<Rightarrow>
                    Ball (set (NestedTypes (mImpl Obj))) (\<lambda>ET. ET < length (mHeap Context))"
        proof
          assume "Slot = Some ?Obj'"
          with I assms(2) N show ?thesis by (simp add: list_all_iff)
        next
          assume "Slot \<in> set (mHeap Context)"
          with assms(1) show ?thesis
            by (auto simp: FactoryInv_def InRange_def list_all_iff split: option.splits)
        qed
      qed
      ultimately show ?thesis
        using assms(1)
        unfolding P Step_def FactoryInv_def InRange_def
        by (simp add: list_all_iff cong: option.case_cong)
    qed (use L Some assms(1) in \<open>simp_all add: push_back_Field_def Step_refl\<close>)
  qed
qed

lemma Step_GetDataType:
  "FactoryInv Context \<Longrightarrow> GetDataType tb Context T = (DT, Context') \<Longrightarrow> Step Context Context'"
  by (auto simp: GetDataType_def Step_refl Step_DiagsReport
           split: option.splits Type.splits prod.splits)

lemma Step_Primitive:
  assumes "FactoryInv Context"
    and "RSExportPrimitiveType_Create tb Context T TypeName = (R, Context')"
  shows "Step Context Context' \<and> (\<forall>ET. R = Some ET \<longrightarrow> ET < length (mHeap Context'))"
proof -
  obtain DT C1 where G: "GetDataType tb Context T = (DT, C1)"
    by (cases "GetDataType tb Context T") auto
  note S1 = Step_GetDataType [OF assms(1) G]
  show ?thesis
  proof (cases "DT = DataTypeUnknown \<or> TypeName = []")
    case True
    with assms(2) G S1 show ?thesis by (auto simp: RSExportPrimitiveType_Create_def)
  next
    case False
    with assms(2) G obtain ET where
      N: "new_RSExportType C1 ExportClassPrimitive TypeName (PrimitiveType DT) = (ET, Context')"
      and R: "R = Some ET"
      by (auto simp: RSExportPrimitiveType_Create_def split: prod.splits)
    from Step_new [OF Step_Inv [OF S1] _ N] have "Step C1 Context' \<and> ET < length (mHeap Context')"
      by (simp add: NestedTypes_def)
    with S1 R show ?thesis by (auto intro: Step_trans)
  qed
qed

lemma Step_Primitive_Type:
  assumes "FactoryInv Context"
    and "RSExportPrimitiveType_Create_Type tb Context T = (R, Context')"
  shows "Step Context Context' \<and> (\<forall>ET. R = Some ET \<longrightarrow> ET < length (mHeap Context'))"
  using assms
  by (auto simp: RSExportPrimitiveType_Create_Type_def Step_refl
           split: prod.splits sum.splits option.splits if_splits
           dest: Step_Primitive)

lemma Step_Vector:
  assumes "FactoryInv Context"
    and "RSExportVectorType_Create tb Context ElementType numElements TypeName = (R, Context')"
  shows "Step Context Context' \<and> (\<forall>ET. R = Some ET \<longrightarrow> ET < length (mHeap Context'))"
proof -
  obtain DT C1 where G: "GetDataType tb Context (Some ElementType) = (DT, C1)"
    by (cases "GetDataType tb Context (Some ElementType)") auto
  note S1 = Step_GetDataType [OF assms(1) G]
  show ?thesis
  proof (cases "DT = DataTypeUnknown")
    case True
    with assms(2) G S1 show ?thesis by (auto simp: RSExportVectorType_Create_def)
  next
    case False
    with assms(2) G obtain ET where
      N: "new_RSExportType C1 ExportClassVector TypeName (VectorType DT numElements) =
            (ET, Context')"
      and R: "R = Some ET"
      by (auto simp: RSExportVectorType_Create_def split: prod.splits)
    from Step_new [OF Step_Inv [OF S1] _ N] have "Step C1 Context' \<and> ET < length (mHeap Context')"
      by (simp add: NestedTypes_def)
    with S1 R show ?thesis by (auto intro: Step_trans)
  qed
qed

lemma Step_Matrix:
  assumes "FactoryInv Context"
    and "RSExportMatrixType_Create Context RT TypeName Dim = (R, Context')"
  shows "Step Context Context' \<and> (\<forall>ET. R = Some ET \<longrightarrow> ET < length (mHeap Context'))"
proof -
  define C1 where "C1 = Assert Context (Dim > 1) ''Invalid dimension of matrix''"
  have S1: "Step Context C1" unfolding C1_def using assms(1) by (rule Step_Assert)
  note I1 = Step_Inv [OF S1]
  show ?thesis
  proof (cases R)
    case None
    with assms(2) have "Context' = C1 \<or> (\<exists>Message Args. Context' = MatrixReport C1 RT Message Args)"
      by (auto simp: RSExportMatrixType_Create_def Let_def C1_def
               split: option.splits list.splits Type.splits DeclType.splits if_splits
                      prod.splits)
    with S1 I1 None show ?thesis
      by (auto intro: Step_trans Step_MatrixReport)
  next
    case (Some ET)
    with assms(2) have
      N: "new_RSExportType C1 ExportClassMatrix TypeName (MatrixType Dim) = (ET, Context')"
      by (auto simp: RSExportMatrixType_Create_def Let_def C1_def
               split: option.splits list.splits Type.splits DeclType.splits if_splits
                      prod.splits)
    from Step_new [OF I1 _ N] have "Step C1 Context' \<and> ET < length (mHeap Context')"
      by (simp add: NestedTypes_def)
    with S1 Some show ?thesis by (auto intro: Step_trans)
  qed
qed

lemma Create_Step:
  "RSExportType_Create tb Context T = (R, Context') \<Longrightarrow> FactoryInv Context \<Longrightarrow>
     Step Context Context' \<and> (\<forall>ET. R = Some ET \<longrightarrow> ET < length (mHeap Context'))"
  "RSExportType_Create_Named tb Context T1 TypeName = (R, Context') \<Longrightarrow> FactoryInv Context \<Longrightarrow>
     Step Context Context' \<and> (\<forall>ET. R = Some ET \<longrightarrow> ET < length (mHeap Context'))"
  "RSExportPointerType_Create tb Context PointeeType TypeName = (R, Context') \<Longrightarrow>
     FactoryInv Context \<Longrightarrow>
     Step Context Context' \<and> (\<forall>ET. R = Some ET \<longrightarrow> ET < length (mHeap Context'))"
  "RSExportConstantArrayType_Create tb Context ElementType Size = (R, Context') \<Longrightarrow>
     FactoryInv Context \<Longrightarrow>
     Step Context Context' \<and> (\<forall>ET. R = Some ET \<longrightarrow> ET < length (mHeap Context'))"
  "RSExportRecordType_Create tb Context RT TypeName mIsArtificial = (R, Context') \<Longrightarrow>
     FactoryInv Context \<Longrightarrow>
     Step Context Context' \<and> (\<forall>ET. R = Some ET \<longrightarrow> ET < length (mHeap Context'))"
  "CreateFields tb Context ERT RT FDs = (R, Context') \<Longrightarrow> FactoryInv Context \<Longrightarrow>
     ERT < length (mHeap Context) \<Longrightarrow>
     Step Context Context' \<and> (\<forall>ET. R = Some ET \<longrightarrow> ET < length (mHeap Context'))"
proof (induction tb Context T and tb Context T1 TypeName and tb Context PointeeType TypeName
         and tb Context ElementType Size and tb Context RT TypeName mIsArtificial
         and tb Context ERT RT FDs
       arbitrary: R Context' and R Context' and R Context' and R Context' and R Context'
         and R Context'
       rule: RSExportType_Create_RSExportType_Create_Named_RSExportPointerType_Create_RSExportConstantArrayType_Create_RSExportRecordType_Create_CreateFields.induct)
  case (1 tb Context T)
  show ?case
  proof (cases "NormalizeType tb T False False None")
    case (Pair N ds)
    show ?thesis
    proof (cases N)
      case (Inl f)
      with Pair "1.prems" show ?thesis by (simp add: Step_refl)
    next
      case (Inr Res)
      show ?thesis
      proof (cases Res)
        case None
        with Pair Inr "1.prems" show ?thesis by (simp add: Step_refl)
      next
        case (Some TN)
        obtain T' TypeName where TN: "TN = (T', TypeName)" by (cases TN)
        from Pair Inr Some TN have N: "NormalizeType tb T False False None =
          (Inr (Some (T', TypeName)), ds)" by simp
        from "1.prems" N have "RSExportType_Create_Named tb Context T' TypeName = (R, Context')"
          by simp
        from "1.IH" [OF N [symmetric] refl refl refl this "1.prems"(2)] show ?thesis .
      qed
    qed
  qed
next
  case (2 tb Context T TypeName)
  show ?case
  proof (cases "findExportType Context TypeName")
    case (Some ET)
    with "2.prems" findExportType_InRange [OF "2.prems"(2) Some] show ?thesis
      by (auto simp: Step_refl)
  next
    case None
    show ?thesis
    proof (cases T)
      case (Builtin BT)
      with None "2.prems" show ?thesis by (auto dest: Step_Primitive)
    next
      case (Record RD)
      show ?thesis
      proof (cases "GetRSSpecificType_Name tb TypeName = DataTypeUnknown")
        case True
        with None Record "2.prems"
        have "RSExportRecordType_Create tb Context RD TypeName False = (R, Context')"
          by simp
        from "2.IH"(1) [OF None Record True this "2.prems"(2)] show ?thesis .
      next
        case False
        with None Record "2.prems" have
          "RSExportPrimitiveType_Create tb Context (Some T) TypeName = (R, Context') \<or>
           (\<exists>Dim. RSExportMatrixType_Create Context RD TypeName Dim = (R, Context'))"
          by (auto split: DataType.splits)
        with "2.prems"(2) show ?thesis by (auto dest: Step_Primitive Step_Matrix)
      qed
    next
      case (Pointer P)
      with None "2.prems"
      have "RSExportPointerType_Create tb Context P TypeName = (R, Context')"
        by simp
      from "2.IH"(2) [OF None Pointer this "2.prems"(2)] show ?thesis .
    next
      case (ExtVector E n)
      with None "2.prems" show ?thesis by (auto dest: Step_Vector)
    next
      case (ConstantArray E n)
      with None "2.prems"
      have "RSExportConstantArrayType_Create tb Context E n = (R, Context')"
        by simp
      from "2.IH"(3) [OF None ConstantArray this "2.prems"(2)] show ?thesis .
    next
      case (IncompleteArray E)
      with None "2.prems" show ?thesis by (auto simp: Step_DiagsReport)
    next
      case (EnumType N)
      with None "2.prems" show ?thesis by (auto simp: Step_DiagsReport)
    qed
  qed
next
  case (3 tb Context PointeeType TypeName)
  obtain R1 C1 where P: "(if getTypeClass PointeeType \<noteq> TC_Pointer
            then RSExportType_Create tb Context (Some PointeeType)
            else RSExportPrimitiveType_Create_Type tb Context (Some (Builtin BT_Int))) = (R1, C1)"
    by (cases "if getTypeClass PointeeType \<noteq> TC_Pointer
            then RSExportType_Create tb Context (Some PointeeType)
            else RSExportPrimitiveType_Create_Type tb Context (Some (Builtin BT_Int))") auto
  have G1: "Step Context C1 \<and> (\<forall>ET. R1 = Some ET \<longrightarrow> ET < length (mHeap C1))"
  proof (cases "getTypeClass PointeeType = TC_Pointer")
    case True
    with P have "RSExportPrimitiveType_Create_Type tb Context (Some (Builtin BT_Int)) = (R1, C1)"
      by simp
    from Step_Primitive_Type [OF "3.prems"(2) this] show ?thesis .
  next
    case False
    with P have "RSExportType_Create tb Context (Some PointeeType) = (R1, C1)" by simp
    from "3.IH" [OF False this "3.prems"(2)] show ?thesis .
  qed
  show ?case
  proof (cases R1)
    case None
    with "3.prems" P have "Context' = C1" "R = None" by simp_all
    with G1 show ?thesis by simp
  next
    case (Some PointeeET)
    with "3.prems" P obtain ET where
      N: "new_RSExportType C1 ExportClassPointer TypeName (PointerType PointeeET) = (ET, Context')"
      and R: "R = Some ET"
      by (auto split: prod.splits)
    from G1 Some have "\<forall>ET \<in> set (NestedTypes (PointerType PointeeET)). ET < length (mHeap C1)"
      by (simp add: NestedTypes_def)
    from Step_new [OF Step_Inv [OF G1 [THEN conjunct1]] this N] G1 R show ?thesis
      by (auto intro: Step_trans)
  qed
next
  case (4 tb Context0 ElementType CATSize)
  define Context1 where "Context1 = Assert Context0 (CATSize < 2 ^ 31) ''array too large''"
  define Size where "Size = CATSize mod 2 ^ 32"
  define Context where "Context = Assert Context1 (Size > 0)
                      ''Constant array should have size greater than 0''"
  obtain R1 C1 where P: "RSExportType_Create tb Context (Some ElementType) = (R1, C1)"
    by (cases "RSExportType_Create tb Context (Some ElementType)") auto
  have S01: "Step Context0 Context1"
    unfolding Context1_def using "4.prems"(2) by (rule Step_Assert)
  have S1: "Step Context1 Context"
    unfolding Context_def using Step_Inv [OF S01] by (rule Step_Assert)
  have G0: "Step Context0 Context" using S01 S1 by (rule Step_trans)
  have G1: "Step Context C1 \<and> (\<forall>ET. R1 = Some ET \<longrightarrow> ET < length (mHeap C1))"
    using "4.IH" [OF Context1_def Size_def Context_def P Step_Inv [OF G0]] .
  show ?case
  proof (cases R1)
    case None
    with "4.prems" P have "Context' = C1" "R = None"
      by (simp_all add: Let_def Context_def Context1_def Size_def)
    with G0 G1 show ?thesis by (auto intro: Step_trans)
  next
    case (Some ElementET)
    with "4.prems" P obtain ET where
      N: "new_RSExportType C1 ExportClassConstantArray DUMMY_TYPE_NAME_FOR_RS_CONSTANT_ARRAY_TYPE
         (ConstantArrayType ElementET Size) = (ET, Context')"
      and R: "R = Some ET"
      by (auto simp: Let_def Context_def Context1_def Size_def split: prod.splits)
    from G1 Some
    have "\<forall>ET \<in> set (NestedTypes (ConstantArrayType ElementET Size)). ET < length (mHeap C1)"
      by (simp add: NestedTypes_def)
    from Step_new [OF Step_Inv [OF G1 [THEN conjunct1]] this N] G0 G1 R show ?thesis
      by (auto intro: Step_trans)
  qed
next
  case (5 tb Context0 RT TypeName mIsArtificial)
  define Context where "Context = Assert Context0 (getTagKind RT = TTK_Struct) ''RD->isStruct()''"
  have G0: "Step Context0 Context"
    unfolding Context_def using "5.prems"(2) by (rule Step_Assert)
  show ?case
  proof (cases "getDefinition RT")
    case None
    with "5.prems" have "Context' =
        DiagsReport Context (AssertFailed ''struct is not defined in this module'')" "R = None"
      by (simp_all add: Let_def Context_def)
    with G0 Step_DiagsReport [OF Step_Inv [OF G0]] show ?thesis by (auto intro: Step_trans)
  next
    case (Some RD)
    obtain ERT C1 where N: "new_RSExportType Context ExportClassRecord TypeName
                  (RecordType (hasPackedAttr RD) mIsArtificial (getSizeInBits RD div 8) []) =
                  (ERT, C1)"
      by (cases "new_RSExportType Context ExportClassRecord TypeName
                  (RecordType (hasPackedAttr RD) mIsArtificial (getSizeInBits RD div 8) [])") auto
    with "5.prems" Some have F: "CreateFields tb C1 ERT RT (getFields RD) = (R, Context')"
      by (simp add: Let_def Context_def)
    have S1: "Step Context C1 \<and> ERT < length (mHeap C1)"
      using Step_new [OF Step_Inv [OF G0] _ N] by (simp add: NestedTypes_def)
    from "5.IH" [OF Context_def Some N [symmetric] F Step_Inv [OF S1 [THEN conjunct1]]] S1 G0
    show ?thesis by (auto intro: Step_trans)
  qed
next
  case (6 tb Context ERT RT)
  then show ?case by (auto simp: Step_refl)
next
  case (7 tb Context ERT RT FD FDs)
  show ?case
  proof (cases "isBitField FD")
    case True
    with "7.prems" show ?thesis by (auto simp: Step_delete)
  next
    case False
    obtain R1 C1 where
      P: "RSExportType_Create tb Context (GET_CANONICAL_TYPE (getTypeOfDecl FD)) = (R1, C1)"
      by (cases "RSExportType_Create tb Context (GET_CANONICAL_TYPE (getTypeOfDecl FD))") auto
    have G1: "Step Context C1 \<and> (\<forall>ET. R1 = Some ET \<longrightarrow> ET < length (mHeap C1))"
      using "7.IH"(1) [OF False P "7.prems"(2)] .
    note I1 = Step_Inv [OF G1 [THEN conjunct1]]
    show ?thesis
    proof (cases R1)
      case None
      with "7.prems" False P have C: "Context' = delete_RSExportType
                  (DiagsReport C1
                     (Report (Some (getName RT)) MsgFieldNotExported
                        [StrArg (getName RT), StrArg (getFieldName FD)]))
                  ERT" and R: "R = None"
        by simp_all
      have "Step C1 Context'"
        unfolding C
        by (rule Step_trans [OF Step_DiagsReport [OF I1]
                                Step_delete [OF Step_Inv [OF Step_DiagsReport [OF I1]]]])
      with G1 R show ?thesis by (auto intro: Step_trans)
    next
      case (Some ET)
      let ?C2 = "push_back_Field C1 ERT
                    (Field ET (getFieldName FD) ERT (getFieldOffset FD div 8))"
      from Some "7.prems" False P have F: "CreateFields tb ?C2 ERT RT FDs = (R, Context')"
        by simp
      from G1 Some have E: "ET < length (mHeap C1)" by simp
      have S2: "Step C1 ?C2" using I1 E by (rule Step_push_back)
      have L: "ERT < length (mHeap ?C2)"
        using Step_length [OF Step_trans [OF G1 [THEN conjunct1] S2] "7.prems"(3)] .
      from "7.IH"(2) [OF False P [symmetric] Some F Step_Inv [OF S2] L] G1 S2
      show ?thesis by (auto intro: Step_trans)
    qed
  qed
qed

lemma FactoryInv_Empty: "FactoryInv EmptyContext"
  by (simp add: FactoryInv_def NoMarks_def InRange_def EmptyContext_def)

lemma FactoryInv_KeptClosed: "FactoryInv Context \<Longrightarrow> KeptClosed (mHeap Context)"
  by (rule KeptClosed_unmarked) (auto simp: FactoryInv_def NoMarks_def list_all_iff)

lemma FactoryInv_NoDangling:
  assumes "FactoryInv Context" and "list_all (\<lambda>Slot. Slot \<noteq> None) (mHeap Context)"
  shows "NoDangling (mHeap Context)"
proof -
  have "deref (mHeap Context) a \<noteq> None" if "a < length (mHeap Context)" for a
    using that assms(2) by (auto simp: deref_def list_all_iff dest: nth_mem)
  with assms(1) show ?thesis
    unfolding NoDangling_def FactoryInv_def InRange_def
    by (auto simp: list_all_iff split: option.splits)
qed

lemma factory_heap_closed:
  assumes "FactoryInv Context" and "RSExportType_Create tb Context T = (R, Context')"
  shows "FactoryInv Context' \<and> KeptClosed (mHeap Context') \<and>
         (list_all (\<lambda>Slot. Slot \<noteq> None) (mHeap Context') \<longrightarrow>
            NoDangling (mHeap Context') \<and>
            (\<forall>ET. R = Some ET \<longrightarrow> deref (mHeap Context') ET \<noteq> None))"
proof -
  from Create_Step(1) [OF assms(2,1)]
  have I: "FactoryInv Context'" and L: "\<forall>ET. R = Some ET \<longrightarrow> ET < length (mHeap Context')"
    by (simp_all add: Step_def)
  have "deref (mHeap Context') ET \<noteq> None"
    if "list_all (\<lambda>Slot. Slot \<noteq> None) (mHeap Context')" "R = Some ET" for ET
    using that L by (auto simp: deref_def list_all_iff dest: nth_mem)
  with I FactoryInv_KeptClosed [OF I] FactoryInv_NoDangling [OF I] show ?thesis by blast
qed

lemma factory_heap_example:
  "FactoryInv EmptyContext \<and>
   RSExportType_Create SampleTables EmptyContext (Some StructFloat4) =
     (Some 0, \<lparr>mExportTypes = [(''float4'', 0)], mHeap = Float4Heap, mDiagnostics = []\<rparr>) \<and>
   list_all (\<lambda>Slot. Slot \<noteq> None) Float4Heap \<and> KeptClosed Float4Heap \<and>
   NoDangling Float4Heap \<and> deref Float4Heap 0 \<noteq> None"
proof -
  have C: "RSExportType_Create SampleTables EmptyContext (Some StructFloat4) =
     (Some 0, \<lparr>mExportTypes = [(''float4'', 0)], mHeap = Float4Heap, mDiagnostics = []\<rparr>)"
    by code_simp
  have N: "list_all (\<lambda>Slot. Slot \<noteq> None) Float4Heap" by code_simp
  from factory_heap_closed [OF FactoryInv_Empty C] N C FactoryInv_Empty show ?thesis by simp
qed

text \<open>
  Claim C8. Whenever a call of \<open>keep\<close> on an export type returns, its result is true
  exactly when the type had no mark, the type is marked afterwards, and calling \<open>keep\<close>
  any number \<open>N \<ge> 1\<close> of times gives the heap that the one call gives. When the call has
  set the mark (or the marks of the heap were closed), the pointee of a pointer, the
  element type of an array and every field type of a record are marked afterwards; when
  the marks of the heap were closed, they are closed again and every type reachable from
  the type is marked. The call returns when the heap has no dangling reference and the
  type is a live object, with a number of nested calls above the number of unmarked
  objects: also on a heap with a cycle.
\<close>

theorem keep_idempotent_recursive:
  "(keep n H ET = Some (r, H') \<longrightarrow>
      r = (\<not> isKeep H ET) \<and> isKeep H' ET \<and>
      (\<forall>N. KeepTimes (Suc N) n H ET = Some H') \<and>
      (r \<or> KeptClosed H \<longrightarrow>
         (\<forall>This. deref H ET = Some This \<longrightarrow>
            list_all (isKeep H') (NestedTypes (mImpl This)))) \<and>
      (KeptClosed H \<longrightarrow>
         KeptClosed H' \<and> (\<forall>m. list_all (isKeep H') (Reachable m H' ET)))) \<and>
   (NoDangling H \<and> deref H ET \<noteq> None \<and> Unmarked H < n \<longrightarrow>
      (\<exists>r H'. keep n H ET = Some (r, H')))"
proof -
  have total: "\<exists>r H'. keep n H ET = Some (r, H')"
    if "NoDangling H \<and> deref H ET \<noteq> None \<and> Unmarked H < n"
    using that by (auto intro: keep_returns_live)
  have part: "r = (\<not> isKeep H ET) \<and> isKeep H' ET \<and>
      (\<forall>N. KeepTimes (Suc N) n H ET = Some H') \<and>
      (r \<or> KeptClosed H \<longrightarrow>
         (\<forall>This. deref H ET = Some This \<longrightarrow>
            list_all (isKeep H') (NestedTypes (mImpl This)))) \<and>
      (KeptClosed H \<longrightarrow>
         KeptClosed H' \<and> (\<forall>m. list_all (isKeep H') (Reachable m H' ET)))"
    if K: "keep n H ET = Some (r, H')"
  proof -
    note I = keep_isKeep [OF K]
    have N: "list_all (isKeep H') (NestedTypes (mImpl This))"
      if R: "r \<or> KeptClosed H" and T: "deref H ET = Some This" for This
    proof (cases r)
      case True
      with K T keep_nested [of n H ET H' This] show ?thesis by (simp add: list_all_iff)
    next
      case False
      with I T have k: "mKeep This" by (simp add: isKeep_def)
      from False R have C: "KeptClosed H" by simp
      from KeptClosed_nested [OF C T k] Marks_isKeep [OF keep_Marks [OF K]]
      show ?thesis by (simp add: list_all_iff)
    qed
    have C': "KeptClosed H'" if C: "KeptClosed H"
      using keep_closed [OF K, of "{}"] C by (simp add: KeptClosed_ClosedExcept)
    have R: "list_all (isKeep H') (Reachable m H' ET)" if C: "KeptClosed H" for m
      using Reachable_kept [OF C' [OF C], of ET m] I by (simp add: list_all_iff)
    from I KeepTimes_once [OF K] N C' R show ?thesis by blast
  qed
  from total part show ?thesis by blast
qed

theorem keep_idempotent_recursive_witness:
  "NoDangling Float4Heap \<and> Unmarked Float4Heap < 2 \<and> KeptClosed Float4Heap \<and>
   keep 2 Float4Heap 0 =
     Some (True, [Some \<lparr>mClass = ExportClassRecord, mName = ''float4'', mKeep = True,
                          mLLVMType = None,
                          mImpl = RecordType False False 16 [Field 0 ''v'' 0 0]\<rparr>]) \<and>
   KeepTimes 3 2 Float4Heap 0 =
     Some [Some \<lparr>mClass = ExportClassRecord, mName = ''float4'', mKeep = True,
                   mLLVMType = None,
                   mImpl = RecordType False False 16 [Field 0 ''v'' 0 0]\<rparr>] \<and>
   KeptClosed [Some \<lparr>mClass = ExportClassRecord, mName = ''float4'', mKeep = True,
                      mLLVMType = None,
                      mImpl = RecordType False False 16 [Field 0 ''v'' 0 0]\<rparr>] \<and>
   (\<exists>H'. keep 5 SampleHeap 3 = Some (True, H') \<and> isKeep H' 3 \<and> isKeep H' 1 \<and>
      isKeep H' 0 \<and> KeepTimes 2 5 SampleHeap 3 = Some H' \<and> KeptClosed H')"
proof -
  define H1 where "H1 = [Some \<lparr>mClass = ExportClassRecord, mName = ''float4'', mKeep = True,
                      mLLVMType = None,
                      mImpl = RecordType False False 16 [Field 0 ''v'' 0 0]\<rparr>]"
  have 1: "NoDangling Float4Heap" by code_simp
  have 2: "deref Float4Heap 0 \<noteq> None" by code_simp
  have 3: "Unmarked Float4Heap < 2" by code_simp
  have 4: "KeptClosed Float4Heap" by code_simp
  note T = keep_idempotent_recursive [of 2 Float4Heap 0]
  from T 1 2 3 obtain r H' where K: "keep 2 Float4Heap 0 = Some (r, H')" by blast
  have "keep 2 Float4Heap 0 = Some (True, H1)" unfolding H1_def by code_simp
  with K have rH: "r = True" "H' = H1" by simp_all
  note T1 = keep_idempotent_recursive [of 2 Float4Heap 0 r H']
  from T1 K have "\<forall>N. KeepTimes (Suc N) 2 Float4Heap 0 = Some H'" by blast
  then have "KeepTimes (Suc 2) 2 Float4Heap 0 = Some H'" by blast
  then have a: "KeepTimes 3 2 Float4Heap 0 = Some H1" using rH by (simp add: numeral_3_eq_3)
  from T1 K 4 have b: "KeptClosed H1" using rH by blast
  have S1: "NoDangling SampleHeap" by code_simp
  have S2: "deref SampleHeap 3 \<noteq> None" by code_simp
  have S3: "Unmarked SampleHeap < 5" by code_simp
  have S4: "KeptClosed SampleHeap" by code_simp
  have S5: "\<not> isKeep SampleHeap 3" by code_simp
  note U = keep_idempotent_recursive [of 5 SampleHeap 3]
  from U S1 S2 S3 obtain r2 H2 where K2: "keep 5 SampleHeap 3 = Some (r2, H2)" by blast
  note U1 = keep_idempotent_recursive [of 5 SampleHeap 3 r2 H2]
  from U1 K2 S5 have r2: "r2" by blast
  from U1 K2 have k3: "isKeep H2 3" by blast
  from U1 K2 have "\<forall>N. KeepTimes (Suc N) 5 SampleHeap 3 = Some H2" by blast
  then have "KeepTimes (Suc 1) 5 SampleHeap 3 = Some H2" by blast
  then have t2: "KeepTimes 2 5 SampleHeap 3 = Some H2" by (simp add: numeral_2_eq_2)
  from U1 K2 S4 have c2: "KeptClosed H2" by blast
  have "deref SampleHeap 3 = Some \<lparr>mClass = ExportClassPointer, mName = ''*A'',
             mKeep = False, mLLVMType = Some 9, mImpl = PointerType 1\<rparr>" by code_simp
  with U1 K2 r2 have "list_all (isKeep H2)
      (NestedTypes (mImpl \<lparr>mClass = ExportClassPointer, mName = ''*A'',
             mKeep = False, mLLVMType = Some 9, mImpl = PointerType 1\<rparr>))" by blast
  then have k1: "isKeep H2 1" by (simp add: NestedTypes_def)
  have "keep 5 SampleHeap 3 \<noteq> None \<longrightarrow>
        Reachable 2 (snd (the (keep 5 SampleHeap 3))) 3 = [3, 1, 0]" by code_simp
  with K2 have "Reachable 2 H2 3 = [3, 1, 0]" by simp
  moreover from U1 K2 S4 have "list_all (isKeep H2) (Reachable 2 H2 3)" by blast
  ultimately have k0: "isKeep H2 0" by simp
  from K2 r2 k3 k1 k0 t2 c2
  have e: "\<exists>H'. keep 5 SampleHeap 3 = Some (True, H') \<and> isKeep H' 3 \<and> isKeep H' 1 \<and>
      isKeep H' 0 \<and> KeepTimes 2 5 SampleHeap 3 = Some H' \<and> KeptClosed H'"
    by auto
  from K rH have k: "keep 2 Float4Heap 0 = Some (True, H1)" by simp
  from 1 3 4 k a b e show ?thesis unfolding H1_def by blast
qed

end
